theory Spec2Isabelle
  imports Main "HOL-Library.Sublist"
begin

section \<open>Strings\<close>

text \<open>
  A JavaScript string is modelled as a \<^typ>\<open>string\<close>: the list of the bytes of its UTF-8
  encoding. The ASCII characters the program searches for (brackets, braces, the
  substrings of the demo session, the patterns of the technology table) are single bytes
  that never occur inside a multi-byte sequence, so searching the bytes finds what
  searching the UTF-16 code units finds.
\<close>

definition toLowerChar :: "char \<Rightarrow> char" where
  "toLowerChar c =
     (let n = (of_char c :: nat) in if 65 \<le> n \<and> n \<le> 90 then char_of (n + 32) else c)"

text \<open>
  \<open>toLowerChar\<close> is the lowercase of an ASCII letter. \<open>String.prototype.toLowerCase\<close>
  follows the case mappings of Unicode (it maps the Kelvin sign U+212A to \<open>k\<close>, for
  one), and is taken from the platform: it is the field \<open>toLowerCase\<close> of the record
  \<open>runtime\<close> below.
\<close>

definition ascii :: "string \<Rightarrow> bool" where
  "ascii s = list_all (\<lambda>c. (of_char c :: nat) < 128) s"

text \<open>
  A string occurs in a text when the text is some text, the string, some text.
\<close>

definition occurs_in :: "string \<Rightarrow> string \<Rightarrow> bool" where
  "occurs_in p s = (\<exists>pre post. s = pre @ p @ post)"

text \<open>\<open>s.includes(p)\<close>: \<open>p\<close> occurs in \<open>s\<close> as a contiguous substring.\<close>

fun str_includes :: "string \<Rightarrow> string \<Rightarrow> bool" where
  "str_includes [] p = (p = [])"
| "str_includes (c # cs) p = (prefix p (c # cs) \<or> str_includes cs p)"

text \<open>\<open>s.replace(pat, rep)\<close> with a string pattern: only the first occurrence is replaced.\<close>

fun replace_first :: "string \<Rightarrow> string \<Rightarrow> string \<Rightarrow> string" where
  "replace_first pat rep [] = (if pat = [] then rep else [])"
| "replace_first pat rep (c # cs) =
     (if prefix pat (c # cs) then rep @ drop (length pat) (c # cs)
      else c # replace_first pat rep cs)"

text \<open>\<open>xs.join(sep)\<close> on a list of strings.\<close>

fun join_with :: "string \<Rightarrow> string list \<Rightarrow> string" where
  "join_with sep [] = []"
| "join_with sep [x] = x"
| "join_with sep (x # y # ys) = x @ sep @ join_with sep (y # ys)"

text \<open>The decimal digits of a natural number, as a template literal prints it.\<close>

fun decimal :: "nat \<Rightarrow> string" where
  "decimal n =
     (if n < 10 then [char_of (48 + n)] else decimal (n div 10) @ [char_of (48 + n mod 10)])"

declare decimal.simps [simp del]

section \<open>JSON values and the platform's parser\<close>

text \<open>
  \<open>JSON.parse\<close> belongs to the platform, not to the repository. It is modelled after
  the JSON grammar (ECMA-404): a tokenizer followed by a one-pass stack machine over the
  tokens. A number is kept as its lexeme and an object as its members in the order
  written, so equality of two values of type \<open>json\<close> implies deep equality of the two
  JavaScript values. \<open>None\<close> stands for the \<open>SyntaxError\<close> that \<open>JSON.parse\<close> throws.
\<close>

datatype json =
    JNull
  | JBool bool
  | JNumber string
  | JString string
  | JArray "json list"
  | JObject "(string \<times> json) list"

text \<open>
  The tokens: the six structural characters, and a scalar value (a literal name, a
  number or a string).
\<close>

datatype token = TLBracket | TRBracket | TLBrace | TRBrace | TComma | TColon | TValue json

text \<open>
  JSON whitespace is the space, the tab, the line feed and the carriage return.
\<close>

definition is_ws :: "char \<Rightarrow> bool" where
  "is_ws c = (c = CHR '' '' \<or> c = CHR 0x09 \<or> c = CHR 0x0A \<or> c = CHR 0x0D)"

definition is_digit :: "char \<Rightarrow> bool" where
  "is_digit c = (let n = (of_char c :: nat) in 48 \<le> n \<and> n \<le> 57)"

definition hex_val :: "char \<Rightarrow> nat option" where
  "hex_val c = (let n = (of_char c :: nat) in
     if 48 \<le> n \<and> n \<le> 57 then Some (n - 48)
     else if 65 \<le> n \<and> n \<le> 70 then Some (n - 55)
     else if 97 \<le> n \<and> n \<le> 102 then Some (n - 87)
     else None)"

fun hex4 :: "string \<Rightarrow> nat option" where
  "hex4 (a # b # c # d # _) =
     (case (hex_val a, hex_val b, hex_val c, hex_val d) of
        (Some w, Some x, Some y, Some z) \<Rightarrow> Some (((w * 16 + x) * 16 + y) * 16 + z)
      | _ \<Rightarrow> None)"
| "hex4 _ = None"

text \<open>
  The body of a string, after its opening quote: the characters up to the closing quote
  and the rest of the input. An unescaped control character, an unknown escape and a
  missing closing quote are errors. An escape with four hexadecimal digits gives a UTF-16 code unit; two
  such escapes that form a surrogate pair are one character, and every unit or pair is
  stored as its UTF-8 bytes.
\<close>

datatype str_unit = Raw char | Esc nat

definition escape_char :: "char \<Rightarrow> char option" where
  \<open>escape_char e =
     (if e = CHR ''"'' then Some (CHR ''"'')
      else if e = CHR 0x5C then Some (CHR 0x5C)
      else if e = CHR ''/'' then Some (CHR ''/'')
      else if e = CHR ''b'' then Some (CHR 0x08)
      else if e = CHR ''f'' then Some (CHR 0x0C)
      else if e = CHR ''n'' then Some (CHR 0x0A)
      else if e = CHR ''r'' then Some (CHR 0x0D)
      else if e = CHR ''t'' then Some (CHR 0x09)
      else None)\<close>

fun scan_string :: "string \<Rightarrow> (str_unit list \<times> string) option" where
  "scan_string [] = None"
| \<open>scan_string (c # cs) =
     (if c = CHR ''"'' then Some ([], cs)
      else if c = CHR 0x5C then
        (case cs of
           [] \<Rightarrow> None
         | e # cs' \<Rightarrow>
             if e = CHR ''u'' then
               (case hex4 cs' of
                  None \<Rightarrow> None
                | Some n \<Rightarrow> map_option (\<lambda>(us, r). (Esc n # us, r)) (scan_string (drop 4 cs')))
             else
               (case escape_char e of
                  None \<Rightarrow> None
                | Some d \<Rightarrow> map_option (\<lambda>(us, r). (Raw d # us, r)) (scan_string cs')))
      else if (of_char c :: nat) < 32 then None
      else map_option (\<lambda>(us, r). (Raw c # us, r)) (scan_string cs))\<close>

definition utf8 :: "nat \<Rightarrow> string" where
  "utf8 n =
     (if n < 0x80 then [char_of n]
      else if n < 0x800 then [char_of (0xC0 + n div 64), char_of (0x80 + n mod 64)]
      else if n < 0x10000 then
        [char_of (0xE0 + n div 4096), char_of (0x80 + (n div 64) mod 64), char_of (0x80 + n mod 64)]
      else
        [char_of (0xF0 + n div 262144), char_of (0x80 + (n div 4096) mod 64),
         char_of (0x80 + (n div 64) mod 64), char_of (0x80 + n mod 64)])"

fun decode_units :: "str_unit list \<Rightarrow> string" where
  "decode_units [] = []"
| "decode_units (Raw c # us) = c # decode_units us"
| "decode_units (Esc hi # Esc lo # us) =
     (if 0xD800 \<le> hi \<and> hi < 0xDC00 \<and> 0xDC00 \<le> lo \<and> lo < 0xE000
      then utf8 (0x10000 + (hi - 0xD800) * 0x400 + (lo - 0xDC00)) @ decode_units us
      else utf8 hi @ decode_units (Esc lo # us))"
| "decode_units (Esc n # us) = utf8 n @ decode_units us"

text \<open>
  A number is an optional minus sign, an integer part (a zero, or digits that do not
  start with a zero), an optional fraction and an optional exponent. The scanners return
  what they read and the rest of the input; a fraction or exponent that is not complete
  is not read, and the character left behind makes the tokenizer fail.
\<close>

definition scan_int :: "string \<Rightarrow> (string \<times> string) option" where
  "scan_int s =
     (case s of
        [] \<Rightarrow> None
      | c # cs \<Rightarrow>
          if c = CHR ''0'' then Some ([c], cs)
          else if is_digit c then Some (c # takeWhile is_digit cs, dropWhile is_digit cs)
          else None)"

definition scan_frac :: "string \<Rightarrow> string \<times> string" where
  "scan_frac s =
     (case s of
        p # d # cs \<Rightarrow>
          if p = CHR ''.'' \<and> is_digit d
          then (p # d # takeWhile is_digit cs, dropWhile is_digit cs)
          else ([], s)
      | _ \<Rightarrow> ([], s))"

definition scan_exp :: "string \<Rightarrow> string \<times> string" where
  "scan_exp s =
     (case s of
        e # cs \<Rightarrow>
          if e = CHR ''e'' \<or> e = CHR ''E'' then
            (case cs of
               g # cs' \<Rightarrow>
                 if is_digit g then (e # g # takeWhile is_digit cs', dropWhile is_digit cs')
                 else if g = CHR ''+'' \<or> g = CHR ''-'' then
                   (case cs' of
                      d # ds \<Rightarrow>
                        if is_digit d
                        then (e # g # d # takeWhile is_digit ds, dropWhile is_digit ds)
                        else ([], s)
                    | [] \<Rightarrow> ([], s))
                 else ([], s)
             | [] \<Rightarrow> ([], s))
          else ([], s)
      | [] \<Rightarrow> ([], s))"

definition scan_number :: "string \<Rightarrow> (string \<times> string) option" where
  "scan_number s =
     (let (sign, s1) = (case s of c # cs \<Rightarrow> if c = CHR ''-'' then ([c], cs) else ([], s) | [] \<Rightarrow> ([], s))
      in case scan_int s1 of
           None \<Rightarrow> None
         | Some (ip, s2) \<Rightarrow>
             (let (fp, s3) = scan_frac s2; (ep, s4) = scan_exp s3
              in Some (sign @ ip @ fp @ ep, s4)))"


text \<open>
  A scanner that succeeds consumes input; the tokenizer terminates for that reason.
\<close>

lemma scan_string_length: "scan_string s = Some (us, r) \<Longrightarrow> length r < length s"
proof (induction "length s" arbitrary: s us r rule: less_induct)
  case less
  show ?case
  proof (cases s)
    case Nil
    with less.prems show ?thesis by simp
  next
    case (Cons c cs)
    have step: "scan_string t = Some (vs, r) \<Longrightarrow> length t \<le> length cs \<Longrightarrow> length r < length s" for t vs
      using less.hyps [of t vs r] Cons by simp
    show ?thesis
      using less.prems unfolding Cons
      by (auto split: if_splits list.splits option.splits dest!: step simp: Cons)
  qed
qed

lemma scan_frac_length: "scan_frac s = (l, r) \<Longrightarrow> length r \<le> length s"
  by (auto simp: scan_frac_def split: list.splits if_splits
      intro: le_trans [OF length_dropWhile_le])

lemma scan_exp_length: "scan_exp s = (l, r) \<Longrightarrow> length r \<le> length s"
  by (auto simp: scan_exp_def split: list.splits if_splits
      intro: le_trans [OF length_dropWhile_le])

lemma scan_int_length: "scan_int s = Some (l, r) \<Longrightarrow> length r < length s"
  by (auto simp: scan_int_def split: list.splits if_splits
      intro: le_imp_less_Suc [OF length_dropWhile_le])

lemma scan_number_length: "scan_number s = Some (l, r) \<Longrightarrow> length r < length s"
proof -
  assume a: "scan_number s = Some (l, r)"
  obtain sg s1 where sg: "(case s of c # cs \<Rightarrow> if c = CHR ''-'' then ([c], cs) else ([], s) | [] \<Rightarrow> ([], s)) = (sg, s1)"
    by (cases "(case s of c # cs \<Rightarrow> if c = CHR ''-'' then ([c], cs) else ([], s) | [] \<Rightarrow> ([], s))")
  then have l1: "length s1 \<le> length s"
    by (auto split: list.splits if_splits)
  from a sg obtain ip s2 where ip: "scan_int s1 = Some (ip, s2)"
    by (auto simp: scan_number_def split: option.splits)
  obtain fp s3 where fp: "scan_frac s2 = (fp, s3)" by (cases "scan_frac s2")
  obtain ep s4 where ep: "scan_exp s3 = (ep, s4)" by (cases "scan_exp s3")
  from a sg ip fp ep have "r = s4" by (simp add: scan_number_def)
  with scan_int_length [OF ip] scan_frac_length [OF fp] scan_exp_length [OF ep] l1
  show ?thesis by simp
qed

function tokenize :: "string \<Rightarrow> token list option" where
  "tokenize [] = Some []"
| \<open>tokenize (c # cs) =
     (if is_ws c then tokenize cs
      else if c = CHR ''['' then map_option ((#) TLBracket) (tokenize cs)
      else if c = CHR '']'' then map_option ((#) TRBracket) (tokenize cs)
      else if c = CHR ''{'' then map_option ((#) TLBrace) (tokenize cs)
      else if c = CHR ''}'' then map_option ((#) TRBrace) (tokenize cs)
      else if c = CHR '','' then map_option ((#) TComma) (tokenize cs)
      else if c = CHR '':'' then map_option ((#) TColon) (tokenize cs)
      else if c = CHR ''"'' then
        (case scan_string cs of
           None \<Rightarrow> None
         | Some (us, r) \<Rightarrow> map_option ((#) (TValue (JString (decode_units us)))) (tokenize r))
      else if c = CHR ''-'' \<or> is_digit c then
        (case scan_number (c # cs) of
           None \<Rightarrow> None
         | Some (l, r) \<Rightarrow> map_option ((#) (TValue (JNumber l))) (tokenize r))
      else if prefix ''true'' (c # cs) then map_option ((#) (TValue (JBool True))) (tokenize (drop 3 cs))
      else if prefix ''false'' (c # cs) then map_option ((#) (TValue (JBool False))) (tokenize (drop 4 cs))
      else if prefix ''null'' (c # cs) then map_option ((#) (TValue JNull)) (tokenize (drop 3 cs))
      else None)\<close>
  by pat_completeness auto
termination
proof (relation "measure length")
  show "wf (measure length)" by simp
next
  fix c cs x2 x y
  assume "scan_string cs = Some x2" "(x, y) = x2"
  then show "(y, c # cs) \<in> measure length"
    using scan_string_length [of cs x y] by simp
next
  fix c cs x2 x y
  assume "scan_number (c # cs) = Some x2" "(x, y) = x2"
  then show "(y, c # cs) \<in> measure length"
    using scan_number_length [of "c # cs" x y] by simp
qed simp_all

text \<open>
  The parser reads the tokens once, with a stack of the containers that are open: an
  array with its elements so far, an object with its members so far, an object that has
  read a key and waits for the value. The mode says what may come next: a value; a value
  or the end of an empty array; a key or the end of an empty object; a key; a colon; a
  comma or the end of the innermost container; nothing, the value being complete.
\<close>

datatype frame = FArr "json list" | FObj "(string \<times> json) list" | FKey "(string \<times> json) list" string

datatype mode = MValue | MValueOrEnd | MKeyOrEnd | MKey | MColon | MAfter | MDone json

text \<open>
  A completed value goes to the innermost open container, or is the result when none is
  open. Elements and members are collected in reverse.
\<close>

fun push_value :: "json \<Rightarrow> frame list \<Rightarrow> (mode \<times> frame list) option" where
  "push_value v [] = Some (MDone v, [])"
| "push_value v (FArr xs # st) = Some (MAfter, FArr (v # xs) # st)"
| "push_value v (FKey ms k # st) = Some (MAfter, FObj ((k, v) # ms) # st)"
| "push_value v (FObj ms # st) = None"

definition start_value :: "token \<Rightarrow> frame list \<Rightarrow> (mode \<times> frame list) option" where
  "start_value t st =
     (case t of
        TValue v \<Rightarrow> push_value v st
      | TLBracket \<Rightarrow> Some (MValueOrEnd, FArr [] # st)
      | TLBrace \<Rightarrow> Some (MKeyOrEnd, FObj [] # st)
      | _ \<Rightarrow> None)"

definition close_array :: "frame list \<Rightarrow> (mode \<times> frame list) option" where
  "close_array st =
     (case st of FArr xs # st' \<Rightarrow> push_value (JArray (rev xs)) st' | _ \<Rightarrow> None)"

definition close_object :: "frame list \<Rightarrow> (mode \<times> frame list) option" where
  "close_object st =
     (case st of FObj ms # st' \<Rightarrow> push_value (JObject (rev ms)) st' | _ \<Rightarrow> None)"

definition read_key :: "token \<Rightarrow> frame list \<Rightarrow> (mode \<times> frame list) option" where
  "read_key t st =
     (case t of
        TValue (JString k) \<Rightarrow>
          (case st of FObj ms # st' \<Rightarrow> Some (MColon, FKey ms k # st') | _ \<Rightarrow> None)
      | _ \<Rightarrow> None)"

fun parse_step :: "mode \<times> frame list \<Rightarrow> token \<Rightarrow> (mode \<times> frame list) option" where
  "parse_step (MValue, st) t = start_value t st"
| "parse_step (MValueOrEnd, st) t = (if t = TRBracket then close_array st else start_value t st)"
| "parse_step (MKeyOrEnd, st) t = (if t = TRBrace then close_object st else read_key t st)"
| "parse_step (MKey, st) t = read_key t st"
| "parse_step (MColon, st) t = (if t = TColon then Some (MValue, st) else None)"
| "parse_step (MAfter, st) t =
     (case st of
        FArr xs # st' \<Rightarrow>
          if t = TComma then Some (MValue, st)
          else if t = TRBracket then close_array st
          else None
      | FObj ms # st' \<Rightarrow>
          if t = TComma then Some (MKey, st)
          else if t = TRBrace then close_object st
          else None
      | _ \<Rightarrow> None)"
| "parse_step (MDone v, st) t = None"

fun parse_tokens :: "mode \<times> frame list \<Rightarrow> token list \<Rightarrow> json option" where
  "parse_tokens (MDone v, st) [] = Some v"
| "parse_tokens _ [] = None"
| "parse_tokens ps (t # ts) =
     (case parse_step ps t of None \<Rightarrow> None | Some ps' \<Rightarrow> parse_tokens ps' ts)"

definition JSON_parse :: "string \<Rightarrow> json option" where
  "JSON_parse s =
     (case tokenize s of None \<Rightarrow> None | Some ts \<Rightarrow> parse_tokens (MValue, []) ts)"

text \<open>The parser on a few texts.\<close>

lemma JSON_parse_examples:
  \<open>JSON_parse ''[1, -2.5e3, "a", true, null, {"k": []}]''
     = Some (JArray [JNumber ''1'', JNumber ''-2.5e3'', JString ''a'', JBool True, JNull,
                     JObject [(''k'', JArray [])]])\<close>
  \<open>JSON_parse '' {"a" : {"b" : [ ]}} '' = Some (JObject [(''a'', JObject [(''b'', JArray [])])])\<close>
  \<open>JSON_parse ''[1,]'' = None\<close>
  \<open>JSON_parse ''[01]'' = None\<close>
  \<open>JSON_parse ''[1 2]'' = None\<close>
  \<open>JSON_parse ''{"a": 1,}'' = None\<close>
  \<open>JSON_parse ''{a: 1}'' = None\<close>
  \<open>JSON_parse ''[1] x'' = None\<close>
  \<open>JSON_parse ''[[1]'' = None\<close>
  \<open>JSON_parse [] = None\<close>
  by code_simp+

section \<open>Response extraction\<close>

text \<open>
  \<open>message.match(/\[[\s\S]*?\]/)\<close>: the leftmost opening bracket, then lazily up to the
  first closing bracket after it. When the leftmost opening bracket has no closing bracket
  after it, no later one has, and the result is \<open>null\<close>.
\<close>

definition match_array :: "string \<Rightarrow> string option" where
  "match_array s =
     (case dropWhile (\<lambda>c. c \<noteq> CHR ''['') s of
        [] \<Rightarrow> None
      | b # r \<Rightarrow>
          if CHR '']'' \<in> set r
          then Some (b # takeWhile (\<lambda>c. c \<noteq> CHR '']'') r @ '']'')
          else None)"

text \<open>
  \<open>message.match(/\{[\s\S]*\}/)\<close>: the leftmost opening brace, then greedily up to the
  last closing brace after it.
\<close>

definition match_object :: "string \<Rightarrow> string option" where
  "match_object s =
     (case dropWhile (\<lambda>c. c \<noteq> CHR ''{'') s of
        [] \<Rightarrow> None
      | b # r \<Rightarrow>
          if CHR ''}'' \<in> set r
          then Some (b # rev (dropWhile (\<lambda>c. c \<noteq> CHR ''}'') (rev r)))
          else None)"

text \<open>
  The block every array-shape call ends with, except \<open>getKeyDocuments\<close>:
  \<^verbatim>\<open>try { const match = response.message.match(/\[[\s\S]*?\]/);\<close>
  \<^verbatim>\<open>      return match ? JSON.parse(match[0]) : []; } catch { return []; }\<close>
\<close>

definition array_response :: "string \<Rightarrow> json" where
  "array_response message =
     (case match_array message of
        None \<Rightarrow> JArray []
      | Some m \<Rightarrow> (case JSON_parse m of None \<Rightarrow> JArray [] | Some v \<Rightarrow> v))"

text \<open>\<open>xs.length\<close> and the elements of a parsed array.\<close>

fun array_items :: "json \<Rightarrow> json list" where
  "array_items (JArray xs) = xs"
| "array_items _ = []"

definition array_length :: "json \<Rightarrow> nat" where
  "array_length v = length (array_items v)"

section \<open>Sessions and awaited calls\<close>

text \<open>
  A session answers a prompt with a message (\<open>Inr\<close>) or throws (\<open>Inl\<close>, the message of
  the error: what is thrown is taken to be an \<open>Error\<close>, whose \<open>message\<close> the handlers
  read); its answer is a function of the prompt, and the prompts of one run differ in
  their fixed text. A call that never settles is outside the model. An asynchronous
  computation that has settled is its outcome, \<open>Inl\<close> for a rejection, together with the
  prompts it sent to the session, in order.
\<close>

type_synonym session = "string \<Rightarrow> string + string"

type_synonym 'a async = "(string + 'a) \<times> string list"

definition sendAndWait :: "session \<Rightarrow> string \<Rightarrow> string async" where
  "sendAndWait session prompt = (session prompt, [prompt])"

definition resolved :: "'a \<Rightarrow> 'a async" where
  "resolved x = (Inr x, [])"

definition rejected :: "string \<Rightarrow> 'a async" where
  "rejected e = (Inl e, [])"

text \<open>\<open>const x = await m; ...\<close>: a rejection of \<open>m\<close> leaves the rest unexecuted.\<close>

definition await :: "'a async \<Rightarrow> ('a \<Rightarrow> 'b async) \<Rightarrow> 'b async" where
  "await m k =
     (case m of
        (Inl e, sent) \<Rightarrow> (Inl e, sent)
      | (Inr x, sent) \<Rightarrow> (case k x of (r, sent') \<Rightarrow> (r, sent @ sent')))"

section \<open>Configuration constants\<close>

definition MAX_FILES_TO_ANALYZE :: nat where "MAX_FILES_TO_ANALYZE = 20"
definition MAX_DISCUSSIONS_TO_FETCH :: nat where "MAX_DISCUSSIONS_TO_FETCH = 10"
definition MAX_ISSUES_TO_FETCH :: nat where "MAX_ISSUES_TO_FETCH = 15"
definition MAX_PRS_TO_FETCH :: nat where "MAX_PRS_TO_FETCH = 10"

definition ARCHITECTURE_FILES :: "string list" where
  "ARCHITECTURE_FILES =
     [''README.md'', ''CONTRIBUTING.md'', ''ARCHITECTURE.md'', ''docs/'', ''package.json'',
      ''requirements.txt'', ''Cargo.toml'', ''go.mod'', ''pom.xml'', ''build.gradle'',
      ''Makefile'', ''Dockerfile'', ''docker-compose.yml'', ''docker-compose.yaml'',
      ''.github/workflows/'', ''tsconfig.json'', ''pyproject.toml'', ''setup.py'',
      ''.eslintrc'', ''.prettierrc'', ''jest.config'', ''vitest.config'']"

definition TECH_PATTERNS :: "(string \<times> string list) list" where
  "TECH_PATTERNS =
     [(''Node.js / JavaScript'', [''package.json'', ''node_modules'', ''.nvmrc'']),
      (''TypeScript'', [''tsconfig.json'', ''*.ts'', ''*.tsx'']),
      (''Python'', [''requirements.txt'', ''pyproject.toml'', ''setup.py'', ''Pipfile'']),
      (''Rust'', [''Cargo.toml'', ''*.rs'']),
      (''Go'', [''go.mod'', ''go.sum'', ''*.go'']),
      (''Java'', [''pom.xml'', ''build.gradle'', ''*.java'']),
      (''C# / .NET'', [''*.csproj'', ''*.sln'', ''Program.cs'']),
      (''Docker'', [''Dockerfile'', ''docker-compose.yml'']),
      (''Kubernetes'', [''k8s/'', ''*.yaml'']),
      (''React'', [''react'', ''jsx'', ''tsx'']),
      (''Next.js'', [''next.config'']),
      (''Azure Functions'', [''host.json'', ''function.json'']),
      (''Terraform'', [''*.tf'', ''terraform/'']),
      (''Bicep'', [''*.bicep'', ''main.bicep''])]"

section \<open>The repository collector\<close>

subsection \<open>The platform\<close>

text \<open>
  What the program takes from its runtime and this model does not compute:
  \<open>String.prototype.toLowerCase\<close> (\<open>toLowerCase\<close>), the string of a parsed number
  (\<open>numberToString\<close> maps the lexeme to it), \<open>JSON.stringify(v, null, 2)\<close> (\<open>stringify\<close>),
  the environment variable \<open>OUTPUT_DIR\<close>, and the two readings of the clock,
  \<open>new Date().toISOString()\<close>, that a guide generation makes.
\<close>

record runtime =
  toLowerCase :: "string \<Rightarrow> string"
  numberToString :: "string \<Rightarrow> string"
  stringify :: "json \<Rightarrow> string"
  env_OUTPUT_DIR :: "string option"
  header_time :: string
  save_time :: string

text \<open>
  The string of a parsed value, and of an element inside \<open>Array.prototype.join\<close>, where
  \<open>null\<close> gives the empty string.
\<close>

fun toString :: "runtime \<Rightarrow> json \<Rightarrow> string" where
  "toString rt JNull = ''null''"
| "toString rt (JBool b) = (if b then ''true'' else ''false'')"
| "toString rt (JNumber l) = numberToString rt l"
| "toString rt (JString s) = s"
| "toString rt (JArray xs) =
     join_with '','' (map (\<lambda>v. if v = JNull then [] else toString rt v) xs)"
| "toString rt (JObject ms) = ''[object Object]''"

definition join_item :: "runtime \<Rightarrow> json \<Rightarrow> string" where
  "join_item rt v = (if v = JNull then [] else toString rt v)"

text \<open>
  What is used of \<open>toLowerCase\<close>, and holds of the case mappings of Unicode, where the
  lowercase of an ASCII character is one ASCII character and does not depend on the
  characters around it: an ASCII string is lowercased letter by letter, and so is an
  ASCII stretch of any string, where it stands.
\<close>

definition ascii_lowercasing :: "runtime \<Rightarrow> bool" where
  "ascii_lowercasing rt \<longleftrightarrow>
     (\<forall>s. ascii s \<longrightarrow> toLowerCase rt s = map toLowerChar s) \<and>
     (\<forall>x y. ascii x \<and> occurs_in x y
        \<longrightarrow> occurs_in (map toLowerChar x) (toLowerCase rt y))"

subsection \<open>Technology detection\<close>

text \<open>
  The body of the inner loop of \<open>detectTechStack\<close>: the pattern, with its first \<open>*.\<close>
  removed, lowercased, with its first \<open>/\<close> removed, is looked up in the lowercased listing.
\<close>

definition pattern_found :: "runtime \<Rightarrow> string \<Rightarrow> string \<Rightarrow> bool" where
  "pattern_found rt structureStr pattern =
     (let normalizedPattern = toLowerCase rt (replace_first ''*.'' [] pattern)
      in str_includes structureStr (replace_first ''/'' [] normalizedPattern))"

text \<open>\<open>[...new Set(detected)]\<close>: the first occurrence of each element, in order.\<close>

definition unique :: "'a list \<Rightarrow> 'a list" where
  "unique xs = fold (\<lambda>x acc. if x \<in> set acc then acc else acc @ [x]) xs []"

text \<open>
  \<open>detectTechStack\<close> on a listing of strings. The inner loop stops at the first pattern
  found, so a technology is pushed when some pattern of its row is found.
\<close>

definition detectTechStack :: "runtime \<Rightarrow> string list \<Rightarrow> string list" where
  "detectTechStack rt listing =
     (let structureStr = toLowerCase rt (join_with '' '' listing)
      in unique (map fst (filter (\<lambda>(tech, patterns).
                                    list_ex (pattern_found rt structureStr) patterns)
                                TECH_PATTERNS)))"

subsection \<open>The remote calls\<close>

definition getRepoStructure_prompt :: "string \<Rightarrow> string \<Rightarrow> string" where
  \<open>getRepoStructure_prompt owner repo =
     ''Use the GitHub MCP tools to get the repository tree/contents for '' @ owner @ ''/''
     @ repo @ ''. '' @ [CHR 0x0A]
     @ ''List the top-level files and directories. Return ONLY a JSON array of ''
     @ ''file/directory names, like:'' @ [CHR 0x0A]
     @ ''["README.md", "src/", "package.json", "docs/", ".github/"]'' @ [CHR 0x0A]
     @ ''Do not include any explanation, just the JSON array.''\<close>

definition getKeyDocuments_prompt :: "string \<Rightarrow> string \<Rightarrow> string list \<Rightarrow> string" where
  \<open>getKeyDocuments_prompt owner repo docsToFetch =
     ''Use the GitHub MCP tools to get the file contents of these files from '' @ owner @ ''/''
     @ repo @ '':'' @ [CHR 0x0A]
     @ join_with [CHR 0x0A] (map (\<lambda>f. ''- '' @ f) docsToFetch) @ [CHR 0x0A, CHR 0x0A]
     @ ''For each file, return its name and a SUMMARY (not full content) of what ''
     @ ''it tells a new developer:'' @ [CHR 0x0A] @ ''- What the project does'' @ [CHR 0x0A]
     @ ''- How to set it up'' @ [CHR 0x0A] @ ''- Key architecture decisions'' @ [CHR 0x0A]
     @ ''- Important conventions or patterns'' @ [CHR 0x0A, CHR 0x0A]
     @ ''Format as JSON: [{"file": "name", "summary": "..."}]''\<close>

definition getRecentPRs_prompt :: "string \<Rightarrow> string \<Rightarrow> string" where
  \<open>getRecentPRs_prompt owner repo =
     ''Use the GitHub MCP tools to list the '' @ decimal MAX_PRS_TO_FETCH
     @ '' most recent pull requests for '' @ owner @ ''/'' @ repo @ ''.'' @ [CHR 0x0A]
     @ ''Include both open and recently merged PRs.'' @ [CHR 0x0A, CHR 0x0A]
     @ ''For each PR, return: number, title, state, author, and a one-line ''
     @ ''description of the change.'' @ [CHR 0x0A]
     @ ''Format as JSON array: [{"number": 1, "title": "...", "state": ''
     @ ''"open|merged", "author": "...", "description": "..."}]''\<close>

definition getActiveIssues_prompt :: "string \<Rightarrow> string \<Rightarrow> string" where
  \<open>getActiveIssues_prompt owner repo =
     ''Use the GitHub MCP tools to list the '' @ decimal MAX_ISSUES_TO_FETCH
     @ '' most recent open issues for '' @ owner @ ''/'' @ repo @ ''.'' @ [CHR 0x0A]
     @ ''Sort by most recently updated.'' @ [CHR 0x0A, CHR 0x0A]
     @ ''For each issue, return: number, title, labels (as array), and a ''
     @ ''one-line summary.'' @ [CHR 0x0A]
     @ ''Format as JSON array: [{"number": 1, "title": "...", "labels": ["bug", ''
     @ ''"priority"], "summary": "..."}]''\<close>

definition getDiscussions_prompt :: "string \<Rightarrow> string \<Rightarrow> string" where
  \<open>getDiscussions_prompt owner repo =
     ''Use the GitHub MCP tools to list the '' @ decimal MAX_DISCUSSIONS_TO_FETCH
     @ '' most recent discussions for '' @ owner @ ''/'' @ repo @ ''.'' @ [CHR 0x0A]
     @ ''If the repo has no discussions enabled, return an empty array.'' @ [CHR 0x0A, CHR 0x0A]
     @ ''For each discussion, return: title, category, author, and a one-line '' @ ''summary.''
     @ [CHR 0x0A] @ ''Format as JSON array: [{"title": "...", "category": "...", "author": ''
     @ ''"...", "summary": "..."}]''\<close>

text \<open>
  The record \<open>analyzeRepository\<close> returns. Its field \<open>structure\<close>, the parsed listing, is
  \<open>repoStructure\<close> here.
\<close>

record RepositoryAnalysis =
  repoFullName :: string
  repoStructure :: json
  techStack :: "string list"
  docs :: json
  prActivity :: json
  issues :: json
  discussions :: json

definition getRepoStructure :: "session \<Rightarrow> string \<Rightarrow> string \<Rightarrow> json async" where
  "getRepoStructure session owner repo =
     await (sendAndWait session (getRepoStructure_prompt owner repo))
       (\<lambda>message. resolved (array_response message))"

text \<open>
  The callback of \<open>structure.some\<close> in \<open>getKeyDocuments\<close> calls \<open>s.toLowerCase()\<close> on an
  element of the parsed listing: on an element that is not a string this is a
  \<open>TypeError\<close>, thrown outside the \<open>try\<close> block. \<open>some\<close> stops at the first element
  for which the callback holds.
\<close>

fun structure_some :: "runtime \<Rightarrow> string \<Rightarrow> json list \<Rightarrow> string + bool" where
  "structure_some rt normalizedFile [] = Inr False"
| "structure_some rt normalizedFile (JString s # rest) =
     (if str_includes (toLowerCase rt s) normalizedFile
         \<or> str_includes normalizedFile (replace_first ''/'' [] (toLowerCase rt s))
      then Inr True
      else structure_some rt normalizedFile rest)"
| "structure_some rt normalizedFile (JNull # rest) =
     Inl (''Cannot read properties of null (reading '' @ [CHR 0x27] @ ''toLowerCase''
          @ [CHR 0x27] @ '')'')"
| "structure_some rt normalizedFile (_ # rest) = Inl ''s.toLowerCase is not a function''"

fun filter_files :: "runtime \<Rightarrow> string list \<Rightarrow> json list \<Rightarrow> string + string list" where
  "filter_files rt [] listing = Inr []"
| "filter_files rt (f # fs) listing =
     (case structure_some rt (replace_first ''/'' [] (toLowerCase rt f)) listing of
        Inl e \<Rightarrow> Inl e
      | Inr keep \<Rightarrow>
          (case filter_files rt fs listing of
             Inl e \<Rightarrow> Inl e
           | Inr kept \<Rightarrow> Inr (if keep then f # kept else kept)))"

text \<open>The \<open>try\<close> block of \<open>getKeyDocuments\<close>, whose \<open>catch\<close> returns a placeholder entry.\<close>

definition docs_placeholder :: json where
  "docs_placeholder =
     JArray [JObject [(''file'', JString ''README.md''),
                      (''summary'', JString ''Could not parse documentation.'')]]"

definition docs_response :: "string \<Rightarrow> json" where
  "docs_response message =
     (case match_array message of
        None \<Rightarrow> JArray []
      | Some m \<Rightarrow> (case JSON_parse m of None \<Rightarrow> docs_placeholder | Some v \<Rightarrow> v))"

text \<open>
  The files \<open>getKeyDocuments\<close> asks for: the architecture files that match an entry of
  the listing, at most \<open>MAX_FILES_TO_ANALYZE\<close> of them, or \<open>README.md\<close> when there is none.
\<close>

definition docsToFetch :: "runtime \<Rightarrow> json \<Rightarrow> string + string list" where
  "docsToFetch rt listing =
     (case filter_files rt ARCHITECTURE_FILES (array_items listing) of
        Inl e \<Rightarrow> Inl e
      | Inr found \<Rightarrow>
          (let sliced = take MAX_FILES_TO_ANALYZE found
           in Inr (if length sliced = 0 then [''README.md''] else sliced)))"

definition getKeyDocuments ::
  "runtime \<Rightarrow> session \<Rightarrow> string \<Rightarrow> string \<Rightarrow> json \<Rightarrow> json async" where
  "getKeyDocuments rt session owner repo listing =
     (case docsToFetch rt listing of
        Inl e \<Rightarrow> rejected e
      | Inr wanted \<Rightarrow>
          await (sendAndWait session (getKeyDocuments_prompt owner repo wanted))
            (\<lambda>message. resolved (docs_response message)))"

definition getRecentPRs :: "session \<Rightarrow> string \<Rightarrow> string \<Rightarrow> json async" where
  "getRecentPRs session owner repo =
     await (sendAndWait session (getRecentPRs_prompt owner repo))
       (\<lambda>message. resolved (array_response message))"

definition getActiveIssues :: "session \<Rightarrow> string \<Rightarrow> string \<Rightarrow> json async" where
  "getActiveIssues session owner repo =
     await (sendAndWait session (getActiveIssues_prompt owner repo))
       (\<lambda>message. resolved (array_response message))"

definition getDiscussions :: "session \<Rightarrow> string \<Rightarrow> string \<Rightarrow> json async" where
  "getDiscussions session owner repo =
     await (sendAndWait session (getDiscussions_prompt owner repo))
       (\<lambda>message. resolved (array_response message))"

text \<open>
  \<open>analyzeRepository\<close>. \<open>detectTechStack\<close> joins the elements of the parsed listing, each
  as its string.
\<close>

definition analyzeRepository ::
  "runtime \<Rightarrow> session \<Rightarrow> string \<Rightarrow> string \<Rightarrow> RepositoryAnalysis async" where
  "analyzeRepository rt session owner repo =
     await (getRepoStructure session owner repo) (\<lambda>listing.
       let stack = detectTechStack rt (map (join_item rt) (array_items listing)) in
       await (getKeyDocuments rt session owner repo listing) (\<lambda>documents.
       await (getRecentPRs session owner repo) (\<lambda>prs.
       await (getActiveIssues session owner repo) (\<lambda>active.
       await (getDiscussions session owner repo) (\<lambda>discussed.
       resolved \<lparr>repoFullName = owner @ ''/'' @ repo, repoStructure = listing,
                  techStack = stack, docs = documents, prActivity = prs,
                  issues = active, discussions = discussed\<rparr>)))))"

section \<open>The resource collector\<close>

definition searchDocsForTech_prompt :: "string \<Rightarrow> string" where
  \<open>searchDocsForTech_prompt tech =
     ''Use the Microsoft Learn MCP tools to search for "'' @ tech
     @ '' getting started guide" documentation.'' @ [CHR 0x0A, CHR 0x0A]
     @ ''Return the top 5 most relevant results as JSON array:'' @ [CHR 0x0A]
     @ ''[{"title": "...", "url": "...", "description": "One-line description of ''
     @ ''what the doc covers"}]'' @ [CHR 0x0A, CHR 0x0A] @ ''Focus on:'' @ [CHR 0x0A]
     @ ''- Official getting-started guides'' @ [CHR 0x0A] @ ''- Best practices'' @ [CHR 0x0A]
     @ ''- Architecture patterns'' @ [CHR 0x0A] @ ''- Common pitfalls to avoid''\<close>

definition searchArchitectureDocs_prompt :: "string \<Rightarrow> string" where
  \<open>searchArchitectureDocs_prompt techList =
     ''Use the Microsoft Learn MCP tools to search for architecture best ''
     @ ''practices related to: '' @ techList @ ''.'' @ [CHR 0x0A, CHR 0x0A]
     @ ''Also search for code samples using the microsoft_code_sample_search '' @ ''tool for: ''
     @ techList @ [CHR 0x0A, CHR 0x0A]
     @ ''Return the top 5 most relevant results as JSON array:'' @ [CHR 0x0A]
     @ ''[{"title": "...", "url": "...", "description": "...", "type": '' @ ''"doc|sample"}]''
     @ [CHR 0x0A, CHR 0x0A] @ ''Focus on:'' @ [CHR 0x0A] @ ''- Solution architecture patterns''
     @ [CHR 0x0A] @ ''- Cloud-native patterns (if applicable)'' @ [CHR 0x0A]
     @ ''- Security best practices'' @ [CHR 0x0A] @ ''- Performance optimization guides''\<close>

definition searchTutorials_prompt :: "string \<Rightarrow> string" where
  \<open>searchTutorials_prompt query =
     ''Use the Microsoft Learn MCP tools to search for interactive tutorials ''
     @ ''and learning paths for: '' @ query @ ''.'' @ [CHR 0x0A, CHR 0x0A]
     @ ''Return the top 5 results as JSON array:'' @ [CHR 0x0A]
     @ ''[{"title": "...", "url": "...", "description": "...", "estimatedTime": ''
     @ ''"30 min"}]'' @ [CHR 0x0A, CHR 0x0A] @ ''Prioritize:'' @ [CHR 0x0A]
     @ ''- Hands-on tutorials (not just reference docs)'' @ [CHR 0x0A]
     @ ''- Microsoft Learn training modules'' @ [CHR 0x0A] @ ''- Quickstart guides''\<close>

record LearningResourceGroup =
  technology :: string
  resources :: json

definition searchDocsForTech :: "session \<Rightarrow> string \<Rightarrow> json async" where
  "searchDocsForTech session tech =
     await (sendAndWait session (searchDocsForTech_prompt tech))
       (\<lambda>message. resolved (array_response message))"

definition searchArchitectureDocs :: "session \<Rightarrow> RepositoryAnalysis \<Rightarrow> json async" where
  "searchArchitectureDocs session repoContext =
     await (sendAndWait session
              (searchArchitectureDocs_prompt (join_with '', '' (techStack repoContext))))
       (\<lambda>message. resolved (array_response message))"

definition searchTutorials :: "session \<Rightarrow> string list \<Rightarrow> json async" where
  "searchTutorials session stack =
     await (sendAndWait session (searchTutorials_prompt (join_with '' and '' (take 3 stack))))
       (\<lambda>message. resolved (array_response message))"

text \<open>The loop of \<open>fetchLearningResources\<close> over the detected technologies.\<close>

fun searchEach :: "session \<Rightarrow> string list \<Rightarrow> LearningResourceGroup list async" where
  "searchEach session [] = resolved []"
| "searchEach session (tech # rest) =
     await (searchDocsForTech session tech) (\<lambda>techResources.
     await (searchEach session rest) (\<lambda>groups.
     resolved (\<lparr>technology = tech, resources = techResources\<rparr> # groups)))"

definition fetchLearningResources ::
  "session \<Rightarrow> string list \<Rightarrow> RepositoryAnalysis \<Rightarrow> LearningResourceGroup list async" where
  "fetchLearningResources session stack repoContext =
     await (searchEach session stack) (\<lambda>groups.
     await (searchArchitectureDocs session repoContext) (\<lambda>archResources.
     await (searchTutorials session stack) (\<lambda>tutorials.
     resolved (groups
       @ [\<lparr>technology = ''Architecture & Best Practices'', resources = archResources\<rparr>,
          \<lparr>technology = ''Getting Started Tutorials'', resources = tutorials\<rparr>]))))"

section \<open>The team-context collector\<close>

definition getRecentTeamsActivity_prompt :: "string \<Rightarrow> string" where
  \<open>getRecentTeamsActivity_prompt teamName =
     ''Use the WorkIQ MCP tools to search for recent messages in Teams ''
     @ ''channels related to "'' @ teamName @ ''".'' @ [CHR 0x0A, CHR 0x0A] @ ''Look for:''
     @ [CHR 0x0A] @ ''- Recent technical discussions or decisions'' @ [CHR 0x0A]
     @ ''- Announcements or important updates'' @ [CHR 0x0A]
     @ ''- Current sprint/project focus areas'' @ [CHR 0x0A]
     @ ''- Any recurring themes or hot topics'' @ [CHR 0x0A, CHR 0x0A]
     @ ''Summarize the top 5 most relevant discussion threads as JSON:'' @ [CHR 0x0A]
     @ ''[{"topic": "...", "channel": "...", "summary": "One-line summary", ''
     @ ''"date": "approx date", "relevance": "Why a new hire should know this"}]''
     @ [CHR 0x0A, CHR 0x0A] @ ''If WorkIQ is not available, return an empty array.''\<close>

definition getKeyPeople_prompt :: "string \<Rightarrow> string \<Rightarrow> string" where
  \<open>getKeyPeople_prompt teamName projectContext =
     ''Use the WorkIQ MCP tools to find key people related to "'' @ teamName
     @ ''" and the project context: "'' @ projectContext @ ''".'' @ [CHR 0x0A, CHR 0x0A]
     @ ''Identify:'' @ [CHR 0x0A] @ ''- Team lead / manager'' @ [CHR 0x0A]
     @ ''- Senior engineers / tech leads'' @ [CHR 0x0A]
     @ ''- People who are most active in discussions'' @ [CHR 0x0A]
     @ ''- Subject matter experts for the tech stack'' @ [CHR 0x0A, CHR 0x0A]
     @ ''Return as JSON array:'' @ [CHR 0x0A]
     @ ''[{"name": "...", "role": "Likely role/expertise", "reason": "Why a new ''
     @ ''hire should connect with them"}]'' @ [CHR 0x0A, CHR 0x0A]
     @ ''Limit to 5-7 key people. If WorkIQ is not available, return an empty '' @ ''array.''\<close>

definition getUpcomingEvents_prompt :: "string \<Rightarrow> string" where
  \<open>getUpcomingEvents_prompt teamName =
     ''Use the WorkIQ MCP tools to find upcoming meetings and events related '' @ ''to "''
     @ teamName @ ''" in the next 2 weeks.'' @ [CHR 0x0A, CHR 0x0A] @ ''Look for:'' @ [CHR 0x0A]
     @ ''- Team standups / syncs'' @ [CHR 0x0A] @ ''- Sprint planning / retrospectives''
     @ [CHR 0x0A] @ ''- Architecture reviews'' @ [CHR 0x0A] @ ''- All-hands or team socials''
     @ [CHR 0x0A] @ ''- Any onboarding-specific sessions'' @ [CHR 0x0A, CHR 0x0A]
     @ ''Return as JSON array:'' @ [CHR 0x0A]
     @ ''[{"event": "...", "date": "...", "recurring": true/false, "relevance": ''
     @ ''"Why attend as a new hire"}]'' @ [CHR 0x0A, CHR 0x0A]
     @ ''Limit to 8 events. If WorkIQ is not available, return an empty array.''\<close>

definition getTeamNorms_prompt :: "string \<Rightarrow> string" where
  \<open>getTeamNorms_prompt teamName =
     ''Use the WorkIQ MCP tools to search for team norms, processes, and ''
     @ ''cultural information about "'' @ teamName @ ''".'' @ [CHR 0x0A, CHR 0x0A]
     @ ''Search in:'' @ [CHR 0x0A] @ ''- Teams channel descriptions and pinned messages''
     @ [CHR 0x0A] @ ''- SharePoint sites or wikis related to the team'' @ [CHR 0x0A]
     @ ''- Recent emails about team processes or guidelines'' @ [CHR 0x0A, CHR 0x0A]
     @ ''Summarize as JSON:'' @ [CHR 0x0A] @ ''{'' @ [CHR 0x0A]
     @ ''  "communicationChannels": ["List of key channels/groups to join"],'' @ [CHR 0x0A]
     @ ''  "meetingCadence": "Description of regular meetings",'' @ [CHR 0x0A]
     @ ''  "codeReviewProcess": "How the team does code reviews",'' @ [CHR 0x0A]
     @ ''  "deploymentProcess": "How the team deploys",'' @ [CHR 0x0A]
     @ ''  "otherNorms": ["Any other important team norms"]'' @ [CHR 0x0A] @ ''}''
     @ [CHR 0x0A, CHR 0x0A]
     @ ''If WorkIQ is not available, return reasonable defaults with "Unknown ''
     @ [CHR 0xE2, CHR 0x80, CHR 0x94] @ '' ask your team lead" placeholders.''\<close>

definition getEmailInsights_prompt :: "string \<Rightarrow> string \<Rightarrow> string" where
  \<open>getEmailInsights_prompt teamName projectContext =
     ''Use the WorkIQ MCP tools to search recent emails related to "'' @ teamName @ ''" and "''
     @ projectContext @ ''".'' @ [CHR 0x0A, CHR 0x0A] @ ''Look for:'' @ [CHR 0x0A]
     @ ''- Key decisions communicated over email (architecture changes, policy '' @ ''updates)''
     @ [CHR 0x0A] @ ''- Important announcements from leadership or stakeholders'' @ [CHR 0x0A]
     @ ''- Action items or follow-ups that affect the project'' @ [CHR 0x0A]
     @ ''- Onboarding-related emails (welcome messages, access requests, setup '' @ ''guides)''
     @ [CHR 0x0A, CHR 0x0A] @ ''Summarize the top 5 most relevant email threads as JSON:''
     @ [CHR 0x0A] @ ''[{"subject": "...", "from": "sender name or role", "date": "approx ''
     @ ''date", "summary": "One-line summary of the key takeaway", "relevance": ''
     @ ''"Why a new hire should know this"}]'' @ [CHR 0x0A, CHR 0x0A]
     @ ''If WorkIQ is not available, return an empty array.''\<close>

definition getRelatedDocuments_prompt :: "string \<Rightarrow> string \<Rightarrow> string" where
  \<open>getRelatedDocuments_prompt teamName projectContext =
     ''Use the WorkIQ MCP tools to search for documents on SharePoint and ''
     @ ''OneDrive related to "'' @ teamName @ ''" and "'' @ projectContext @ ''".''
     @ [CHR 0x0A, CHR 0x0A] @ ''Look for:'' @ [CHR 0x0A]
     @ ''- Architecture or design documents'' @ [CHR 0x0A]
     @ ''- Technical specifications and RFCs'' @ [CHR 0x0A]
     @ ''- Onboarding guides or team wikis'' @ [CHR 0x0A]
     @ ''- Runbooks and operational playbooks'' @ [CHR 0x0A]
     @ ''- Slide decks from recent tech talks or reviews'' @ [CHR 0x0A, CHR 0x0A]
     @ ''Return the top 8 most relevant documents as JSON:'' @ [CHR 0x0A]
     @ ''[{"title": "...", "type": "document type (e.g., Word, PowerPoint, Wiki, ''
     @ ''PDF)", "location": "SharePoint site or OneDrive folder", ''
     @ ''"lastModified": "approx date", "summary": "Brief description of what it ''
     @ ''contains", "relevance": "Why a new hire should read this"}]'' @ [CHR 0x0A, CHR 0x0A]
     @ ''If WorkIQ is not available, return an empty array.''\<close>

record TeamContext =
  recentDiscussions :: json
  teamMembers :: json
  upcomingEvents :: json
  teamNorms :: json
  emailInsights :: json
  relatedDocuments :: json

definition getDefaultNorms :: json where
  "getDefaultNorms =
     JObject
       [(''communicationChannels'',
           JArray [JString ''Ask your team lead for relevant Teams channels'']),
        (''meetingCadence'', JString ''Check your calendar for recurring team meetings''),
        (''codeReviewProcess'', JString ''Check CONTRIBUTING.md in the repo''),
        (''deploymentProcess'', JString ''Check CI/CD workflows in .github/workflows/''),
        (''otherNorms'',
           JArray [JString ''Introduce yourself in the team channel on your first day!''])]"

text \<open>The \<open>try\<close> block of \<open>getTeamNorms\<close>.\<close>

definition norms_response :: "string \<Rightarrow> json" where
  "norms_response message =
     (case match_object message of
        None \<Rightarrow> getDefaultNorms
      | Some jsonMatch \<Rightarrow>
          (case JSON_parse jsonMatch of None \<Rightarrow> getDefaultNorms | Some v \<Rightarrow> v))"

definition getRecentTeamsActivity :: "session \<Rightarrow> string \<Rightarrow> json async" where
  "getRecentTeamsActivity session teamName =
     await (sendAndWait session (getRecentTeamsActivity_prompt teamName))
       (\<lambda>message. resolved (array_response message))"

definition getKeyPeople :: "session \<Rightarrow> string \<Rightarrow> string \<Rightarrow> json async" where
  "getKeyPeople session teamName projectContext =
     await (sendAndWait session (getKeyPeople_prompt teamName projectContext))
       (\<lambda>message. resolved (array_response message))"

definition getUpcomingEvents :: "session \<Rightarrow> string \<Rightarrow> json async" where
  "getUpcomingEvents session teamName =
     await (sendAndWait session (getUpcomingEvents_prompt teamName))
       (\<lambda>message. resolved (array_response message))"

definition getTeamNorms :: "session \<Rightarrow> string \<Rightarrow> json async" where
  "getTeamNorms session teamName =
     await (sendAndWait session (getTeamNorms_prompt teamName))
       (\<lambda>message. resolved (norms_response message))"

definition getEmailInsights :: "session \<Rightarrow> string \<Rightarrow> string \<Rightarrow> json async" where
  "getEmailInsights session teamName projectContext =
     await (sendAndWait session (getEmailInsights_prompt teamName projectContext))
       (\<lambda>message. resolved (array_response message))"

definition getRelatedDocuments :: "session \<Rightarrow> string \<Rightarrow> string \<Rightarrow> json async" where
  "getRelatedDocuments session teamName projectContext =
     await (sendAndWait session (getRelatedDocuments_prompt teamName projectContext))
       (\<lambda>message. resolved (array_response message))"

definition gatherTeamContext :: "session \<Rightarrow> string \<Rightarrow> string \<Rightarrow> TeamContext async" where
  "gatherTeamContext session teamName projectContext =
     await (getRecentTeamsActivity session teamName) (\<lambda>discussed.
     await (getKeyPeople session teamName projectContext) (\<lambda>members.
     await (getUpcomingEvents session teamName) (\<lambda>events.
     await (getTeamNorms session teamName) (\<lambda>norms.
     await (getEmailInsights session teamName projectContext) (\<lambda>emails.
     await (getRelatedDocuments session teamName projectContext) (\<lambda>documents.
     resolved \<lparr>recentDiscussions = discussed, teamMembers = members,
                upcomingEvents = events, teamNorms = norms,
                emailInsights = emails, relatedDocuments = documents\<rparr>))))))"

section \<open>The synthesis stage\<close>

text \<open>\<open>a || b\<close> on strings: the empty string is falsy.\<close>

definition or_else :: "string \<Rightarrow> string \<Rightarrow> string" where
  "or_else a b = (if a = [] then b else a)"

text \<open>The array of groups as \<open>JSON.stringify\<close> sees it.\<close>

definition resources_json :: "LearningResourceGroup list \<Rightarrow> json" where
  "resources_json groups =
     JArray (map (\<lambda>g. JObject [(''technology'', JString (technology g)),
                                (''resources'', resources g)]) groups)"

definition buildSynthesisPrompt ::
  "runtime \<Rightarrow> RepositoryAnalysis \<Rightarrow> LearningResourceGroup list \<Rightarrow> TeamContext \<Rightarrow> string \<Rightarrow> string \<Rightarrow> string \<Rightarrow> string" where
  \<open>buildSynthesisPrompt rt repoAnalysis learningResources teamContext owner repo newHireName =
     ''You are an expert onboarding specialist. Generate a comprehensive, ''
     @ ''personalized onboarding guide for a new developer joining the '' @ owner @ ''/'' @ repo
     @ '' project.'' @ [CHR 0x0A, CHR 0x0A]
     @ ''Use ALL of the following data to create the guide. The guide should be ''
     @ ''warm, encouraging, and actionable.'' @ [CHR 0x0A, CHR 0x0A] @ ''---''
     @ [CHR 0x0A, CHR 0x0A] @ ''## REPOSITORY ANALYSIS DATA'' @ [CHR 0x0A, CHR 0x0A]
     @ ''**Repository:** '' @ repoFullName repoAnalysis @ [CHR 0x0A]
     @ ''**Detected Tech Stack:** ''
     @ or_else (join_with '', '' (techStack repoAnalysis)) ''Not detected''
     @ [CHR 0x0A, CHR 0x0A] @ ''### Key Documentation Found:'' @ [CHR 0x0A]
     @ stringify rt (docs repoAnalysis) @ [CHR 0x0A, CHR 0x0A]
     @ ''### Recent Pull Requests (shows current work focus):'' @ [CHR 0x0A]
     @ stringify rt (prActivity repoAnalysis) @ [CHR 0x0A, CHR 0x0A]
     @ ''### Active Issues (shows current priorities):'' @ [CHR 0x0A]
     @ stringify rt (issues repoAnalysis) @ [CHR 0x0A, CHR 0x0A] @ ''### Team Discussions:''
     @ [CHR 0x0A] @ stringify rt (discussions repoAnalysis) @ [CHR 0x0A, CHR 0x0A] @ ''---''
     @ [CHR 0x0A, CHR 0x0A] @ ''## LEARNING RESOURCES FROM MICROSOFT LEARN''
     @ [CHR 0x0A, CHR 0x0A] @ stringify rt (resources_json learningResources)
     @ [CHR 0x0A, CHR 0x0A] @ ''---'' @ [CHR 0x0A, CHR 0x0A] @ ''## TEAM CONTEXT FROM M365''
     @ [CHR 0x0A, CHR 0x0A] @ ''### Recent Team Discussions:'' @ [CHR 0x0A]
     @ stringify rt (recentDiscussions teamContext) @ [CHR 0x0A, CHR 0x0A]
     @ ''### Key People to Connect With:'' @ [CHR 0x0A] @ stringify rt (teamMembers teamContext)
     @ [CHR 0x0A, CHR 0x0A] @ ''### Upcoming Events to Attend:'' @ [CHR 0x0A]
     @ stringify rt (upcomingEvents teamContext) @ [CHR 0x0A, CHR 0x0A]
     @ ''### Team Norms & Processes:'' @ [CHR 0x0A] @ stringify rt (teamNorms teamContext)
     @ [CHR 0x0A, CHR 0x0A] @ ''### Email Insights (key decisions & announcements):''
     @ [CHR 0x0A] @ stringify rt (emailInsights teamContext) @ [CHR 0x0A, CHR 0x0A]
     @ ''### Related Documents (SharePoint/OneDrive):'' @ [CHR 0x0A]
     @ stringify rt (relatedDocuments teamContext) @ [CHR 0x0A, CHR 0x0A] @ ''---''
     @ [CHR 0x0A, CHR 0x0A] @ ''## OUTPUT FORMAT'' @ [CHR 0x0A, CHR 0x0A]
     @ ''Generate a Markdown onboarding guide with these EXACT sections:''
     @ [CHR 0x0A, CHR 0x0A] @ ''# '' @ [CHR 0xF0, CHR 0x9F, CHR 0x9A, CHR 0x80]
     @ '' Welcome to '' @ owner @ ''/'' @ repo @ ''!'' @ [CHR 0x0A, CHR 0x0A] @ ''## ''
     @ [CHR 0xF0, CHR 0x9F, CHR 0x91, CHR 0x8B] @ '' Hello, '' @ newHireName @ ''!''
     @ [CHR 0x0A] @ ''(Warm welcome message, what the project is about, and why their work ''
     @ ''matters)'' @ [CHR 0x0A, CHR 0x0A] @ ''## ''
     @ [CHR 0xF0, CHR 0x9F, CHR 0x8F, CHR 0x97, CHR 0xEF, CHR 0xB8, CHR 0x8F]
     @ '' Architecture Overview'' @ [CHR 0x0A] @ ''(Based on repo structure and docs ''
     @ [CHR 0xE2, CHR 0x80, CHR 0x94]
     @ '' explain the codebase layout, key directories, and design patterns)''
     @ [CHR 0x0A, CHR 0x0A] @ ''## '' @ [CHR 0xF0, CHR 0x9F, CHR 0x94, CHR 0xA7]
     @ '' Tech Stack'' @ [CHR 0x0A]
     @ ''(List each technology with a one-line explanation of how it'' @ [CHR 0x27]
     @ ''s used in this project)'' @ [CHR 0x0A]
     @ ''(Include links to relevant Microsoft Learn resources for each)'' @ [CHR 0x0A, CHR 0x0A]
     @ ''## '' @ [CHR 0xF0, CHR 0x9F, CHR 0x9B, CHR 0xA0, CHR 0xEF, CHR 0xB8, CHR 0x8F]
     @ '' Development Environment Setup'' @ [CHR 0x0A]
     @ ''(Step-by-step setup instructions based on package.json, Dockerfile, '' @ ''etc.)''
     @ [CHR 0x0A] @ ''(Prerequisites, installation, running locally, running tests)''
     @ [CHR 0x0A, CHR 0x0A] @ ''## '' @ [CHR 0xF0, CHR 0x9F, CHR 0x93, CHR 0x9A]
     @ '' Essential Reading'' @ [CHR 0x0A]
     @ ''(Curated list of docs they MUST read, organized by priority)'' @ [CHR 0x0A] @ ''- ''
     @ [CHR 0xF0, CHR 0x9F, CHR 0x94, CHR 0xB4] @ '' Read First (before writing code)''
     @ [CHR 0x0A] @ ''- '' @ [CHR 0xF0, CHR 0x9F, CHR 0x9F, CHR 0xA1]
     @ '' Read This Week (context and patterns)'' @ [CHR 0x0A] @ ''- ''
     @ [CHR 0xF0, CHR 0x9F, CHR 0x9F, CHR 0xA2] @ '' Reference (bookmark for later)''
     @ [CHR 0x0A, CHR 0x0A] @ ''## '' @ [CHR 0xF0, CHR 0x9F, CHR 0x94, CHR 0x80]
     @ '' Current Work in Progress'' @ [CHR 0x0A]
     @ ''(Summary of recent PRs and active issues '' @ [CHR 0xE2, CHR 0x80, CHR 0x94]
     @ '' what the team is working on RIGHT NOW)'' @ [CHR 0x0A]
     @ ''(This helps the new hire understand context and find good first tasks)''
     @ [CHR 0x0A, CHR 0x0A] @ ''## '' @ [CHR 0xF0, CHR 0x9F, CHR 0x90, CHR 0x9B]
     @ '' Good First Issues'' @ [CHR 0x0A]
     @ ''(Identify any issues labeled "good first issue" or suggest areas where ''
     @ ''a newcomer could contribute)'' @ [CHR 0x0A, CHR 0x0A] @ ''## ''
     @ [CHR 0xF0, CHR 0x9F, CHR 0x91, CHR 0xA5] @ '' Key People to Connect With'' @ [CHR 0x0A]
     @ ''(Table of people, their roles, and why to reach out to them)'' @ [CHR 0x0A]
     @ ''(Include a suggested intro message template)'' @ [CHR 0x0A, CHR 0x0A] @ ''## ''
     @ [CHR 0xF0, CHR 0x9F, CHR 0x93, CHR 0x85] @ '' Your First Two Weeks'' @ [CHR 0x0A]
     @ ''(Day-by-day suggested plan)'' @ [CHR 0x0A, CHR 0x0A] @ ''### Week 1: Learn & Setup''
     @ [CHR 0x0A] @ ''- Day 1: Environment setup, read essential docs, introduce yourself''
     @ [CHR 0x0A] @ ''- Day 2-3: Explore codebase, run the app, read recent PRs'' @ [CHR 0x0A]
     @ ''- Day 4-5: Pick a good first issue, attend team meetings'' @ [CHR 0x0A, CHR 0x0A]
     @ ''### Week 2: Contribute & Connect'' @ [CHR 0x0A]
     @ ''- Day 6-7: Submit your first PR, get code review feedback'' @ [CHR 0x0A]
     @ ''- Day 8-9: Dive deeper into one component, pair with a team member'' @ [CHR 0x0A]
     @ ''- Day 10: Retrospect on your onboarding, share feedback'' @ [CHR 0x0A, CHR 0x0A]
     @ ''## '' @ [CHR 0xF0, CHR 0x9F, CHR 0x93, CHR 0x85] @ '' Important Meetings & Events''
     @ [CHR 0x0A] @ ''(List upcoming team meetings the new hire should attend)''
     @ [CHR 0x0A, CHR 0x0A] @ ''## '' @ [CHR 0xF0, CHR 0x9F, CHR 0x92, CHR 0xAC]
     @ '' Communication Guide'' @ [CHR 0x0A]
     @ ''(Which channels to join, team norms, how to ask for help)'' @ [CHR 0x0A, CHR 0x0A]
     @ ''## '' @ [CHR 0xF0, CHR 0x9F, CHR 0x93, CHR 0xA7] @ '' Recent Decisions from Email''
     @ [CHR 0x0A] @ ''(Key decisions, announcements, and context from email threads that a ''
     @ ''new hire should know about)'' @ [CHR 0x0A]
     @ ''(Table with Subject, From, Date, Summary columns)'' @ [CHR 0x0A, CHR 0x0A] @ ''## ''
     @ [CHR 0xF0, CHR 0x9F, CHR 0x93, CHR 0x84] @ '' Key Documents & Resources'' @ [CHR 0x0A]
     @ ''(Important documents discovered on SharePoint/OneDrive ''
     @ [CHR 0xE2, CHR 0x80, CHR 0x94] @ '' design specs, wikis, runbooks, slide decks)''
     @ [CHR 0x0A] @ ''(Table with Title, Type, Location, Summary columns ''
     @ [CHR 0xE2, CHR 0x80, CHR 0x94] @ '' sorted by relevance to a new hire)''
     @ [CHR 0x0A, CHR 0x0A] @ ''## '' @ [CHR 0xF0, CHR 0x9F, CHR 0x8E, CHR 0xAF]
     @ '' 30-60-90 Day Goals'' @ [CHR 0x0A] @ ''(Suggested milestones for the first 3 months)''
     @ [CHR 0x0A, CHR 0x0A] @ ''### 30 Days: Foundation'' @ [CHR 0x0A]
     @ ''- Complete environment setup'' @ [CHR 0x0A] @ ''- Merge 2-3 PRs'' @ [CHR 0x0A]
     @ ''- Understand core architecture'' @ [CHR 0x0A, CHR 0x0A] @ ''### 60 Days: Contribution''
     @ [CHR 0x0A] @ ''- Own a feature or component'' @ [CHR 0x0A]
     @ ''- Participate in code reviews'' @ [CHR 0x0A] @ ''- Present in a team meeting''
     @ [CHR 0x0A, CHR 0x0A] @ ''### 90 Days: Ownership'' @ [CHR 0x0A]
     @ ''- Lead a small initiative'' @ [CHR 0x0A] @ ''- Mentor the next new hire'' @ [CHR 0x0A]
     @ ''- Contribute to architecture decisions'' @ [CHR 0x0A, CHR 0x0A] @ ''## ''
     @ [CHR 0xF0, CHR 0x9F, CHR 0x93, CHR 0x96] @ '' Additional Resources'' @ [CHR 0x0A]
     @ ''(Links to all Microsoft Learn resources, tutorials, and docs gathered)''
     @ [CHR 0x0A, CHR 0x0A] @ ''---'' @ [CHR 0x0A, CHR 0x0A] @ ''Make the guide:'' @ [CHR 0x0A]
     @ ''- Warm and encouraging (not corporate/dry)'' @ [CHR 0x0A]
     @ ''- Specific to THIS repo (not generic)'' @ [CHR 0x0A]
     @ ''- Actionable (every section has clear next steps)'' @ [CHR 0x0A]
     @ ''- Well-formatted with emojis, tables, and code blocks where appropriate'' @ [CHR 0x0A]
     @ ''- Between 800-1500 words''\<close>

definition addGuideHeader ::
  "string \<Rightarrow> string \<Rightarrow> string \<Rightarrow> string \<Rightarrow> string \<Rightarrow> string list \<Rightarrow> string" where
  \<open>addGuideHeader body owner repo newHireName generatedAt stack =
     (''---'' @ [CHR 0x0A] @ ''title: "Onboarding Guide '' @ [CHR 0xE2, CHR 0x80, CHR 0x94]
      @ '' '' @ owner @ ''/'' @ repo @ ''"'' @ [CHR 0x0A] @ ''generated_by: "''
      @ [CHR 0xF0, CHR 0x9F, CHR 0xA4, CHR 0x96] @ '' OnboardBot ''
      @ [CHR 0xE2, CHR 0x80, CHR 0x94] @ '' AI-Powered Onboarding Accelerator"'' @ [CHR 0x0A]
      @ ''generated_at: "'' @ generatedAt @ ''"'' @ [CHR 0x0A] @ ''tech_stack: [''
      @ join_with '', '' (map (\<lambda>t. ''"'' @ t @ ''"'') stack) @ '']'' @ [CHR 0x0A]
      @ ''new_hire: "'' @ newHireName @ ''"'' @ [CHR 0x0A] @ ''---'' @ [CHR 0x0A, CHR 0x0A])
     @ body\<close>

subsection \<open>Paths and files\<close>

text \<open>
  \<open>path.join\<close> of the platform, in its POSIX form: the non-empty arguments are joined by
  \<open>/\<close> and the result is normalised. Normalisation drops empty and \<open>.\<close> segments and
  resolves \<open>..\<close> against the segment before it.
\<close>

fun segments :: "string \<Rightarrow> string \<Rightarrow> string list" where
  "segments cur [] = [cur]"
| "segments cur (c # cs) =
     (if c = CHR ''/'' then cur # segments [] cs else segments (cur @ [c]) cs)"

definition normalize_step :: "bool \<Rightarrow> string \<Rightarrow> string list \<Rightarrow> string list" where
  "normalize_step allowAboveRoot seg res =
     (if seg = [] \<or> seg = ''.'' then res
      else if seg = ''..'' then
        (case res of
           [] \<Rightarrow> if allowAboveRoot then [seg] else []
         | lastSegment # below \<Rightarrow>
             if lastSegment \<noteq> ''..'' then below
             else if allowAboveRoot then seg # res
             else res)
      else seg # res)"

definition normalizeString :: "bool \<Rightarrow> string \<Rightarrow> string" where
  "normalizeString allowAboveRoot path =
     join_with ''/'' (rev (fold (normalize_step allowAboveRoot) (segments [] path) []))"

definition path_normalize :: "string \<Rightarrow> string" where
  "path_normalize path =
     (if path = [] then ''.''
      else
        (let isAbsolute = (hd path = CHR ''/'');
             trailingSeparator = (last path = CHR ''/'');
             normalized = normalizeString (\<not> isAbsolute) path
         in if normalized = [] then
              (if isAbsolute then ''/'' else if trailingSeparator then ''./'' else ''.'')
            else
              (let withSep = (if trailingSeparator then normalized @ ''/'' else normalized)
               in if isAbsolute then CHR ''/'' # withSep else withSep)))"

definition path_join :: "string \<Rightarrow> string \<Rightarrow> string" where
  "path_join a b =
     (let parts = filter (\<lambda>p. p \<noteq> []) [a, b]
      in if parts = [] then ''.'' else path_normalize (join_with ''/'' parts))"

text \<open>
  The file system: the directories and the files with their contents, and the paths on
  which the operating system refuses an operation (permissions, a missing parent, a full
  disk). \<open>mkdir\<close> with \<open>recursive\<close> accepts a directory that exists; \<open>writeFile\<close>
  replaces the content of a file that exists.
\<close>

record filesystem =
  directories :: "string set"
  files :: "string \<rightharpoonup> string"
  refused :: "string set"

definition mkdir_recursive :: "filesystem \<Rightarrow> string \<Rightarrow> string + filesystem" where
  "mkdir_recursive fs path =
     (if path \<in> refused fs then Inl (''EACCES: permission denied, mkdir '' @ path)
      else if files fs path \<noteq> None then Inl (''EEXIST: file already exists, mkdir '' @ path)
      else Inr (fs\<lparr>directories := insert path (directories fs)\<rparr>))"

definition writeFile :: "filesystem \<Rightarrow> string \<Rightarrow> string \<Rightarrow> string + filesystem" where
  "writeFile fs path text =
     (if path \<in> refused fs then Inl (''EACCES: permission denied, open '' @ path)
      else if path \<in> directories fs then
        Inl (''EISDIR: illegal operation on a directory, open '' @ path)
      else Inr (fs\<lparr>files := (files fs)(path \<mapsto> text)\<rparr>))"

definition OUTPUT_DIR :: "runtime \<Rightarrow> string" where
  "OUTPUT_DIR rt =
     (case env_OUTPUT_DIR rt of
        None \<Rightarrow> ''./onboarding-guides''
      | Some d \<Rightarrow> or_else d ''./onboarding-guides'')"

definition guide_filename :: "runtime \<Rightarrow> string \<Rightarrow> string \<Rightarrow> string" where
  "guide_filename rt owner repo =
     ''onboarding-'' @ owner @ ''-'' @ repo @ ''-'' @ take 10 (save_time rt) @ ''.md''"

definition saveGuide ::
  "runtime \<Rightarrow> filesystem \<Rightarrow> string \<Rightarrow> string \<Rightarrow> string \<Rightarrow> (string + string) \<times> filesystem" where
  "saveGuide rt fs text owner repo =
     (let outputDir = OUTPUT_DIR rt in
      case mkdir_recursive fs outputDir of
        Inl e \<Rightarrow> (Inl e, fs)
      | Inr fs1 \<Rightarrow>
          (let path = path_join outputDir (guide_filename rt owner repo) in
           case writeFile fs1 path text of
             Inl e \<Rightarrow> (Inl e, fs1)
           | Inr fs2 \<Rightarrow> (Inr path, fs2)))"

record Guide =
  content :: string
  outputPath :: string

definition generateOnboardingGuide ::
  "runtime \<Rightarrow> session \<Rightarrow> filesystem \<Rightarrow> RepositoryAnalysis \<Rightarrow> LearningResourceGroup list
     \<Rightarrow> TeamContext \<Rightarrow> string \<Rightarrow> string \<Rightarrow> string option \<Rightarrow> Guide async \<times> filesystem" where
  "generateOnboardingGuide rt session fs repoAnalysis learningResources teamContext
       owner repo name =
     (let newHireName = (case name of None \<Rightarrow> ''New Team Member'' | Some n \<Rightarrow> n);
          synthesisPrompt = buildSynthesisPrompt rt repoAnalysis learningResources teamContext
                              owner repo newHireName
      in case session synthesisPrompt of
           Inl e \<Rightarrow> ((Inl e, [synthesisPrompt]), fs)
         | Inr message \<Rightarrow>
             (let guideContent = addGuideHeader message owner repo newHireName
                                   (header_time rt) (techStack repoAnalysis)
              in case saveGuide rt fs guideContent owner repo of
                   (Inl e, fs') \<Rightarrow> ((Inl e, [synthesisPrompt]), fs')
                 | (Inr path, fs') \<Rightarrow>
                     ((Inr \<lparr>content = guideContent, outputPath = path\<rparr>, [synthesisPrompt]),
                      fs')))"

section \<open>The orchestrator\<close>

record Options =
  opt_owner :: string
  opt_repo :: string
  opt_teamName :: "string option"
  opt_newHireName :: "string option"

text \<open>
  A step outcome carries the name of its step, the status \<open>success\<close> and the metrics of
  its stage; an entry of \<open>errors\<close> is the pair of \<open>step\<close> and \<open>error\<close>.
\<close>

datatype StepOutcome =
    RepoAnalysisStep "string list" nat nat nat nat
  | DocsFetchStep nat
  | TeamContextStep nat nat nat nat nat
  | GuideGenerationStep string nat

fun step :: "StepOutcome \<Rightarrow> string" where
  "step (RepoAnalysisStep stack filesFound docsFound prsFound issuesFound) = ''repo-analysis''"
| "step (DocsFetchStep resourceCount) = ''docs-fetch''"
| "step (TeamContextStep discussed people events emails documents) = ''team-context''"
| "step (GuideGenerationStep path contentLength) = ''guide-generation''"

definition status :: "StepOutcome \<Rightarrow> string" where
  "status s = ''success''"

record PipelineRunResult =
  steps :: "StepOutcome list"
  errors :: "(string \<times> string) list"
  guide :: "Guide option"

text \<open>\<open>s.length\<close> counts UTF-16 code units; on the UTF-8 bytes of \<open>s\<close>, every byte that
  starts a character counts once, and once more when the character takes four bytes.\<close>

definition utf16_length :: "string \<Rightarrow> nat" where
  "utf16_length s =
     length (filter (\<lambda>c. (of_char c :: nat) < 128 \<or> 192 \<le> (of_char c :: nat)) s)
     + length (filter (\<lambda>c. 240 \<le> (of_char c :: nat)) s)"

text \<open>
  The \<open>then\<close> and \<open>catch\<close> handlers of the three tasks: applied to the settled collector
  and the accumulator, they give the new accumulator and the value the task resolves to.
\<close>

definition default_analysis :: "Options \<Rightarrow> RepositoryAnalysis" where
  "default_analysis options =
     \<lparr>repoFullName = opt_owner options @ ''/'' @ opt_repo options, repoStructure = JArray [],
      techStack = [], docs = JArray [], prActivity = JArray [], issues = JArray [],
      discussions = JArray []\<rparr>"

definition default_context :: TeamContext where
  "default_context =
     \<lparr>recentDiscussions = JArray [], teamMembers = JArray [], upcomingEvents = JArray [],
      teamNorms = JObject [(''communicationChannels'', JArray []),
                            (''meetingCadence'', JString ''Unknown''),
                            (''codeReviewProcess'', JString ''Check CONTRIBUTING.md''),
                            (''deploymentProcess'', JString ''Check CI/CD workflows''),
                            (''otherNorms'', JArray [])],
      emailInsights = JArray [], relatedDocuments = JArray []\<rparr>"

definition repoTask ::
  "Options \<Rightarrow> RepositoryAnalysis async \<Rightarrow> PipelineRunResult
     \<Rightarrow> PipelineRunResult \<times> RepositoryAnalysis" where
  "repoTask options settled results =
     (case fst settled of
        Inr analysis \<Rightarrow>
          (results\<lparr>steps := steps results @
             [RepoAnalysisStep (techStack analysis) (array_length (repoStructure analysis))
                (array_length (docs analysis)) (array_length (prActivity analysis))
                (array_length (issues analysis))]\<rparr>,
           analysis)
      | Inl message \<Rightarrow>
          (results\<lparr>errors := errors results @ [(''repo-analysis'', message)]\<rparr>,
           default_analysis options))"

definition docsTask ::
  "LearningResourceGroup list async \<Rightarrow> PipelineRunResult
     \<Rightarrow> PipelineRunResult \<times> LearningResourceGroup list" where
  "docsTask settled results =
     (case fst settled of
        Inr groups \<Rightarrow>
          (results\<lparr>steps := steps results @
             [DocsFetchStep (fold (\<lambda>r sum. sum + array_length (resources r)) groups 0)]\<rparr>,
           groups)
      | Inl message \<Rightarrow>
          (results\<lparr>errors := errors results @ [(''docs-fetch'', message)]\<rparr>, []))"

definition teamTask ::
  "TeamContext async \<Rightarrow> PipelineRunResult \<Rightarrow> PipelineRunResult \<times> TeamContext" where
  "teamTask settled results =
     (case fst settled of
        Inr ctx \<Rightarrow>
          (results\<lparr>steps := steps results @
             [TeamContextStep (array_length (recentDiscussions ctx))
                (array_length (teamMembers ctx)) (array_length (upcomingEvents ctx))
                (array_length (emailInsights ctx)) (array_length (relatedDocuments ctx))]\<rparr>,
           ctx)
      | Inl message \<Rightarrow>
          (results\<lparr>errors := errors results @ [(''team-context'', message)]\<rparr>,
           default_context))"

text \<open>
  The three tasks run interleaved on one thread. The documentation task continues the
  repository task, so it settles after it; the team task settles before, between or after
  the two. A schedule names which; the handlers run in that order.
\<close>

datatype schedule = TeamFirst | TeamSecond | TeamLast

text \<open>
  What \<open>Promise.all\<close> resolves to, with the accumulator and the prompts each collector sent.
\<close>

record Joined =
  collected :: PipelineRunResult
  repoAnalysis_of :: RepositoryAnalysis
  learningResources_of :: "LearningResourceGroup list"
  teamContext_of :: TeamContext
  repo_sent :: "string list"
  docs_sent :: "string list"
  team_sent :: "string list"

definition parallel_phase :: "runtime \<Rightarrow> session \<Rightarrow> Options \<Rightarrow> schedule \<Rightarrow> Joined" where
  "parallel_phase rt session options sch =
     (let owner = opt_owner options;
          repo = opt_repo options;
          results = \<lparr>steps = [], errors = [], guide = None\<rparr>;
          repoSettled = analyzeRepository rt session owner repo;
          teamSettled = gatherTeamContext session
                          (case opt_teamName options of None \<Rightarrow> repo | Some t \<Rightarrow> or_else t repo)
                          (owner @ ''/'' @ repo);
          docsOf = (\<lambda>repoAnalysis.
                      fetchLearningResources session (techStack repoAnalysis) repoAnalysis);
          joined = (\<lambda>r repoAnalysis docsSettled learningResources teamContext.
                      \<lparr>collected = r, repoAnalysis_of = repoAnalysis,
                       learningResources_of = learningResources, teamContext_of = teamContext,
                       repo_sent = snd repoSettled, docs_sent = snd docsSettled,
                       team_sent = snd teamSettled\<rparr>)
      in case sch of
           TeamFirst \<Rightarrow>
             (let (r1, teamContext) = teamTask teamSettled results;
                  (r2, repoAnalysis) = repoTask options repoSettled r1;
                  docsSettled = docsOf repoAnalysis;
                  (r3, learningResources) = docsTask docsSettled r2
              in joined r3 repoAnalysis docsSettled learningResources teamContext)
         | TeamSecond \<Rightarrow>
             (let (r1, repoAnalysis) = repoTask options repoSettled results;
                  (r2, teamContext) = teamTask teamSettled r1;
                  docsSettled = docsOf repoAnalysis;
                  (r3, learningResources) = docsTask docsSettled r2
              in joined r3 repoAnalysis docsSettled learningResources teamContext)
         | TeamLast \<Rightarrow>
             (let (r1, repoAnalysis) = repoTask options repoSettled results;
                  docsSettled = docsOf repoAnalysis;
                  (r2, learningResources) = docsTask docsSettled r1;
                  (r3, teamContext) = teamTask teamSettled r2
              in joined r3 repoAnalysis docsSettled learningResources teamContext))"

text \<open>
  Step 4 of \<open>runOnboardBot\<close>, on what the parallel phase joined: the result, the prompts
  the synthesis stage sent and the file system it leaves.
\<close>

definition synthesis_phase ::
  "runtime \<Rightarrow> session \<Rightarrow> filesystem \<Rightarrow> Options \<Rightarrow> Joined
     \<Rightarrow> PipelineRunResult \<times> string list \<times> filesystem" where
  "synthesis_phase rt session fs options j =
     (case generateOnboardingGuide rt session fs (repoAnalysis_of j) (learningResources_of j)
             (teamContext_of j) (opt_owner options) (opt_repo options) (opt_newHireName options) of
        ((Inr g, sent), fs') \<Rightarrow>
          ((collected j)\<lparr>steps := steps (collected j) @
               [GuideGenerationStep (outputPath g) (utf16_length (content g))],
             guide := Some g\<rparr>,
           sent, fs')
      | ((Inl message, sent), fs') \<Rightarrow>
          ((collected j)\<lparr>errors := errors (collected j) @ [(''guide-generation'', message)]\<rparr>,
           sent, fs'))"

definition runOnboardBot ::
  "runtime \<Rightarrow> session \<Rightarrow> filesystem \<Rightarrow> Options \<Rightarrow> schedule \<Rightarrow> PipelineRunResult" where
  "runOnboardBot rt session fs options sch =
     fst (synthesis_phase rt session fs options (parallel_phase rt session options sch))"

section \<open>The demo session\<close>

definition demo_structure :: string where
  \<open>demo_structure =
     ''["README.md", "src/", "package.json", "tsconfig.json", "docs/", ''
     @ ''".github/", "Dockerfile", "docker-compose.yml", "tests/", ''
     @ ''".eslintrc.json", "jest.config.js"]''\<close>

definition demo_documents :: string where
  \<open>demo_documents =
     ''[{"file": "README.md", "summary": "Project overview with setup ''
     @ ''instructions, architecture diagram, and contributing guidelines. Uses a ''
     @ ''microservice architecture with Node.js backend and React frontend."}, ''
     @ ''{"file": "CONTRIBUTING.md", "summary": "Contribution guide: fork, ''
     @ ''branch, PR workflow. Code review required from 2 reviewers. Must pass ''
     @ ''CI checks before merge."}]''\<close>

definition demo_pullRequests :: string where
  \<open>demo_pullRequests =
     ''[{"number": 234, "title": "feat: Add user authentication module", ''
     @ ''"state": "open", "author": "senior-dev", "description": "Implements ''
     @ ''OAuth2 authentication with Azure AD integration"}, {"number": 231, ''
     @ ''"title": "fix: Resolve memory leak in data pipeline", "state": ''
     @ ''"merged", "author": "tech-lead", "description": "Fixed connection pool ''
     @ ''exhaustion under high load"}, {"number": 228, "title": "docs: Update ''
     @ ''API documentation", "state": "merged", "author": "docs-team", ''
     @ ''"description": "Added OpenAPI specs for new endpoints"}]''\<close>

definition demo_issues :: string where
  \<open>demo_issues =
     ''[{"number": 100, "title": "Implement caching layer", "labels": ''
     @ ''["enhancement", "performance"], "summary": "Add Redis caching for ''
     @ ''frequently accessed data"}, {"number": 95, "title": "Add unit tests for ''
     @ ''auth module", "labels": ["testing", "good first issue"], "summary": ''
     @ ''"New auth module needs comprehensive test coverage"}, {"number": 88, ''
     @ ''"title": "Migrate to Node.js 22", "labels": ["infrastructure", ''
     @ ''"tech-debt"], "summary": "Upgrade runtime for performance '' @ ''improvements"}]''\<close>

definition demo_discussions :: string where
  \<open>demo_discussions =
     ''[{"title": "RFC: New API versioning strategy", "category": "Ideas", ''
     @ ''"author": "architect", "summary": "Proposing URL-based versioning for ''
     @ ''the public API"}, {"title": "Team retro: Q4 highlights", "category": ''
     @ ''"General", "author": "manager", "summary": "Celebrating shipped ''
     @ ''features and lessons learned"}]''\<close>

definition demo_learn :: string where
  \<open>demo_learn =
     ''[{"title": "Getting started with Node.js on Azure", "url": ''
     @ ''"https://learn.microsoft.com/en-us/azure/developer/javascript/", ''
     @ ''"description": "Complete guide for building Node.js apps on Azure"}, ''
     @ ''{"title": "TypeScript Handbook", "url": ''
     @ ''"https://learn.microsoft.com/en-us/training/paths/build-javascript-appli''
     @ ''cations-typescript/", "description": "Learn TypeScript fundamentals and ''
     @ ''advanced patterns"}, {"title": "Docker containers on Azure", "url": ''
     @ ''"https://learn.microsoft.com/en-us/azure/container-instances/", ''
     @ ''"description": "Deploy containerized applications to Azure"}]''\<close>

definition demo_architecture :: string where
  \<open>demo_architecture =
     ''[{"title": "Azure Node.js samples", "url": ''
     @ ''"https://learn.microsoft.com/en-us/samples/browse/?languages=javascript"''
     @ '', "description": "Official Azure SDK samples for Node.js", "type": ''
     @ ''"sample"}, {"title": "Microservice architecture guide", "url": ''
     @ ''"https://learn.microsoft.com/en-us/azure/architecture/microservices/", ''
     @ ''"description": "Design patterns for microservice architectures", ''
     @ ''"type": "doc"}]''\<close>

definition demo_tutorials :: string where
  \<open>demo_tutorials =
     ''[{"title": "Build a Node.js web app with Azure", "url": ''
     @ ''"https://learn.microsoft.com/en-us/training/modules/create-nodejs-projec''
     @ ''t-dependencies/", "description": "Hands-on tutorial for full-stack ''
     @ ''Node.js development", "estimatedTime": "45 min"}, {"title": ''
     @ ''"Introduction to Docker containers", "url": ''
     @ ''"https://learn.microsoft.com/en-us/training/modules/intro-to-docker-cont''
     @ ''ainers/", "description": "Learn containerization fundamentals", ''
     @ ''"estimatedTime": "30 min"}]''\<close>

definition demo_teams :: string where
  \<open>demo_teams =
     ''[{"topic": "Sprint 24 Planning", "channel": "Engineering", "summary": ''
     @ ''"Team agreed to prioritize auth module and caching layer for next ''
     @ ''sprint", "date": "2026-02-10", "relevance": "Understand current sprint ''
     @ ''priorities and your potential first tasks"}, {"topic": "Architecture ''
     @ ''Decision: Event-Driven", "channel": "Architecture", "summary": "Moving ''
     @ ''to event-driven architecture for real-time features", "date": ''
     @ ''"2026-02-08", "relevance": "Key architectural shift that affects how you'' @ [CHR 0x27]
     @ ''ll write new services"}]''\<close>

definition demo_people :: string where
  \<open>demo_people =
     ''[{"name": "Alex Chen", "role": "Engineering Manager", "reason": "Your ''
     @ ''direct manager '' @ [CHR 0xE2, CHR 0x80, CHR 0x94]
     @ '' schedule a 1:1 in your first week"}, {"name": "Sarah Johnson", "role": ''
     @ ''"Tech Lead", "reason": "Leads architecture decisions ''
     @ [CHR 0xE2, CHR 0x80, CHR 0x94]
     @ '' great for codebase questions"}, {"name": "Mike Park", "role": "Senior ''
     @ ''Engineer", "reason": "Most active reviewer '' @ [CHR 0xE2, CHR 0x80, CHR 0x94]
     @ '' will likely review your first PRs"}, {"name": "Lisa Wang", "role": ''
     @ ''"DevOps Lead", "reason": "Owns CI/CD and deployment '' @ [CHR 0xE2, CHR 0x80, CHR 0x94]
     @ '' reach out for infra questions"}]''\<close>

definition demo_events :: string where
  \<open>demo_events =
     ''[{"event": "Daily Standup", "date": "Every day 9:30 AM", "recurring": ''
     @ ''true, "relevance": "Join from Day 1 to understand daily progress and ''
     @ ''blockers"}, {"event": "Sprint Planning", "date": "2026-02-17", ''
     @ ''"recurring": true, "relevance": "Great way to understand upcoming work ''
     @ ''and volunteer for tasks"}, {"event": "Architecture Review", "date": ''
     @ ''"2026-02-19", "recurring": true, "relevance": "Learn about system ''
     @ ''design decisions and propose improvements"}]''\<close>

definition demo_norms :: string where
  \<open>demo_norms =
     ''{"communicationChannels": ["#engineering-general", "#project-alpha", ''
     @ ''"#code-reviews", "#social"], "meetingCadence": "Daily standup at 9:30 ''
     @ ''AM, sprint planning bi-weekly Monday, retro bi-weekly Friday", ''
     @ ''"codeReviewProcess": "All PRs require 2 approvals. Use conventional ''
     @ ''commit messages. Link issues in PR description.", "deploymentProcess": ''
     @ ''"CI/CD via GitHub Actions. Staging deploys on PR merge to main. ''
     @ ''Production deploys weekly on Tuesday.", "otherNorms": ["Use threads in ''
     @ ''Teams for focused discussions", "Update your standup in the #standup ''
     @ ''channel by 9:30 AM", "Pair programming encouraged '' @ [CHR 0xE2, CHR 0x80, CHR 0x94]
     @ '' just ask in the channel"]}''\<close>

definition demo_emails :: string where
  \<open>demo_emails =
     ''[{"subject": "Architecture Review: Moving to Event-Driven", "from": ''
     @ ''"Sarah Johnson (Tech Lead)", "date": "2026-02-09", "summary": "Final ''
     @ ''decision to adopt event-driven architecture using Azure Service Bus for ''
     @ ''async communication between services", "relevance": "Major ''
     @ ''architectural shift '' @ [CHR 0xE2, CHR 0x80, CHR 0x94]
     @ '' all new services should follow this pattern"}, {"subject": "Security ''
     @ ''Audit Results & Action Items", "from": "Security Team", "date": ''
     @ ''"2026-02-06", "summary": "Audit completed with 3 medium findings. ''
     @ ''Action items assigned to fix auth token rotation and add rate limiting ''
     @ ''by Sprint 25", "relevance": "Understand current security priorities and ''
     @ ''potential tasks"}, {"subject": "Welcome to the Team!", "from": "Alex ''
     @ ''Chen (Engineering Manager)", "date": "2026-02-12", "summary": ''
     @ ''"Onboarding checklist: request access to Azure subscription, join Teams ''
     @ ''channels, schedule 1:1s with key people", "relevance": "Your onboarding ''
     @ ''action items from your manager"}, {"subject": "Q1 OKRs Finalized", ''
     @ ''"from": "VP of Engineering", "date": "2026-02-01", "summary": "Team ''
     @ ''OKRs: ship auth module, reduce P95 latency by 30%, achieve 90% test ''
     @ ''coverage on critical paths", "relevance": "Understand what the team is ''
     @ ''measured on this quarter"}, {"subject": "RE: Database Migration Plan", ''
     @ ''"from": "Lisa Wang (DevOps Lead)", "date": "2026-02-05", "summary": ''
     @ ''"PostgreSQL to Cosmos DB migration scheduled for March. All new ''
     @ ''features should use the Cosmos DB SDK", "relevance": "Affects which ''
     @ ''database APIs to use in new code"}]''\<close>

definition demo_sharepoint :: string where
  \<open>demo_sharepoint =
     ''[{"title": "System Architecture Overview", "type": "PowerPoint", ''
     @ ''"location": "Engineering SharePoint > Architecture", "lastModified": ''
     @ ''"2026-02-08", "summary": "Comprehensive system architecture diagram ''
     @ ''with data flow, service boundaries, and deployment topology", ''
     @ ''"relevance": "Essential reading '' @ [CHR 0xE2, CHR 0x80, CHR 0x94]
     @ '' the single source of truth for system design"}, {"title": "API Design ''
     @ ''Guidelines", "type": "Word", "location": "Engineering SharePoint > ''
     @ ''Standards", "lastModified": "2026-01-20", "summary": "REST API ''
     @ ''conventions, naming standards, error response formats, and versioning ''
     @ ''strategy", "relevance": "Must follow these guidelines when building new ''
     @ ''endpoints"}, {"title": "Runbook: Production Incidents", "type": "Wiki", ''
     @ ''"location": "Engineering SharePoint > Operations", "lastModified": ''
     @ ''"2026-02-03", "summary": "Step-by-step guide for handling production ''
     @ ''incidents, escalation paths, and post-mortem template", "relevance": ''
     @ ''"Reference for when you join the on-call rotation"}, {"title": "New ''
     @ ''Hire Technical Onboarding", "type": "Word", "location": "HR SharePoint ''
     @ ''> Onboarding", "lastModified": "2026-01-15", "summary": "Access request ''
     @ ''forms, dev environment setup checklist, and links to all team ''
     @ ''resources", "relevance": "Complements this guide with HR-specific ''
     @ ''onboarding steps"}, {"title": "Sprint 23 Retrospective", "type": ''
     @ ''"PowerPoint", "location": "Engineering SharePoint > Retros", ''
     @ ''"lastModified": "2026-02-07", "summary": "Key learnings: improve PR ''
     @ ''review turnaround, add integration tests before shipping, better sprint ''
     @ ''estimation", "relevance": "Understand recent team improvements and ''
     @ ''expectations"}, {"title": "Event-Driven Architecture RFC", "type": ''
     @ ''"Word", "location": "Engineering SharePoint > RFCs", "lastModified": ''
     @ ''"2026-02-09", "summary": "Detailed proposal for migrating to ''
     @ ''event-driven architecture with Azure Service Bus '' @ [CHR 0xE2, CHR 0x80, CHR 0x94]
     @ '' includes trade-offs and migration plan", "relevance": "Active RFC ''
     @ [CHR 0xE2, CHR 0x80, CHR 0x94]
     @ '' understanding this will help you contribute to architectural '' @ ''discussions"}]''\<close>

text \<open>
  \<open>prompt.match(/(\w+)\/(\w+)/)\<close>: the leftmost position where a maximal run of word
  characters is followed by a slash and a word character; the groups are that run and
  the maximal run after the slash.
\<close>

definition is_word :: "char \<Rightarrow> bool" where
  "is_word c =
     (let n = (of_char c :: nat)
      in (48 \<le> n \<and> n \<le> 57) \<or> (65 \<le> n \<and> n \<le> 90) \<or> (97 \<le> n \<and> n \<le> 122) \<or> n = 95)"

fun match_repo :: "string \<Rightarrow> (string \<times> string) option" where
  "match_repo [] = None"
| "match_repo (c # cs) =
     (let first = takeWhile is_word (c # cs);
          after = dropWhile is_word (c # cs)
      in case after of
           [] \<Rightarrow> match_repo cs
         | slash # rest \<Rightarrow>
             if first \<noteq> [] \<and> slash = CHR ''/'' \<and> takeWhile is_word rest \<noteq> []
             then Some (first, takeWhile is_word rest)
             else match_repo cs)"

text \<open>
  \<open>prompt.match(/Hello, (.+?)!/)\<close>: the leftmost \<open>Hello, \<close> that is followed, on the same
  line, by at least one character and then an exclamation mark; the group ends before the
  first exclamation mark that is not its first character. A line ends at a line feed, a
  carriage return, U+2028 or U+2029.
\<close>

definition line_terminator_at :: "string \<Rightarrow> bool" where
  "line_terminator_at s =
     (prefix [CHR 0x0A] s \<or> prefix [CHR 0x0D] s
      \<or> prefix [CHR 0xE2, CHR 0x80, CHR 0xA8] s \<or> prefix [CHR 0xE2, CHR 0x80, CHR 0xA9] s)"

fun until_bang :: "string \<Rightarrow> string option" where
  "until_bang [] = None"
| "until_bang (c # cs) =
     (if c = CHR ''!'' then Some []
      else if line_terminator_at (c # cs) then None
      else map_option ((#) c) (until_bang cs))"

fun match_hello :: "string \<Rightarrow> string option" where
  "match_hello [] = None"
| "match_hello (c # cs) =
     (if prefix ''Hello, '' (c # cs) then
        (case drop 7 (c # cs) of
           [] \<Rightarrow> match_hello cs
         | d # ds \<Rightarrow>
             if line_terminator_at (d # ds) then match_hello cs
             else (case until_bang ds of
                     None \<Rightarrow> match_hello cs
                   | Some g \<Rightarrow> Some (d # g)))
      else match_hello cs)"

definition demoGuideText :: "string \<Rightarrow> string \<Rightarrow> string \<Rightarrow> string" where
  \<open>demoGuideText owner repo name =
     ''# '' @ [CHR 0xF0, CHR 0x9F, CHR 0x9A, CHR 0x80] @ '' Welcome to '' @ owner @ ''/'' @ repo
     @ ''!'' @ [CHR 0x0A, CHR 0x0A] @ ''## '' @ [CHR 0xF0, CHR 0x9F, CHR 0x91, CHR 0x8B]
     @ '' Hello, '' @ name @ ''!'' @ [CHR 0x0A, CHR 0x0A] @ ''Welcome to the team! We''
     @ [CHR 0x27] @ ''re thrilled to have you on board. This project is at the heart of our ''
     @ ''engineering efforts, and your contributions will make a real ''
     @ ''difference. This guide was generated by '' @ [CHR 0xF0, CHR 0x9F, CHR 0xA4, CHR 0x96]
     @ '' OnboardBot to help you hit the ground running.'' @ [CHR 0x0A, CHR 0x0A] @ ''## ''
     @ [CHR 0xF0, CHR 0x9F, CHR 0x8F, CHR 0x97, CHR 0xEF, CHR 0xB8, CHR 0x8F]
     @ '' Architecture Overview'' @ [CHR 0x0A, CHR 0x0A]
     @ ''The project follows a **microservice architecture** with clear ''
     @ ''separation of concerns:'' @ [CHR 0x0A, CHR 0x0A] @ ''```'' @ [CHR 0x0A] @ repo @ ''/''
     @ [CHR 0x0A, CHR 0xE2, CHR 0x94, CHR 0x9C, CHR 0xE2, CHR 0x94, CHR 0x80, CHR 0xE2]
     @ [CHR 0x94, CHR 0x80] @ '' src/              # Main application source code''
     @ [CHR 0x0A, CHR 0xE2, CHR 0x94, CHR 0x82] @ ''   ''
     @ [CHR 0xE2, CHR 0x94, CHR 0x9C, CHR 0xE2, CHR 0x94, CHR 0x80, CHR 0xE2, CHR 0x94]
     @ [CHR 0x80] @ '' api/          # REST API endpoints''
     @ [CHR 0x0A, CHR 0xE2, CHR 0x94, CHR 0x82] @ ''   ''
     @ [CHR 0xE2, CHR 0x94, CHR 0x9C, CHR 0xE2, CHR 0x94, CHR 0x80, CHR 0xE2, CHR 0x94]
     @ [CHR 0x80] @ '' services/     # Business logic layer''
     @ [CHR 0x0A, CHR 0xE2, CHR 0x94, CHR 0x82] @ ''   ''
     @ [CHR 0xE2, CHR 0x94, CHR 0x9C, CHR 0xE2, CHR 0x94, CHR 0x80, CHR 0xE2, CHR 0x94]
     @ [CHR 0x80] @ '' models/       # Data models and schemas''
     @ [CHR 0x0A, CHR 0xE2, CHR 0x94, CHR 0x82] @ ''   ''
     @ [CHR 0xE2, CHR 0x94, CHR 0x94, CHR 0xE2, CHR 0x94, CHR 0x80, CHR 0xE2, CHR 0x94]
     @ [CHR 0x80] @ '' utils/        # Shared utilities''
     @ [CHR 0x0A, CHR 0xE2, CHR 0x94, CHR 0x9C, CHR 0xE2, CHR 0x94, CHR 0x80, CHR 0xE2]
     @ [CHR 0x94, CHR 0x80] @ '' tests/            # Test suites (unit, integration, e2e)''
     @ [CHR 0x0A, CHR 0xE2, CHR 0x94, CHR 0x9C, CHR 0xE2, CHR 0x94, CHR 0x80, CHR 0xE2]
     @ [CHR 0x94, CHR 0x80] @ '' docs/             # Project documentation''
     @ [CHR 0x0A, CHR 0xE2, CHR 0x94, CHR 0x9C, CHR 0xE2, CHR 0x94, CHR 0x80, CHR 0xE2]
     @ [CHR 0x94, CHR 0x80] @ '' .github/          # CI/CD workflows and issue templates''
     @ [CHR 0x0A, CHR 0xE2, CHR 0x94, CHR 0x9C, CHR 0xE2, CHR 0x94, CHR 0x80, CHR 0xE2]
     @ [CHR 0x94, CHR 0x80] @ '' Dockerfile        # Container definition''
     @ [CHR 0x0A, CHR 0xE2, CHR 0x94, CHR 0x94, CHR 0xE2, CHR 0x94, CHR 0x80, CHR 0xE2]
     @ [CHR 0x94, CHR 0x80] @ '' docker-compose.yml # Local development stack'' @ [CHR 0x0A]
     @ ''```'' @ [CHR 0x0A, CHR 0x0A] @ ''**Key architectural decisions:**'' @ [CHR 0x0A]
     @ ''- Event-driven communication between services'' @ [CHR 0x0A]
     @ ''- OAuth2 authentication with Azure AD integration'' @ [CHR 0x0A]
     @ ''- Redis caching for frequently accessed data'' @ [CHR 0x0A]
     @ ''- Docker-based deployment with GitHub Actions CI/CD'' @ [CHR 0x0A, CHR 0x0A] @ ''## ''
     @ [CHR 0xF0, CHR 0x9F, CHR 0x94, CHR 0xA7] @ '' Tech Stack'' @ [CHR 0x0A, CHR 0x0A]
     @ ''| Technology | Usage | Learn More |'' @ [CHR 0x0A]
     @ ''|------------|-------|------------|'' @ [CHR 0x0A]
     @ ''| **Node.js** | Backend runtime | [Azure Node.js ''
     @ ''Guide](https://learn.microsoft.com/en-us/azure/developer/javascript/) |'' @ [CHR 0x0A]
     @ ''| **TypeScript** | Type-safe development | [TypeScript Learning ''
     @ ''Path](https://learn.microsoft.com/en-us/training/paths/build-javascript-''
     @ ''applications-typescript/) |'' @ [CHR 0x0A]
     @ ''| **Docker** | Containerization | [Docker on ''
     @ ''Azure](https://learn.microsoft.com/en-us/azure/container-instances/) |'' @ [CHR 0x0A]
     @ ''| **Jest** | Testing framework | [Testing Best ''
     @ ''Practices](https://learn.microsoft.com/en-us/training/modules/create-nod''
     @ ''ejs-project-dependencies/) |'' @ [CHR 0x0A]
     @ ''| **ESLint** | Code linting | Check `.eslintrc.json` in repo root |''
     @ [CHR 0x0A, CHR 0x0A] @ ''## ''
     @ [CHR 0xF0, CHR 0x9F, CHR 0x9B, CHR 0xA0, CHR 0xEF, CHR 0xB8, CHR 0x8F]
     @ '' Development Environment Setup'' @ [CHR 0x0A, CHR 0x0A] @ ''```bash'' @ [CHR 0x0A]
     @ ''# 1. Clone the repository'' @ [CHR 0x0A] @ ''git clone https://github.com/'' @ owner
     @ ''/'' @ repo @ ''.git'' @ [CHR 0x0A] @ ''cd '' @ repo @ [CHR 0x0A, CHR 0x0A]
     @ ''# 2. Install dependencies'' @ [CHR 0x0A] @ ''npm install'' @ [CHR 0x0A, CHR 0x0A]
     @ ''# 3. Set up environment variables'' @ [CHR 0x0A] @ ''cp .env.example .env''
     @ [CHR 0x0A] @ ''# Edit .env with your values'' @ [CHR 0x0A, CHR 0x0A]
     @ ''# 4. Start local development stack'' @ [CHR 0x0A] @ ''docker-compose up -d''
     @ [CHR 0x0A, CHR 0x0A] @ ''# 5. Run the application'' @ [CHR 0x0A] @ ''npm run dev''
     @ [CHR 0x0A, CHR 0x0A] @ ''# 6. Run tests'' @ [CHR 0x0A] @ ''npm test'' @ [CHR 0x0A]
     @ ''```'' @ [CHR 0x0A, CHR 0x0A]
     @ ''**Prerequisites:** Node.js 22+, Docker Desktop, Git, VS Code with ''
     @ ''ESLint extension'' @ [CHR 0x0A, CHR 0x0A] @ ''## ''
     @ [CHR 0xF0, CHR 0x9F, CHR 0x93, CHR 0x9A] @ '' Essential Reading'' @ [CHR 0x0A, CHR 0x0A]
     @ ''### '' @ [CHR 0xF0, CHR 0x9F, CHR 0x94, CHR 0xB4]
     @ '' Read First (before writing code)'' @ [CHR 0x0A] @ ''- **README.md** ''
     @ [CHR 0xE2, CHR 0x80, CHR 0x94]
     @ '' Project overview, setup instructions, architecture diagram'' @ [CHR 0x0A]
     @ ''- **CONTRIBUTING.md** '' @ [CHR 0xE2, CHR 0x80, CHR 0x94]
     @ '' Fork, branch, PR workflow. 2 reviewers required.'' @ [CHR 0x0A, CHR 0x0A] @ ''### ''
     @ [CHR 0xF0, CHR 0x9F, CHR 0x9F, CHR 0xA1] @ '' Read This Week'' @ [CHR 0x0A]
     @ ''- **docs/architecture.md** '' @ [CHR 0xE2, CHR 0x80, CHR 0x94]
     @ '' Detailed system design and data flow'' @ [CHR 0x0A]
     @ ''- **RFC: API Versioning Strategy** '' @ [CHR 0xE2, CHR 0x80, CHR 0x94]
     @ '' Upcoming changes to the API layer'' @ [CHR 0x0A, CHR 0x0A] @ ''### ''
     @ [CHR 0xF0, CHR 0x9F, CHR 0x9F, CHR 0xA2] @ '' Reference (bookmark for later)''
     @ [CHR 0x0A] @ ''- [Azure Node.js ''
     @ ''Samples](https://learn.microsoft.com/en-us/samples/browse/?languages=jav''
     @ ''ascript)'' @ [CHR 0x0A] @ ''- [Microservice Architecture ''
     @ ''Guide](https://learn.microsoft.com/en-us/azure/architecture/microservice'' @ ''s/)''
     @ [CHR 0x0A, CHR 0x0A] @ ''## '' @ [CHR 0xF0, CHR 0x9F, CHR 0x94, CHR 0x80]
     @ '' Current Work in Progress'' @ [CHR 0x0A, CHR 0x0A]
     @ ''| PR | Title | Author | Status |'' @ [CHR 0x0A] @ ''|----|-------|--------|--------|''
     @ [CHR 0x0A] @ ''| #234 | Add user authentication module | senior-dev | ''
     @ [CHR 0xF0, CHR 0x9F, CHR 0x9F, CHR 0xA1] @ '' Open |'' @ [CHR 0x0A]
     @ ''| #231 | Fix memory leak in data pipeline | tech-lead | ''
     @ [CHR 0xE2, CHR 0x9C, CHR 0x85] @ '' Merged |'' @ [CHR 0x0A]
     @ ''| #228 | Update API documentation | docs-team | '' @ [CHR 0xE2, CHR 0x9C, CHR 0x85]
     @ '' Merged |'' @ [CHR 0x0A, CHR 0x0A]
     @ ''**Current sprint focus:** Authentication module and caching layer.''
     @ [CHR 0x0A, CHR 0x0A] @ ''## '' @ [CHR 0xF0, CHR 0x9F, CHR 0x90, CHR 0x9B]
     @ '' Good First Issues'' @ [CHR 0x0A, CHR 0x0A] @ ''| Issue | Title | Labels |''
     @ [CHR 0x0A] @ ''|-------|-------|--------|'' @ [CHR 0x0A]
     @ ''| #95 | **Add unit tests for auth module** | `testing`, `good first '' @ ''issue` |''
     @ [CHR 0x0A] @ ''| #100 | Implement caching layer | `enhancement`, `performance` |''
     @ [CHR 0x0A, CHR 0x0A] @ ''> '' @ [CHR 0xF0, CHR 0x9F, CHR 0x92, CHR 0xA1]
     @ '' **Suggestion:** Issue #95 is a perfect first contribution! It'' @ [CHR 0x27]
     @ ''ll help you understand the auth module while adding valuable test '' @ ''coverage.''
     @ [CHR 0x0A, CHR 0x0A] @ ''## '' @ [CHR 0xF0, CHR 0x9F, CHR 0x91, CHR 0xA5]
     @ '' Key People to Connect With'' @ [CHR 0x0A, CHR 0x0A]
     @ ''| Person | Role | Why Reach Out |'' @ [CHR 0x0A]
     @ ''|--------|------|---------------|'' @ [CHR 0x0A]
     @ ''| **Alex Chen** | Engineering Manager | Your direct manager ''
     @ [CHR 0xE2, CHR 0x80, CHR 0x94] @ '' schedule a 1:1 in week 1 |'' @ [CHR 0x0A]
     @ ''| **Sarah Johnson** | Tech Lead | Architecture questions and codebase ''
     @ ''guidance |'' @ [CHR 0x0A]
     @ ''| **Mike Park** | Senior Engineer | Most active reviewer ''
     @ [CHR 0xE2, CHR 0x80, CHR 0x94] @ '' will review your first PRs |'' @ [CHR 0x0A]
     @ ''| **Lisa Wang** | DevOps Lead | CI/CD and deployment questions |''
     @ [CHR 0x0A, CHR 0x0A] @ ''> '' @ [CHR 0xF0, CHR 0x9F, CHR 0x92, CHR 0xAC]
     @ '' **Intro template:** *"Hi [name]! I'' @ [CHR 0x27] @ ''m '' @ name
     @ '', just joined the team. I'' @ [CHR 0x27] @ ''m working on getting up to speed with ''
     @ repo @ ''. Would love to chat about [their area] when you have 15 min!"*''
     @ [CHR 0x0A, CHR 0x0A] @ ''## '' @ [CHR 0xF0, CHR 0x9F, CHR 0x93, CHR 0x85]
     @ '' Your First Two Weeks'' @ [CHR 0x0A, CHR 0x0A] @ ''### Week 1: Learn & Setup''
     @ [CHR 0x0A] @ ''| Day | Focus | Tasks |'' @ [CHR 0x0A] @ ''|-----|-------|-------|''
     @ [CHR 0x0A] @ ''| **Day 1** | '' @ [CHR 0xF0, CHR 0x9F, CHR 0x8F, CHR 0xA0]
     @ '' Setup | Environment setup, read essential docs, introduce yourself in ''
     @ ''#engineering-general |'' @ [CHR 0x0A] @ ''| **Day 2** | ''
     @ [CHR 0xF0, CHR 0x9F, CHR 0x93, CHR 0x96]
     @ '' Learn | Explore codebase, understand folder structure, read ''
     @ ''architecture docs |'' @ [CHR 0x0A] @ ''| **Day 3** | ''
     @ [CHR 0xF0, CHR 0x9F, CHR 0x8F, CHR 0x83]
     @ '' Run | Run the app locally, explore the API, run test suites |'' @ [CHR 0x0A]
     @ ''| **Day 4** | '' @ [CHR 0xF0, CHR 0x9F, CHR 0x91, CHR 0x80]
     @ '' Observe | Read recent PRs (#234, #231), attend standup, shadow a code ''
     @ ''review |'' @ [CHR 0x0A] @ ''| **Day 5** | '' @ [CHR 0xF0, CHR 0x9F, CHR 0x8E, CHR 0xAF]
     @ '' Pick | Choose your first issue (#95), start working on it |'' @ [CHR 0x0A, CHR 0x0A]
     @ ''### Week 2: Contribute & Connect'' @ [CHR 0x0A] @ ''| Day | Focus | Tasks |''
     @ [CHR 0x0A] @ ''|-----|-------|-------|'' @ [CHR 0x0A] @ ''| **Day 6-7** | ''
     @ [CHR 0xF0, CHR 0x9F, CHR 0x92, CHR 0xBB]
     @ '' Code | Submit your first PR, respond to code review feedback |'' @ [CHR 0x0A]
     @ ''| **Day 8-9** | '' @ [CHR 0xF0, CHR 0x9F, CHR 0xA4, CHR 0x9D]
     @ '' Connect | Pair with Sarah on architecture, attend sprint planning |'' @ [CHR 0x0A]
     @ ''| **Day 10** | '' @ [CHR 0xF0, CHR 0x9F, CHR 0x93, CHR 0x9D]
     @ '' Reflect | Share onboarding feedback, identify areas to improve for ''
     @ ''next new hire |'' @ [CHR 0x0A, CHR 0x0A] @ ''## ''
     @ [CHR 0xF0, CHR 0x9F, CHR 0x93, CHR 0x85] @ '' Important Meetings & Events''
     @ [CHR 0x0A, CHR 0x0A] @ ''| Event | When | Why Attend |'' @ [CHR 0x0A]
     @ ''|-------|------|------------|'' @ [CHR 0x0A]
     @ ''| **Daily Standup** | Every day 9:30 AM | Understand daily progress and ''
     @ ''blockers |'' @ [CHR 0x0A]
     @ ''| **Sprint Planning** | Feb 17, 2026 | See upcoming work, volunteer for ''
     @ ''tasks |'' @ [CHR 0x0A]
     @ ''| **Architecture Review** | Feb 19, 2026 | Learn system design, propose ''
     @ ''improvements |'' @ [CHR 0x0A, CHR 0x0A] @ ''## ''
     @ [CHR 0xF0, CHR 0x9F, CHR 0x92, CHR 0xAC] @ '' Communication Guide''
     @ [CHR 0x0A, CHR 0x0A] @ ''**Channels to join:**'' @ [CHR 0x0A]
     @ ''- `#engineering-general` '' @ [CHR 0xE2, CHR 0x80, CHR 0x94]
     @ '' Main engineering discussions'' @ [CHR 0x0A] @ ''- `#project-alpha` ''
     @ [CHR 0xE2, CHR 0x80, CHR 0x94] @ '' Project-specific updates'' @ [CHR 0x0A]
     @ ''- `#code-reviews` '' @ [CHR 0xE2, CHR 0x80, CHR 0x94]
     @ '' PR notifications and review discussions'' @ [CHR 0x0A] @ ''- `#social` ''
     @ [CHR 0xE2, CHR 0x80, CHR 0x94] @ '' Team bonding and casual chat'' @ [CHR 0x0A, CHR 0x0A]
     @ ''**Team norms:**'' @ [CHR 0x0A] @ ''- '' @ [CHR 0xF0, CHR 0x9F, CHR 0x92, CHR 0xAC]
     @ '' Use threads in Teams for focused discussions'' @ [CHR 0x0A] @ ''- ''
     @ [CHR 0xF0, CHR 0x9F, CHR 0x93, CHR 0x9D]
     @ '' Update your standup in #standup by 9:30 AM'' @ [CHR 0x0A] @ ''- ''
     @ [CHR 0xF0, CHR 0x9F, CHR 0x91, CHR 0xAF] @ '' Pair programming encouraged ''
     @ [CHR 0xE2, CHR 0x80, CHR 0x94] @ '' just ask!'' @ [CHR 0x0A] @ ''- ''
     @ [CHR 0xF0, CHR 0x9F, CHR 0x93, CHR 0xA6] @ '' Use conventional commit messages''
     @ [CHR 0x0A] @ ''- '' @ [CHR 0xF0, CHR 0x9F, CHR 0x94, CHR 0x80]
     @ '' Link issues in PR descriptions'' @ [CHR 0x0A, CHR 0x0A] @ ''## ''
     @ [CHR 0xF0, CHR 0x9F, CHR 0x93, CHR 0xA7] @ '' Recent Decisions from Email''
     @ [CHR 0x0A, CHR 0x0A] @ ''| Subject | From | Date | Summary |'' @ [CHR 0x0A]
     @ ''|---------|------|------|---------|'' @ [CHR 0x0A]
     @ ''| **Architecture Review: Event-Driven** | Sarah Johnson (Tech Lead) | ''
     @ ''Feb 9 | Adopted event-driven architecture with Azure Service Bus |'' @ [CHR 0x0A]
     @ ''| **Security Audit Results** | Security Team | Feb 6 | 3 medium '' @ ''findings ''
     @ [CHR 0xE2, CHR 0x80, CHR 0x94]
     @ '' fix auth token rotation & rate limiting by Sprint 25 |'' @ [CHR 0x0A]
     @ ''| **Q1 OKRs Finalized** | VP of Engineering | Feb 1 | Ship auth module, ''
     @ ''reduce P95 latency 30%, 90% test coverage |'' @ [CHR 0x0A]
     @ ''| **Database Migration Plan** | Lisa Wang (DevOps) | Feb 5 | PostgreSQL ''
     @ [CHR 0xE2, CHR 0x86, CHR 0x92]
     @ '' Cosmos DB in March. New code should use Cosmos SDK |'' @ [CHR 0x0A, CHR 0x0A] @ ''> ''
     @ [CHR 0xF0, CHR 0x9F, CHR 0x92, CHR 0xA1]
     @ '' These decisions shape your day-to-day work. Ask your tech lead if ''
     @ ''anything is unclear!'' @ [CHR 0x0A, CHR 0x0A] @ ''## ''
     @ [CHR 0xF0, CHR 0x9F, CHR 0x93, CHR 0x84] @ '' Key Documents & Resources''
     @ [CHR 0x0A, CHR 0x0A] @ ''| Document | Type | Location | Why Read It |'' @ [CHR 0x0A]
     @ ''|----------|------|----------|-------------|'' @ [CHR 0x0A]
     @ ''| **System Architecture Overview** | PowerPoint | Engineering ''
     @ ''SharePoint | Single source of truth for system design |'' @ [CHR 0x0A]
     @ ''| **API Design Guidelines** | Word | Engineering SharePoint | ''
     @ ''Must-follow conventions for new endpoints |'' @ [CHR 0x0A]
     @ ''| **Runbook: Production Incidents** | Wiki | Engineering SharePoint | ''
     @ ''Reference for on-call rotation |'' @ [CHR 0x0A]
     @ ''| **Event-Driven Architecture RFC** | Word | Engineering SharePoint | ''
     @ ''Active RFC '' @ [CHR 0xE2, CHR 0x80, CHR 0x94] @ '' join the discussion! |''
     @ [CHR 0x0A] @ ''| **New Hire Technical Onboarding** | Word | HR SharePoint | Access ''
     @ ''requests and setup checklist |'' @ [CHR 0x0A, CHR 0x0A] @ ''## ''
     @ [CHR 0xF0, CHR 0x9F, CHR 0x8E, CHR 0xAF] @ '' 30-60-90 Day Goals'' @ [CHR 0x0A, CHR 0x0A]
     @ ''### '' @ [CHR 0xF0, CHR 0x9F, CHR 0x8E, CHR 0xAF] @ '' 30 Days: Foundation''
     @ [CHR 0x0A] @ ''- [x] Complete environment setup'' @ [CHR 0x0A] @ ''- [ ] Merge 2-3 PRs''
     @ [CHR 0x0A] @ ''- [ ] Understand core architecture'' @ [CHR 0x0A]
     @ ''- [ ] Meet all key team members'' @ [CHR 0x0A, CHR 0x0A] @ ''### ''
     @ [CHR 0xF0, CHR 0x9F, CHR 0x8E, CHR 0xAF] @ '' 60 Days: Contribution'' @ [CHR 0x0A]
     @ ''- [ ] Own a feature or component'' @ [CHR 0x0A]
     @ ''- [ ] Participate in 5+ code reviews'' @ [CHR 0x0A]
     @ ''- [ ] Present in a team meeting'' @ [CHR 0x0A] @ ''- [ ] Resolve a production issue''
     @ [CHR 0x0A, CHR 0x0A] @ ''### '' @ [CHR 0xF0, CHR 0x9F, CHR 0x8E, CHR 0xAF]
     @ '' 90 Days: Ownership'' @ [CHR 0x0A] @ ''- [ ] Lead a small initiative or RFC''
     @ [CHR 0x0A] @ ''- [ ] Mentor the next new hire'' @ [CHR 0x0A]
     @ ''- [ ] Contribute to architecture decisions'' @ [CHR 0x0A]
     @ ''- [ ] Present a tech talk to the team'' @ [CHR 0x0A, CHR 0x0A] @ ''## ''
     @ [CHR 0xF0, CHR 0x9F, CHR 0x93, CHR 0x96] @ '' Additional Resources''
     @ [CHR 0x0A, CHR 0x0A] @ ''- [Getting started with Node.js on ''
     @ ''Azure](https://learn.microsoft.com/en-us/azure/developer/javascript/)'' @ [CHR 0x0A]
     @ ''- [TypeScript Learning ''
     @ ''Path](https://learn.microsoft.com/en-us/training/paths/build-javascript-''
     @ ''applications-typescript/)'' @ [CHR 0x0A] @ ''- [Docker containers on ''
     @ ''Azure](https://learn.microsoft.com/en-us/azure/container-instances/)'' @ [CHR 0x0A]
     @ ''- [Azure Node.js ''
     @ ''samples](https://learn.microsoft.com/en-us/samples/browse/?languages=jav''
     @ ''ascript)'' @ [CHR 0x0A] @ ''- [Microservice architecture ''
     @ ''guide](https://learn.microsoft.com/en-us/azure/architecture/microservice'' @ ''s/)''
     @ [CHR 0x0A, CHR 0x0A] @ ''---'' @ [CHR 0x0A, CHR 0x0A] @ ''*Generated by ''
     @ [CHR 0xF0, CHR 0x9F, CHR 0xA4, CHR 0x96] @ '' OnboardBot ''
     @ [CHR 0xE2, CHR 0x80, CHR 0x94] @ '' AI-Powered Onboarding Accelerator*'' @ [CHR 0x0A]
     @ ''*Powered by GitHub Copilot + MCP (GitHub MCP, Microsoft Learn MCP, ''
     @ ''WorkIQ MCP)*'' @ [CHR 0x0A]\<close>

definition generateDemoGuide :: "string \<Rightarrow> string" where
  "generateDemoGuide prompt =
     (let repoMatch = match_repo prompt;
          owner = (case repoMatch of None \<Rightarrow> ''org'' | Some (a, b) \<Rightarrow> or_else a ''org'');
          repo = (case repoMatch of None \<Rightarrow> ''project'' | Some (a, b) \<Rightarrow> or_else b ''project'');
          nameMatch = match_hello prompt;
          name = (case nameMatch of None \<Rightarrow> ''New Team Member''
                  | Some n \<Rightarrow> or_else n ''New Team Member'')
      in demoGuideText owner repo name)"

text \<open>The message of the demo session's \<open>sendAndWait\<close>: its chain of \<open>if\<close> statements.\<close>

definition demo_message :: "string \<Rightarrow> string" where
  "demo_message prompt =
     (
      if str_includes prompt ''repository tree'' \<or> str_includes prompt ''top-level''
      then demo_structure else
      if str_includes prompt ''file contents'' \<or> str_includes prompt ''key documentation''
      then demo_documents else
      if str_includes prompt ''pull requests''
      then demo_pullRequests else
      if str_includes prompt ''open issues''
      then demo_issues else
      if str_includes prompt ''discussions''
      then demo_discussions else
      if str_includes prompt ''Microsoft Learn'' \<or> str_includes prompt ''documentation''
      then demo_learn else
      if str_includes prompt ''code samples'' \<or> str_includes prompt ''architecture''
      then demo_architecture else
      if str_includes prompt ''tutorials'' \<or> str_includes prompt ''learning paths''
      then demo_tutorials else
      if str_includes prompt ''Teams'' \<or> str_includes prompt ''recent messages''
      then demo_teams else
      if str_includes prompt ''key people'' \<or> str_includes prompt ''find key people''
      then demo_people else
      if str_includes prompt ''upcoming meetings'' \<or> str_includes prompt ''upcoming events''
      then demo_events else
      if str_includes prompt ''team norms'' \<or> str_includes prompt ''team processes''
      then demo_norms else
      if str_includes prompt ''recent emails'' \<or> str_includes prompt ''email''
      then demo_emails else
      if str_includes prompt ''documents on SharePoint'' \<or> str_includes prompt ''SharePoint'' \<or> str_includes prompt ''OneDrive''
      then demo_sharepoint else
      if str_includes prompt ''onboarding specialist'' \<or> str_includes prompt ''Welcome to''
      then generateDemoGuide prompt
      else ''[]'')"

definition createDemoSession :: session where
  "createDemoSession prompt = Inr (demo_message prompt)"

section \<open>Runs: their stages, their settled tasks, and examples\<close>

text \<open>
  The four stage names; how often a name occurs in a result; a session throwing on one of
  the prompts sent; and a settled computation that is rejected whenever a prompt it sent
  makes the session throw.
\<close>

definition stage_names :: "string list" where
  "stage_names = [''repo-analysis'', ''docs-fetch'', ''team-context'', ''guide-generation'']"

definition tally :: "PipelineRunResult \<Rightarrow> string \<Rightarrow> nat" where
  "tally r n = count_list (map step (steps r)) n + count_list (map fst (errors r)) n"

definition throws_on :: "session \<Rightarrow> string list \<Rightarrow> bool" where
  "throws_on session sent = (\<exists>p. p \<in> set sent \<and> isl (session p))"

definition sound :: "session \<Rightarrow> 'a async \<Rightarrow> bool" where
  "sound session m = (throws_on session (snd m) \<longrightarrow> isl (fst m))"

text \<open>The three settled collectors of a run.\<close>

definition repoSettled :: "runtime \<Rightarrow> session \<Rightarrow> Options \<Rightarrow> RepositoryAnalysis async" where
  "repoSettled rt session options =
     analyzeRepository rt session (opt_owner options) (opt_repo options)"

definition teamSettled :: "session \<Rightarrow> Options \<Rightarrow> TeamContext async" where
  "teamSettled session options =
     gatherTeamContext session
       (case opt_teamName options of
          None \<Rightarrow> opt_repo options
        | Some t \<Rightarrow> or_else t (opt_repo options))
       (opt_owner options @ ''/'' @ opt_repo options)"

definition docsSettled ::
  "runtime \<Rightarrow> session \<Rightarrow> Options \<Rightarrow> LearningResourceGroup list async" where
  "docsSettled rt session options =
     (let a = (case fst (repoSettled rt session options) of
                 Inl e \<Rightarrow> default_analysis options
               | Inr a \<Rightarrow> a)
      in fetchLearningResources session (techStack a) a)"

text \<open>The settled synthesis stage of a run.\<close>

definition guideSettled ::
  "runtime \<Rightarrow> session \<Rightarrow> filesystem \<Rightarrow> Options \<Rightarrow> schedule \<Rightarrow> Guide async \<times> filesystem" where
  "guideSettled rt session fs options sch =
     (let j = parallel_phase rt session options sch
      in generateOnboardingGuide rt session fs (repoAnalysis_of j) (learningResources_of j)
           (teamContext_of j) (opt_owner options) (opt_repo options) (opt_newHireName options))"

definition synthesisPrompt_of :: "runtime \<Rightarrow> session \<Rightarrow> Options \<Rightarrow> schedule \<Rightarrow> string" where
  "synthesisPrompt_of rt session options sch =
     (let j = parallel_phase rt session options sch
      in buildSynthesisPrompt rt (repoAnalysis_of j) (learningResources_of j) (teamContext_of j)
           (opt_owner options) (opt_repo options)
           (case opt_newHireName options of None \<Rightarrow> ''New Team Member'' | Some n \<Rightarrow> n))"

text \<open>
  Inputs for concrete runs: a runtime, whose \<open>toLowerCase\<close> lowercases the ASCII
  letters and the Kelvin sign (the bytes E2 84 AA) and leaves every other byte as it
  is, an empty file system, options, a session that
  throws on the prompt for the team norms and answers every other prompt with an empty
  array, and a session that throws on every prompt.
\<close>

fun lower_sample :: "string \<Rightarrow> string" where
  "lower_sample (a # b # c # cs) =
     (if a = CHR 0xE2 \<and> b = CHR 0x84 \<and> c = CHR 0xAA then CHR ''k'' # lower_sample cs
      else toLowerChar a # lower_sample (b # c # cs))"
| "lower_sample (a # cs) = toLowerChar a # lower_sample cs"
| "lower_sample [] = []"

definition example_runtime :: runtime where
  "example_runtime =
     \<lparr>toLowerCase = lower_sample, numberToString = (\<lambda>lexeme. lexeme),
      stringify = (\<lambda>v. ''[]''), env_OUTPUT_DIR = None,
      header_time = ''2026-02-14T10:00:00.000Z'', save_time = ''2026-02-14T10:00:00.250Z''\<rparr>"

definition empty_filesystem :: filesystem where
  "empty_filesystem = \<lparr>directories = {}, files = Map.empty, refused = {}\<rparr>"

definition example_options :: Options where
  "example_options =
     \<lparr>opt_owner = ''microsoft'', opt_repo = ''vscode'', opt_teamName = None,
      opt_newHireName = None\<rparr>"

definition norms_timeout :: session where
  "norms_timeout prompt =
     (if prompt = getTeamNorms_prompt ''vscode'' then Inl ''timeout'' else Inr ''[]'')"

definition unavailable :: session where
  "unavailable prompt = Inl ''service unavailable''"

section \<open>The specification's wording of the demo session\<close>

text \<open>
  The specification's wording of the demo session: an ordered list of rules, each a list
  of substrings and a reply; a rule matches a prompt in which one of its substrings
  occurs; the first rule that matches answers, and \<open>[]\<close> is the answer when none does.
\<close>

definition demo_rules :: "(string list \<times> (string \<Rightarrow> string)) list" where
  "demo_rules =
     [([''repository tree'', ''top-level''], \<lambda>prompt. demo_structure),
      ([''file contents'', ''key documentation''], \<lambda>prompt. demo_documents),
      ([''pull requests''], \<lambda>prompt. demo_pullRequests),
      ([''open issues''], \<lambda>prompt. demo_issues),
      ([''discussions''], \<lambda>prompt. demo_discussions),
      ([''Microsoft Learn'', ''documentation''], \<lambda>prompt. demo_learn),
      ([''code samples'', ''architecture''], \<lambda>prompt. demo_architecture),
      ([''tutorials'', ''learning paths''], \<lambda>prompt. demo_tutorials),
      ([''Teams'', ''recent messages''], \<lambda>prompt. demo_teams),
      ([''key people'', ''find key people''], \<lambda>prompt. demo_people),
      ([''upcoming meetings'', ''upcoming events''], \<lambda>prompt. demo_events),
      ([''team norms'', ''team processes''], \<lambda>prompt. demo_norms),
      ([''recent emails'', ''email''], \<lambda>prompt. demo_emails),
      ([''documents on SharePoint'', ''SharePoint'', ''OneDrive''], \<lambda>prompt. demo_sharepoint),
      ([''onboarding specialist'', ''Welcome to''], generateDemoGuide)]"

definition rule_matches :: "string \<Rightarrow> string list \<times> (string \<Rightarrow> string) \<Rightarrow> bool" where
  "rule_matches prompt rule = (\<exists>s. s \<in> set (fst rule) \<and> occurs_in s prompt)"

fun first_match :: "(string list \<times> (string \<Rightarrow> string)) list \<Rightarrow> string \<Rightarrow> string" where
  "first_match [] prompt = ''[]''"
| "first_match (rule # rules) prompt =
     (if rule_matches prompt rule then snd rule prompt else first_match rules prompt)"

section \<open>Plain paths, and an invariant of the parser\<close>

text \<open>
  A plain segment is a name: not empty, not \<open>.\<close> or \<open>..\<close>, without a slash. A plain
  directory is a path of plain segments, relative or absolute, with no slash at its end.
\<close>

definition plain_segment :: "string \<Rightarrow> bool" where
  "plain_segment s = (s \<noteq> [] \<and> s \<noteq> ''.'' \<and> s \<noteq> ''..'' \<and> CHR ''/'' \<notin> set s)"

definition plain_directory :: "string \<Rightarrow> bool" where
  "plain_directory d =
     (\<exists>segs. segs \<noteq> [] \<and> list_all plain_segment segs
        \<and> (d = join_with ''/'' segs \<or> d = CHR ''/'' # join_with ''/'' segs))"

definition guides_runtime :: runtime where
  "guides_runtime = example_runtime\<lparr>env_OUTPUT_DIR := Some ''guides''\<rparr>"

text \<open>
  While an array is being parsed at the top level, the bottom frame of the stack is an
  array frame; once parsing is done, the value is an array.
\<close>

definition array_bottom :: "mode \<times> frame list \<Rightarrow> bool" where
  "array_bottom ps =
     (case fst ps of
        MDone v \<Rightarrow> (\<exists>xs. v = JArray xs)
      | _ \<Rightarrow> snd ps \<noteq> [] \<and> (\<exists>xs. last (snd ps) = FArr xs))"

section \<open>Failed extraction\<close>

text \<open>
  An extraction fails on a message when the pattern finds no match in it, or the match is
  not JSON.
\<close>

definition extraction_fails :: "(string \<Rightarrow> string option) \<Rightarrow> string \<Rightarrow> bool" where
  "extraction_fails matcher message =
     (matcher message = None \<or> (\<exists>m. matcher message = Some m \<and> JSON_parse m = None))"

section \<open>The specification's wording of technology detection\<close>

text \<open>
  The specification normalises a pattern by stripping the wildcard prefix \<open>*.\<close> and
  the slashes and lowercasing it.
\<close>

definition strip_wildcard :: "string \<Rightarrow> string" where
  "strip_wildcard p = (if prefix ''*.'' p then drop 2 p else p)"

definition normalize_spec :: "runtime \<Rightarrow> string \<Rightarrow> string" where
  "normalize_spec rt p = toLowerCase rt (filter (\<lambda>c. c \<noteq> CHR ''/'') (strip_wildcard p))"

definition detected_spec :: "runtime \<Rightarrow> string list \<Rightarrow> string \<Rightarrow> bool" where
  "detected_spec rt listing tech =
     (\<exists>patterns p. (tech, patterns) \<in> set TECH_PATTERNS \<and> p \<in> set patterns \<and>
        occurs_in (normalize_spec rt p) (toLowerCase rt (join_with '' '' listing)))"

definition table_patterns :: "string list" where
  "table_patterns = concat (map snd TECH_PATTERNS)"

section \<open>Properties of technology detection\<close>

lemma str_includes_occurs: "str_includes s p \<longleftrightarrow> occurs_in p s"
  unfolding occurs_in_def sublist_def [symmetric]
  by (induction s) (auto simp: sublist_Cons_right)

lemma set_fold_unique:
  "set (fold (\<lambda>x acc. if x \<in> set acc then acc else acc @ [x]) xs acc) = set xs \<union> set acc"
  by (induction xs arbitrary: acc) auto

lemma set_unique: "set (unique xs) = set xs"
  by (simp add: unique_def set_fold_unique)

lemma distinct_fold_unique:
  "distinct acc \<Longrightarrow> distinct (fold (\<lambda>x acc. if x \<in> set acc then acc else acc @ [x]) xs acc)"
  by (induction xs arbitrary: acc) auto

lemma distinct_unique: "distinct (unique xs)"
  by (simp add: unique_def distinct_fold_unique)

text \<open>The two halves of \<open>ascii_lowercasing\<close>.\<close>

lemma lowercasing_ascii: "ascii_lowercasing rt \<Longrightarrow> ascii s \<Longrightarrow> toLowerCase rt s = map toLowerChar s"
  unfolding ascii_lowercasing_def by blast

lemma lowercasing_occurs:
  "ascii_lowercasing rt \<Longrightarrow> ascii x \<Longrightarrow> occurs_in x y
     \<Longrightarrow> occurs_in (map toLowerChar x) (toLowerCase rt y)"
  unfolding ascii_lowercasing_def by blast

text \<open>
  The patterns of the table are ASCII, and on each of them the order in which the source
  normalises (first \<open>*.\<close> removed, lowercased, first \<open>/\<close> removed) gives what the order
  of the specification gives.
\<close>

lemma table_ascii:
  "list_all (\<lambda>p. ascii (replace_first ''*.'' [] p)
                \<and> ascii (filter (\<lambda>c. c \<noteq> CHR ''/'') (strip_wildcard p))
                \<and> replace_first ''/'' [] (map toLowerChar (replace_first ''*.'' [] p))
                    = map toLowerChar (filter (\<lambda>c. c \<noteq> CHR ''/'') (strip_wildcard p)))
     table_patterns"
  by code_simp

lemma table_pattern:
  assumes "(tech, patterns) \<in> set TECH_PATTERNS" "p \<in> set patterns"
  shows "ascii (replace_first ''*.'' [] p)"
    and "ascii (filter (\<lambda>c. c \<noteq> CHR ''/'') (strip_wildcard p))"
    and "replace_first ''/'' [] (map toLowerChar (replace_first ''*.'' [] p))
           = map toLowerChar (filter (\<lambda>c. c \<noteq> CHR ''/'') (strip_wildcard p))"
proof -
  from assms have "p \<in> set table_patterns"
    unfolding table_patterns_def by force
  with table_ascii show "ascii (replace_first ''*.'' [] p)"
    and "ascii (filter (\<lambda>c. c \<noteq> CHR ''/'') (strip_wildcard p))"
    and "replace_first ''/'' [] (map toLowerChar (replace_first ''*.'' [] p))
           = map toLowerChar (filter (\<lambda>c. c \<noteq> CHR ''/'') (strip_wildcard p))"
    by (simp_all add: list_all_iff)
qed

lemma pattern_found_spec:
  assumes "ascii_lowercasing rt" "(tech, patterns) \<in> set TECH_PATTERNS" "p \<in> set patterns"
  shows "pattern_found rt s p \<longleftrightarrow> occurs_in (normalize_spec rt p) s"
proof -
  note t = table_pattern [OF assms(2,3)]
  have "replace_first ''/'' [] (toLowerCase rt (replace_first ''*.'' [] p)) = normalize_spec rt p"
    by (simp add: normalize_spec_def lowercasing_ascii [OF assms(1)] t)
  then show ?thesis
    by (simp add: pattern_found_def str_includes_occurs)
qed

lemma detect_set:
  assumes "ascii_lowercasing rt"
  shows "set (detectTechStack rt listing) = {tech. detected_spec rt listing tech}"
proof -
  let ?s = "toLowerCase rt (join_with '' '' listing)"
  have "tech \<in> set (detectTechStack rt listing) \<longleftrightarrow> detected_spec rt listing tech" for tech
  proof
    assume "tech \<in> set (detectTechStack rt listing)"
    then obtain patterns p where "(tech, patterns) \<in> set TECH_PATTERNS" "p \<in> set patterns"
      "pattern_found rt ?s p"
      by (auto simp: detectTechStack_def set_unique list_ex_iff)
    then show "detected_spec rt listing tech"
      unfolding detected_spec_def using pattern_found_spec [OF assms] by blast
  next
    assume "detected_spec rt listing tech"
    then obtain patterns p where *: "(tech, patterns) \<in> set TECH_PATTERNS" "p \<in> set patterns"
      "occurs_in (normalize_spec rt p) ?s"
      unfolding detected_spec_def by blast
    then have "pattern_found rt ?s p" using pattern_found_spec [OF assms] by blast
    with * show "tech \<in> set (detectTechStack rt listing)"
      by (force simp: detectTechStack_def set_unique list_ex_iff)
  qed
  then show ?thesis by blast
qed

lemma occurs_in_join_with: "x \<in> set xs \<Longrightarrow> occurs_in x (join_with sep xs)"
proof (induction sep xs rule: join_with.induct)
  case (1 sep)
  then show ?case by simp
next
  case (2 sep y)
  then show ?case by (auto simp: occurs_in_def intro: exI [of _ "[]"])
next
  case (3 sep y z zs)
  show ?case
  proof (cases "x = y")
    case True
    then have "join_with sep (y # z # zs) = [] @ x @ (sep @ join_with sep (z # zs))" by simp
    then show ?thesis unfolding occurs_in_def by blast
  next
    case False
    with 3 obtain pre post where "join_with sep (z # zs) = pre @ x @ post"
      unfolding occurs_in_def by auto
    then have "join_with sep (y # z # zs) = (y @ sep @ pre) @ x @ post" by simp
    then show ?thesis unfolding occurs_in_def by blast
  qed
qed

lemma occurs_in_trans: "occurs_in a b \<Longrightarrow> occurs_in b c \<Longrightarrow> occurs_in a c"
  unfolding occurs_in_def by (metis append.assoc)

lemma package_json_detects:
  assumes "ascii_lowercasing rt" "entry \<in> set listing" "occurs_in ''Package.JSON'' entry"
  shows "''Node.js / JavaScript'' \<in> set (detectTechStack rt listing)"
proof -
  have "occurs_in ''Package.JSON'' (join_with '' '' listing)"
    using assms(2,3) occurs_in_join_with occurs_in_trans by blast
  moreover have "ascii ''Package.JSON''" by code_simp
  ultimately have "occurs_in (map toLowerChar ''Package.JSON'')
      (toLowerCase rt (join_with '' '' listing))"
    using lowercasing_occurs [OF assms(1)] by blast
  moreover have "ascii (filter (\<lambda>c. c \<noteq> CHR ''/'') (strip_wildcard ''package.json''))"
    by code_simp
  then have "normalize_spec rt ''package.json''
      = map toLowerChar (filter (\<lambda>c. c \<noteq> CHR ''/'') (strip_wildcard ''package.json''))"
    by (simp only: normalize_spec_def lowercasing_ascii [OF assms(1)])
  moreover have "map toLowerChar (filter (\<lambda>c. c \<noteq> CHR ''/'') (strip_wildcard ''package.json''))
      = map toLowerChar ''Package.JSON''"
    by code_simp
  moreover have "(''Node.js / JavaScript'', [''package.json'', ''node_modules'', ''.nvmrc''])
      \<in> set TECH_PATTERNS"
    by (simp add: TECH_PATTERNS_def)
  ultimately have "detected_spec rt listing ''Node.js / JavaScript''"
    unfolding detected_spec_def by (metis list.set_intros(1))
  then show ?thesis by (simp add: detect_set [OF assms(1)])
qed

text \<open>
  \<open>detectTechStack\<close> uses \<open>toLowerCase\<close> on the joined listing and on the patterns of
  the table only.
\<close>

lemma detectTechStack_cong:
  assumes "toLowerCase rt (join_with '' '' listing) = toLowerCase rt' (join_with '' '' listing)"
    and "\<And>tech patterns p. (tech, patterns) \<in> set TECH_PATTERNS \<Longrightarrow> p \<in> set patterns
           \<Longrightarrow> toLowerCase rt (replace_first ''*.'' [] p) = toLowerCase rt' (replace_first ''*.'' [] p)"
  shows "detectTechStack rt listing = detectTechStack rt' listing"
proof -
  have "list_ex (pattern_found rt s) patterns = list_ex (pattern_found rt' s) patterns"
    if "(tech, patterns) \<in> set TECH_PATTERNS" for tech patterns s
    using assms(2) [OF that] by (simp add: list_ex_iff pattern_found_def)
  then have "filter (\<lambda>(tech, patterns). list_ex (pattern_found rt s) patterns) TECH_PATTERNS
      = filter (\<lambda>(tech, patterns). list_ex (pattern_found rt' s) patterns) TECH_PATTERNS" for s
    by (intro filter_cong) auto
  then show ?thesis
    by (simp add: detectTechStack_def assms(1))
qed

text \<open>The lowercasing of the example runtime is an ASCII lowercasing.\<close>

lemma lower_sample_Cons:
  "(of_char a :: nat) < 128 \<Longrightarrow> lower_sample (a # cs) = toLowerChar a # lower_sample cs"
  by (cases cs; cases "tl cs") auto

lemma lower_sample_ascii_append:
  "ascii x \<Longrightarrow> lower_sample (x @ post) = map toLowerChar x @ lower_sample post"
  by (induction x) (simp_all add: ascii_def lower_sample_Cons)

lemma lower_sample_before:
  assumes "ascii x" "x \<noteq> []"
  shows "\<exists>pre'. lower_sample (pre @ x @ post) = pre' @ lower_sample (x @ post)"
proof -
  from assms obtain x1 xs where x: "x = x1 # xs" and a: "(of_char x1 :: nat) < 128"
    by (cases x) (auto simp: ascii_def)
  then have n: "x1 \<noteq> CHR 0x84" "x1 \<noteq> CHR 0xAA" by auto
  have one: "lower_sample ([a] @ x @ post) = [toLowerChar a] @ lower_sample (x @ post)" for a
    using n unfolding x by (cases "xs @ post") auto
  have two: "lower_sample ([a, b] @ x @ post)
      = [toLowerChar a, toLowerChar b] @ lower_sample (x @ post)" for a b
    using n unfolding x by (cases "xs @ post") auto
  show ?thesis
  proof (induction pre rule: lower_sample.induct)
    case (1 a b c cs)
    then show ?case
      by (cases "a = CHR 0xE2 \<and> b = CHR 0x84 \<and> c = CHR 0xAA") (auto intro: exI [of _ "_ # _"])
  next
    case "2_1"
    show ?case using one by blast
  next
    case "2_2"
    show ?case using two by blast
  next
    case 3
    show ?case by simp
  qed
qed

lemma example_lowercasing: "ascii_lowercasing example_runtime"
proof -
  have a: "toLowerCase example_runtime s = map toLowerChar s" if "ascii s" for s
    using lower_sample_ascii_append [OF that, of "[]"] by (simp add: example_runtime_def)
  have b: "occurs_in (map toLowerChar x) (toLowerCase example_runtime y)"
    if "ascii x" "occurs_in x y" for x y
  proof (cases "x = []")
    case True
    have "toLowerCase example_runtime y = [] @ [] @ toLowerCase example_runtime y" by simp
    then show ?thesis unfolding True occurs_in_def by (metis list.map(1))
  next
    case False
    from that(2) obtain pre post where y: "y = pre @ x @ post"
      unfolding occurs_in_def by blast
    from lower_sample_before [OF that(1) False] obtain pre' where
      "lower_sample (pre @ x @ post) = pre' @ lower_sample (x @ post)" by blast
    then have "toLowerCase example_runtime y = pre' @ map toLowerChar x @ lower_sample post"
      by (simp add: y example_runtime_def lower_sample_ascii_append [OF that(1)])
    then show ?thesis unfolding occurs_in_def by blast
  qed
  from a b show ?thesis unfolding ascii_lowercasing_def by blast
qed

lemma go_listing:
  assumes "ascii_lowercasing rt"
  shows "detectTechStack rt [''go.mod'', ''main.go''] = [''Go'']"
proof -
  have j: "ascii (join_with '' '' [''go.mod'', ''main.go''])" by code_simp
  have "detectTechStack rt [''go.mod'', ''main.go'']
      = detectTechStack example_runtime [''go.mod'', ''main.go'']"
  proof (rule detectTechStack_cong)
    show "toLowerCase rt (join_with '' '' [''go.mod'', ''main.go''])
        = toLowerCase example_runtime (join_with '' '' [''go.mod'', ''main.go''])"
      by (simp only: lowercasing_ascii [OF assms j] lowercasing_ascii [OF example_lowercasing j])
  next
    fix tech patterns p
    assume "(tech, patterns) \<in> set TECH_PATTERNS" "p \<in> set patterns"
    then have "ascii (replace_first ''*.'' [] p)" by (rule table_pattern)
    then show "toLowerCase rt (replace_first ''*.'' [] p)
        = toLowerCase example_runtime (replace_first ''*.'' [] p)"
      by (simp only: lowercasing_ascii [OF assms] lowercasing_ascii [OF example_lowercasing])
  qed
  also have "\<dots> = [''Go'']" by code_simp
  finally show ?thesis .
qed

text \<open>
  Claim C5. On a platform whose \<open>toLowerCase\<close> lowercases ASCII text letter by letter,
  for every listing of path strings, \<open>detectTechStack\<close> returns exactly the technologies
  of the pattern table that have a pattern which, with the wildcard prefix and the slash
  stripped and lowercased, occurs in the lowercased listing joined by spaces, each once.
  A listing with an entry that contains \<open>Package.JSON\<close> detects \<open>Node.js / JavaScript\<close>,
  and the listing \<open>go.mod\<close>, \<open>main.go\<close> detects \<open>Go\<close> and nothing else.
\<close>

theorem detectTechStack_exact:
  assumes "ascii_lowercasing rt"
  shows "set (detectTechStack rt listing) = {tech. detected_spec rt listing tech}
   \<and> distinct (detectTechStack rt listing)
   \<and> (entry \<in> set listing \<and> occurs_in ''Package.JSON'' entry
        \<longrightarrow> ''Node.js / JavaScript'' \<in> set (detectTechStack rt listing))
   \<and> detectTechStack rt [''go.mod'', ''main.go''] = [''Go'']"
proof -
  have "distinct (detectTechStack rt listing)"
    by (simp add: detectTechStack_def distinct_unique)
  then show ?thesis
    using detect_set [OF assms] package_json_detects [OF assms] go_listing [OF assms] by blast
qed

text \<open>
  The claim at the example runtime, whose \<open>toLowerCase\<close> also lowercases the Kelvin
  sign: there the listing \<open>PAC\<close>, Kelvin sign, \<open>AGE.JSON\<close> detects
  \<open>Node.js / JavaScript\<close>.
\<close>

theorem detectTechStack_exact_witness:
  "ascii_lowercasing example_runtime
   \<and> ''lib/Package.JSON'' \<in> set [''src/'', ''lib/Package.JSON'']
   \<and> occurs_in ''Package.JSON'' ''lib/Package.JSON''
   \<and> ''Node.js / JavaScript'' \<in> set (detectTechStack example_runtime [''src/'', ''lib/Package.JSON''])
   \<and> detectTechStack example_runtime [''go.mod'', ''main.go''] = [''Go'']
   \<and> detectTechStack example_runtime [''PAC'' @ [CHR 0xE2, CHR 0x84, CHR 0xAA] @ ''AGE.JSON'']
       = [''Node.js / JavaScript'']
   \<and> detected_spec example_runtime [''PAC'' @ [CHR 0xE2, CHR 0x84, CHR 0xAA] @ ''AGE.JSON'']
       ''Node.js / JavaScript''"
proof -
  note inst = detectTechStack_exact [OF example_lowercasing]
  have a: "''lib/Package.JSON'' \<in> set [''src/'', ''lib/Package.JSON'']" by simp
  have "''lib/Package.JSON'' = ''lib/'' @ ''Package.JSON'' @ []" by simp
  then have b: "occurs_in ''Package.JSON'' ''lib/Package.JSON''"
    unfolding occurs_in_def by blast
  from a b inst [of "[''src/'', ''lib/Package.JSON'']" "''lib/Package.JSON''"]
  have c: "''Node.js / JavaScript'' \<in> set (detectTechStack example_runtime [''src/'', ''lib/Package.JSON''])"
    by blast
  have k: "detectTechStack example_runtime [''PAC'' @ [CHR 0xE2, CHR 0x84, CHR 0xAA] @ ''AGE.JSON'']
       = [''Node.js / JavaScript'']"
    by code_simp
  from inst [of "[''PAC'' @ [CHR 0xE2, CHR 0x84, CHR 0xAA] @ ''AGE.JSON'']"]
  have "set (detectTechStack example_runtime [''PAC'' @ [CHR 0xE2, CHR 0x84, CHR 0xAA] @ ''AGE.JSON''])
      = {tech. detected_spec example_runtime [''PAC'' @ [CHR 0xE2, CHR 0x84, CHR 0xAA] @ ''AGE.JSON''] tech}"
    by blast
  with k have d: "detected_spec example_runtime [''PAC'' @ [CHR 0xE2, CHR 0x84, CHR 0xAA] @ ''AGE.JSON'']
       ''Node.js / JavaScript''"
    by auto
  from inst have g: "detectTechStack example_runtime [''go.mod'', ''main.go''] = [''Go'']"
    by blast
  from example_lowercasing a b c g k d show ?thesis by blast
qed


section \<open>Properties of the extraction sites\<close>




lemma await_send:
  "fst (await (sendAndWait session prompt) (\<lambda>message. resolved (f message)))
     = (case session prompt of Inl e \<Rightarrow> Inl e | Inr message \<Rightarrow> Inr (f message))"
  by (simp add: await_def sendAndWait_def resolved_def split: sum.splits)




lemma array_response_fails:
  "extraction_fails match_array message \<Longrightarrow> array_response message = JArray []"
  unfolding extraction_fails_def array_response_def by auto

lemma docs_response_fails:
  "extraction_fails match_array message \<Longrightarrow>
   docs_response message = (if match_array message = None then JArray [] else docs_placeholder)"
  unfolding extraction_fails_def docs_response_def by auto


text \<open>
  Claim C4, as amended. When the response has no bracket match or the match is not JSON,
  the structure, pull-request, issue and discussion calls return the empty array;
  \<open>getKeyDocuments\<close> returns the empty array when there is no match and its placeholder
  entry when the match is not JSON.
\<close>

theorem repo_calls_fallback:
  assumes "extraction_fails match_array message"
  shows "(session (getRepoStructure_prompt owner repo) = Inr message
            \<longrightarrow> fst (getRepoStructure session owner repo) = Inr (JArray []))
       \<and> (session (getRecentPRs_prompt owner repo) = Inr message
            \<longrightarrow> fst (getRecentPRs session owner repo) = Inr (JArray []))
       \<and> (session (getActiveIssues_prompt owner repo) = Inr message
            \<longrightarrow> fst (getActiveIssues session owner repo) = Inr (JArray []))
       \<and> (session (getDiscussions_prompt owner repo) = Inr message
            \<longrightarrow> fst (getDiscussions session owner repo) = Inr (JArray []))
       \<and> (docsToFetch rt listing = Inr wanted
            \<and> session (getKeyDocuments_prompt owner repo wanted) = Inr message
            \<longrightarrow> fst (getKeyDocuments rt session owner repo listing)
                = Inr (if match_array message = None then JArray [] else docs_placeholder))"
  using array_response_fails [OF assms] docs_response_fails [OF assms]
  by (simp add: getRepoStructure_def getRecentPRs_def getActiveIssues_def getDiscussions_def
      getKeyDocuments_def await_send)

text \<open>
  The amended claim at a response whose match is not JSON.
\<close>

theorem repo_calls_fallback_witness:
  "extraction_fails match_array ''[oops]''
   \<and> docsToFetch example_runtime (JArray []) = Inr [''README.md'']
   \<and> fst (getRepoStructure (\<lambda>p. Inr ''[oops]'') ''o'' ''r'') = Inr (JArray [])
   \<and> fst (getRecentPRs (\<lambda>p. Inr ''[oops]'') ''o'' ''r'') = Inr (JArray [])
   \<and> fst (getActiveIssues (\<lambda>p. Inr ''[oops]'') ''o'' ''r'') = Inr (JArray [])
   \<and> fst (getDiscussions (\<lambda>p. Inr ''[oops]'') ''o'' ''r'') = Inr (JArray [])
   \<and> fst (getKeyDocuments example_runtime (\<lambda>p. Inr ''[oops]'') ''o'' ''r'' (JArray [])) = Inr docs_placeholder
   \<and> extraction_fails match_array ''no bracket''
   \<and> fst (getKeyDocuments example_runtime (\<lambda>p. Inr ''no bracket'') ''o'' ''r'' (JArray [])) = Inr (JArray [])"
proof -
  have m: "match_array ''[oops]'' = Some ''[oops]''" by code_simp
  have p: "JSON_parse ''[oops]'' = None" by code_simp
  have f: "extraction_fails match_array ''[oops]''"
    unfolding extraction_fails_def using m p by simp
  have n: "match_array ''no bracket'' = None" by code_simp
  then have g: "extraction_fails match_array ''no bracket''"
    unfolding extraction_fails_def by simp
  have d: "docsToFetch example_runtime (JArray []) = Inr [''README.md'']" by code_simp
  show ?thesis
    using repo_calls_fallback [OF f, of "\<lambda>p. Inr ''[oops]''" "''o''" "''r''" example_runtime
        "JArray []" "[''README.md'']"]
      repo_calls_fallback [OF g, of "\<lambda>p. Inr ''no bracket''" "''o''" "''r''" example_runtime
        "JArray []" "[''README.md'']"]
      f g d m n by simp
qed

text \<open>
  Claim C4 as stated fails: on a match that is not JSON, \<open>getKeyDocuments\<close> returns its
  placeholder entry, not the empty array.
\<close>

theorem getKeyDocuments_counterexample:
  "match_array ''[oops]'' = Some ''[oops]'' \<and> JSON_parse ''[oops]'' = None
   \<and> fst (getKeyDocuments example_runtime (\<lambda>p. Inr ''[oops]'') ''o'' ''r'' (JArray [])) = Inr docs_placeholder
   \<and> docs_placeholder \<noteq> JArray []"
proof -
  have m: "match_array ''[oops]'' = Some ''[oops]''" by code_simp
  have p: "JSON_parse ''[oops]'' = None" by code_simp
  have d: "docsToFetch example_runtime (JArray []) = Inr [''README.md'']" by code_simp
  have "docs_response ''[oops]'' = docs_placeholder"
    by (simp add: docs_response_def m p)
  then have "fst (getKeyDocuments example_runtime (\<lambda>p. Inr ''[oops]'') ''o'' ''r'' (JArray [])) = Inr docs_placeholder"
    by (simp add: getKeyDocuments_def d await_send)
  then show ?thesis using m p by (simp add: docs_placeholder_def)
qed





section \<open>Properties of the orchestrator\<close>

lemma sound_sendAndWait: "sound session (sendAndWait session p)"
  by (simp add: sound_def throws_on_def sendAndWait_def)

lemma sound_resolved: "sound session (resolved x)"
  by (simp add: sound_def throws_on_def resolved_def)

lemma sound_rejected: "sound session (rejected e)"
  by (simp add: sound_def rejected_def)

lemma sound_await:
  assumes "sound session m" and "\<And>x. sound session (k x)"
  shows "sound session (await m k)"
proof (cases "fst m")
  case (Inl e)
  then show ?thesis
    by (cases m) (simp add: sound_def await_def)
next
  case (Inr x)
  obtain sent where m: "m = (Inr x, sent)" using Inr by (cases m) simp
  obtain r sent' where k: "k x = (r, sent')" by (cases "k x")
  have no: "\<not> throws_on session sent"
    using assms(1) m by (simp add: sound_def)
  have "throws_on session sent' \<longrightarrow> isl r"
    using assms(2) [of x] k by (simp add: sound_def)
  with no show ?thesis
    by (auto simp: sound_def await_def m k throws_on_def)
qed

lemmas sound_intros = sound_await sound_sendAndWait sound_resolved sound_rejected

lemma sound_analyzeRepository: "sound session (analyzeRepository rt session owner repo)"
  unfolding analyzeRepository_def getRepoStructure_def getKeyDocuments_def getRecentPRs_def
    getActiveIssues_def getDiscussions_def Let_def
  by (intro sound_intros | simp split: sum.split add: sound_intros)+

lemma sound_searchEach: "sound session (searchEach session stack)"
  by (induction stack) (simp_all add: searchDocsForTech_def sound_intros)

lemma sound_fetchLearningResources:
  "sound session (fetchLearningResources session stack repoContext)"
  unfolding fetchLearningResources_def searchArchitectureDocs_def searchTutorials_def
  by (intro sound_intros sound_searchEach)

lemma sound_gatherTeamContext: "sound session (gatherTeamContext session teamName projectContext)"
  unfolding gatherTeamContext_def getRecentTeamsActivity_def getKeyPeople_def
    getUpcomingEvents_def getTeamNorms_def getEmailInsights_def getRelatedDocuments_def
  by (intro sound_intros)

lemma repoTask_tally:
  "tally (fst (repoTask options settled r)) n = tally r n + (if n = ''repo-analysis'' then 1 else 0)"
  by (auto simp: repoTask_def tally_def split: sum.splits)

lemma docsTask_tally:
  "tally (fst (docsTask settled r)) n = tally r n + (if n = ''docs-fetch'' then 1 else 0)"
  by (auto simp: docsTask_def tally_def split: sum.splits)

lemma teamTask_tally:
  "tally (fst (teamTask settled r)) n = tally r n + (if n = ''team-context'' then 1 else 0)"
  by (auto simp: teamTask_def tally_def split: sum.splits)

lemma repoTask_value:
  "snd (repoTask options settled r)
     = (case fst settled of Inl e \<Rightarrow> default_analysis options | Inr a \<Rightarrow> a)"
  by (simp add: repoTask_def split: sum.splits)

lemma docsTask_value:
  "snd (docsTask settled r) = (case fst settled of Inl e \<Rightarrow> [] | Inr g \<Rightarrow> g)"
  by (simp add: docsTask_def split: sum.splits)

lemma teamTask_value:
  "snd (teamTask settled r) = (case fst settled of Inl e \<Rightarrow> default_context | Inr c \<Rightarrow> c)"
  by (simp add: teamTask_def split: sum.splits)

lemma repoTask_errors:
  "set (errors (fst (repoTask options settled r)))
     = set (errors r) \<union> (case fst settled of Inl e \<Rightarrow> {(''repo-analysis'', e)} | Inr a \<Rightarrow> {})"
  by (simp add: repoTask_def split: sum.splits)

lemma docsTask_errors:
  "set (errors (fst (docsTask settled r)))
     = set (errors r) \<union> (case fst settled of Inl e \<Rightarrow> {(''docs-fetch'', e)} | Inr a \<Rightarrow> {})"
  by (simp add: docsTask_def split: sum.splits)

lemma teamTask_errors:
  "set (errors (fst (teamTask settled r)))
     = set (errors r) \<union> (case fst settled of Inl e \<Rightarrow> {(''team-context'', e)} | Inr a \<Rightarrow> {})"
  by (simp add: teamTask_def split: sum.splits)

lemma repoTask_guide: "guide (fst (repoTask options settled r)) = guide r"
  by (simp add: repoTask_def split: sum.splits)

lemma docsTask_guide: "guide (fst (docsTask settled r)) = guide r"
  by (simp add: docsTask_def split: sum.splits)

lemma teamTask_guide: "guide (fst (teamTask settled r)) = guide r"
  by (simp add: teamTask_def split: sum.splits)

lemma parallel_values:
  fixes rt session options sch
  defines "j \<equiv> parallel_phase rt session options sch"
  shows "repoAnalysis_of j
           = (case fst (repoSettled rt session options) of
                Inl e \<Rightarrow> default_analysis options | Inr a \<Rightarrow> a)"
    and "teamContext_of j
           = (case fst (teamSettled session options) of Inl e \<Rightarrow> default_context | Inr c \<Rightarrow> c)"
    and "learningResources_of j
           = (case fst (docsSettled rt session options) of Inl e \<Rightarrow> [] | Inr g \<Rightarrow> g)"
    and "repo_sent j = snd (repoSettled rt session options)"
    and "team_sent j = snd (teamSettled session options)"
    and "docs_sent j = snd (docsSettled rt session options)"
  unfolding j_def
  by (cases sch;
      simp add: parallel_phase_def Let_def case_prod_beta repoTask_value docsTask_value
        teamTask_value repoSettled_def teamSettled_def docsSettled_def)+

lemma parallel_tally:
  "tally (collected (parallel_phase rt session options sch)) n
     = (if n = ''repo-analysis'' then 1 else 0) + (if n = ''docs-fetch'' then 1 else 0)
       + (if n = ''team-context'' then 1 else 0)"
  by (cases sch;
      simp add: parallel_phase_def Let_def case_prod_beta repoTask_tally docsTask_tally
        teamTask_tally)
     (simp_all add: tally_def)

lemma parallel_guide: "guide (collected (parallel_phase rt session options sch)) = None"
  by (cases sch;
      simp add: parallel_phase_def Let_def case_prod_beta repoTask_guide docsTask_guide
        teamTask_guide)

lemma parallel_errors:
  "set (errors (collected (parallel_phase rt session options sch)))
     = (case fst (repoSettled rt session options) of
          Inl e \<Rightarrow> {(''repo-analysis'', e)} | Inr a \<Rightarrow> {})
       \<union> (case fst (docsSettled rt session options) of
            Inl e \<Rightarrow> {(''docs-fetch'', e)} | Inr a \<Rightarrow> {})
       \<union> (case fst (teamSettled session options) of
            Inl e \<Rightarrow> {(''team-context'', e)} | Inr a \<Rightarrow> {})"
  by (cases sch;
      simp add: parallel_phase_def Let_def case_prod_beta repoTask_errors docsTask_errors
        teamTask_errors repoTask_value repoSettled_def teamSettled_def docsSettled_def)
     blast+

lemma saveGuide_files:
  "saveGuide rt fs text owner repo = (Inl e, fs') \<Longrightarrow> files fs' = files fs"
  by (auto simp: saveGuide_def Let_def mkdir_recursive_def writeFile_def
      split: sum.splits if_splits)

lemma guideSettled_sent:
  "snd (fst (guideSettled rt session fs options sch)) = [synthesisPrompt_of rt session options sch]"
  by (auto simp: guideSettled_def synthesisPrompt_of_def generateOnboardingGuide_def Let_def
      split: sum.splits prod.splits)

lemma guideSettled_session_throws:
  "session (synthesisPrompt_of rt session options sch) = Inl e \<Longrightarrow>
   guideSettled rt session fs options sch
     = ((Inl e, [synthesisPrompt_of rt session options sch]), fs)"
  by (simp add: guideSettled_def synthesisPrompt_of_def generateOnboardingGuide_def Let_def)

lemma guideSettled_failure_files:
  "fst (fst (guideSettled rt session fs options sch)) = Inl e \<Longrightarrow>
   files (snd (guideSettled rt session fs options sch)) = files fs"
  by (auto simp: guideSettled_def generateOnboardingGuide_def Let_def
      split: sum.splits prod.splits dest: saveGuide_files)

lemma run_cases:
  fixes rt session fs options sch
  defines "c \<equiv> collected (parallel_phase rt session options sch)"
  defines "r \<equiv> runOnboardBot rt session fs options sch"
  shows "fst (fst (guideSettled rt session fs options sch)) = Inl e \<Longrightarrow>
           r = c\<lparr>errors := errors c @ [(''guide-generation'', e)]\<rparr>"
    and "fst (fst (guideSettled rt session fs options sch)) = Inr g \<Longrightarrow>
           r = c\<lparr>steps := steps c @ [GuideGenerationStep (outputPath g) (utf16_length (content g))],
                 guide := Some g\<rparr>"
  unfolding c_def r_def runOnboardBot_def synthesis_phase_def guideSettled_def Let_def
  by (auto split: prod.splits sum.splits)

lemma tally_error_added:
  "tally (c\<lparr>errors := errors c @ [(m, e)]\<rparr>) n = tally c n + (if n = m then 1 else 0)"
  by (simp add: tally_def)

lemma tally_step_added:
  "tally (c\<lparr>steps := steps c @ [s], guide := g\<rparr>) n = tally c n + (if n = step s then 1 else 0)"
  by (simp add: tally_def)

lemma run_tally:
  "tally (runOnboardBot rt session fs options sch) n = (if n \<in> set stage_names then 1 else 0)"
proof (cases "fst (fst (guideSettled rt session fs options sch))")
  case (Inl e)
  show ?thesis
    unfolding run_cases(1) [OF Inl] tally_error_added parallel_tally
    by (simp add: stage_names_def)
next
  case (Inr g)
  show ?thesis
    unfolding run_cases(2) [OF Inr] tally_step_added parallel_tally
    by (simp add: stage_names_def)
qed

lemma collected_no_guide_step:
  "''guide-generation'' \<notin> set (map step (steps (collected (parallel_phase rt session options sch))))"
  using parallel_tally [of rt session options sch "''guide-generation''"]
  by (simp add: tally_def count_list_0_iff)

lemma collected_no_guide_error:
  "''guide-generation'' \<notin> set (map fst (errors (collected (parallel_phase rt session options sch))))"
  using parallel_tally [of rt session options sch "''guide-generation''"]
  by (simp add: tally_def count_list_0_iff)

text \<open>
  Claim C3. In the result of every run, under every schedule, each of the four stage
  names occurs exactly once in \<open>steps\<close> and \<open>errors\<close> taken together and no other name
  occurs; so the names of the two lists are disjoint and together are the four stages.
\<close>

theorem stage_accounting:
  fixes rt session fs options sch
  defines "r \<equiv> runOnboardBot rt session fs options sch"
  shows "count_list (map step (steps r)) n + count_list (map fst (errors r)) n
           = (if n \<in> set stage_names then 1 else 0)
       \<and> set (map step (steps r)) \<inter> set (map fst (errors r)) = {}
       \<and> set (map step (steps r)) \<union> set (map fst (errors r)) = set stage_names"
proof -
  have t: "count_list (map step (steps r)) m + count_list (map fst (errors r)) m
             = (if m \<in> set stage_names then 1 else 0)" for m
    using run_tally [of rt session fs options sch m] by (simp add: tally_def r_def)
  have disj: "set (map step (steps r)) \<inter> set (map fst (errors r)) = {}"
  proof (rule ccontr)
    assume "set (map step (steps r)) \<inter> set (map fst (errors r)) \<noteq> {}"
    then obtain m where "m \<in> set (map step (steps r))" "m \<in> set (map fst (errors r))"
      by blast
    then have "count_list (map step (steps r)) m \<noteq> 0" "count_list (map fst (errors r)) m \<noteq> 0"
      by (simp_all only: count_list_0_iff not_not)
    with t [of m] show False by (simp split: if_splits)
  qed
  have cover: "set (map step (steps r)) \<union> set (map fst (errors r)) = set stage_names"
  proof (rule set_eqI)
    fix m
    have "m \<in> set (map step (steps r)) \<union> set (map fst (errors r))
            \<longleftrightarrow> count_list (map step (steps r)) m + count_list (map fst (errors r)) m \<noteq> 0"
      by (simp only: Un_iff add_eq_0_iff_both_eq_0 count_list_0_iff de_Morgan_conj not_not)
    also have "\<dots> \<longleftrightarrow> m \<in> set stage_names"
      using t [of m] by simp
    finally show "m \<in> set (map step (steps r)) \<union> set (map fst (errors r))
            \<longleftrightarrow> m \<in> set stage_names" .
  qed
  from t [of n] disj cover show ?thesis by blast
qed

lemma errors_grow:
  "set (errors (collected (parallel_phase rt session options sch)))
     \<subseteq> set (errors (runOnboardBot rt session fs options sch))"
proof (cases "fst (fst (guideSettled rt session fs options sch))")
  case (Inl e)
  show ?thesis unfolding run_cases(1) [OF Inl] by auto
next
  case (Inr g)
  show ?thesis unfolding run_cases(2) [OF Inr] by auto
qed

lemma error_excludes_step:
  assumes "(n, e) \<in> set (errors (runOnboardBot rt session fs options sch))"
  shows "n \<notin> set (map step (steps (runOnboardBot rt session fs options sch)))"
proof
  let ?r = "runOnboardBot rt session fs options sch"
  assume "n \<in> set (map step (steps ?r))"
  then have "count_list (map step (steps ?r)) n \<noteq> 0"
    by (simp only: count_list_0_iff not_not)
  moreover from assms have "n \<in> set (map fst (errors ?r))"
    by force
  then have "count_list (map fst (errors ?r)) n \<noteq> 0"
    by (simp only: count_list_0_iff not_not)
  ultimately show False
    using run_tally [of rt session fs options sch n] by (simp add: tally_def split: if_splits)
qed

lemma guide_stage_attempted:
  "''guide-generation'' \<in> set (map step (steps (runOnboardBot rt session fs options sch)))
                          \<union> set (map fst (errors (runOnboardBot rt session fs options sch)))"
proof (rule ccontr)
  let ?r = "runOnboardBot rt session fs options sch"
  assume "''guide-generation'' \<notin> set (map step (steps ?r)) \<union> set (map fst (errors ?r))"
  then have "count_list (map step (steps ?r)) ''guide-generation'' = 0"
    "count_list (map fst (errors ?r)) ''guide-generation'' = 0"
    by (simp_all add: count_list_0_iff)
  then show False
    using run_tally [of rt session fs options sch "''guide-generation''"]
    by (simp add: tally_def stage_names_def)
qed

text \<open>
  Claim C2. For each collector, if the session throws on a prompt the collector sent,
  the result has an \<open>errors\<close> entry of that stage and no \<open>steps\<close> entry of it, and the
  value joined for the synthesis stage is the whole default record of the stage. The
  synthesis stage is run in every case: it sends its prompt, built from the joined values,
  and its name is in \<open>steps\<close> or \<open>errors\<close>.
\<close>

theorem collector_failure_contained:
  fixes rt session fs options sch
  defines "j \<equiv> parallel_phase rt session options sch"
  defines "r \<equiv> runOnboardBot rt session fs options sch"
  shows "(throws_on session (repo_sent j) \<longrightarrow>
            (\<exists>e. (''repo-analysis'', e) \<in> set (errors r))
            \<and> ''repo-analysis'' \<notin> set (map step (steps r))
            \<and> repoAnalysis_of j = default_analysis options)
       \<and> (throws_on session (docs_sent j) \<longrightarrow>
            (\<exists>e. (''docs-fetch'', e) \<in> set (errors r))
            \<and> ''docs-fetch'' \<notin> set (map step (steps r))
            \<and> learningResources_of j = [])
       \<and> (throws_on session (team_sent j) \<longrightarrow>
            (\<exists>e. (''team-context'', e) \<in> set (errors r))
            \<and> ''team-context'' \<notin> set (map step (steps r))
            \<and> teamContext_of j = default_context)
       \<and> snd (fst (guideSettled rt session fs options sch))
            = [synthesisPrompt_of rt session options sch]
       \<and> ''guide-generation'' \<in> set (map step (steps r)) \<union> set (map fst (errors r))"
proof -
  have repo: "(\<exists>e. (''repo-analysis'', e) \<in> set (errors r))
            \<and> ''repo-analysis'' \<notin> set (map step (steps r))
            \<and> repoAnalysis_of j = default_analysis options"
    if "throws_on session (repo_sent j)"
  proof -
    from that have "isl (fst (repoSettled rt session options))"
      using sound_analyzeRepository [of session rt "opt_owner options" "opt_repo options"]
      by (simp add: j_def parallel_values(4) sound_def repoSettled_def)
    then obtain e where e: "fst (repoSettled rt session options) = Inl e"
      by (cases "fst (repoSettled rt session options)") simp_all
    then have "(''repo-analysis'', e) \<in> set (errors (collected j))"
      by (simp add: j_def parallel_errors)
    then have "(''repo-analysis'', e) \<in> set (errors r)"
      using errors_grow [of rt session options sch fs] by (auto simp: j_def r_def)
    then show ?thesis
      using error_excludes_step [of "''repo-analysis''" e rt session fs options sch] e
      by (auto simp: r_def j_def parallel_values(1))
  qed
  have docs: "(\<exists>e. (''docs-fetch'', e) \<in> set (errors r))
            \<and> ''docs-fetch'' \<notin> set (map step (steps r))
            \<and> learningResources_of j = []"
    if "throws_on session (docs_sent j)"
  proof -
    from that have "isl (fst (docsSettled rt session options))"
      using sound_fetchLearningResources
      by (simp add: j_def parallel_values(6) sound_def docsSettled_def Let_def)
    then obtain e where e: "fst (docsSettled rt session options) = Inl e"
      by (cases "fst (docsSettled rt session options)") simp_all
    then have "(''docs-fetch'', e) \<in> set (errors (collected j))"
      by (simp add: j_def parallel_errors)
    then have "(''docs-fetch'', e) \<in> set (errors r)"
      using errors_grow [of rt session options sch fs] by (auto simp: j_def r_def)
    then show ?thesis
      using error_excludes_step [of "''docs-fetch''" e rt session fs options sch] e
      by (auto simp: r_def j_def parallel_values(3))
  qed
  have team: "(\<exists>e. (''team-context'', e) \<in> set (errors r))
            \<and> ''team-context'' \<notin> set (map step (steps r))
            \<and> teamContext_of j = default_context"
    if "throws_on session (team_sent j)"
  proof -
    from that have "isl (fst (teamSettled session options))"
      using sound_gatherTeamContext
      by (simp add: j_def parallel_values(5) sound_def teamSettled_def)
    then obtain e where e: "fst (teamSettled session options) = Inl e"
      by (cases "fst (teamSettled session options)") simp_all
    then have "(''team-context'', e) \<in> set (errors (collected j))"
      by (simp add: j_def parallel_errors)
    then have "(''team-context'', e) \<in> set (errors r)"
      using errors_grow [of rt session options sch fs] by (auto simp: j_def r_def)
    then show ?thesis
      using error_excludes_step [of "''team-context''" e rt session fs options sch] e
      by (auto simp: r_def j_def parallel_values(2))
  qed
  show ?thesis
    using repo docs team guideSettled_sent [of rt session fs options sch]
      guide_stage_attempted [of rt session fs options sch]
    unfolding r_def by blast
qed

text \<open>
  Claim C7. If the synthesis stage throws, the run still gives a result: its \<open>errors\<close>
  have an entry of \<open>guide-generation\<close> with the message, there is no \<open>guide\<close>, no step
  outcome of that stage, and no file is written. If it succeeds, the result has the guide
  and the step outcome of the stage, and no error of it. A session that throws on the
  synthesis prompt makes the stage throw, with the file system untouched.
\<close>

theorem synthesis_failure_contained:
  fixes rt session fs options sch
  defines "g \<equiv> guideSettled rt session fs options sch"
  defines "r \<equiv> runOnboardBot rt session fs options sch"
  shows "(fst (fst g) = Inl e \<longrightarrow>
            (''guide-generation'', e) \<in> set (errors r) \<and> guide r = None
            \<and> ''guide-generation'' \<notin> set (map step (steps r))
            \<and> files (snd g) = files fs)
       \<and> (fst (fst g) = Inr made \<longrightarrow>
            guide r = Some made
            \<and> GuideGenerationStep (outputPath made) (utf16_length (content made)) \<in> set (steps r)
            \<and> ''guide-generation'' \<notin> set (map fst (errors r)))
       \<and> (session (synthesisPrompt_of rt session options sch) = Inl e \<longrightarrow>
            fst (fst g) = Inl e \<and> snd g = fs)"
proof -
  have fail: "(''guide-generation'', e) \<in> set (errors r) \<and> guide r = None
            \<and> ''guide-generation'' \<notin> set (map step (steps r))
            \<and> files (snd g) = files fs"
    if f: "fst (fst g) = Inl e"
  proof -
    have "(''guide-generation'', e) \<in> set (errors r)" "guide r = None"
      using run_cases(1) [of rt session fs options sch e] f parallel_guide [of rt session options sch]
      by (simp_all add: g_def r_def)
    moreover have "files (snd g) = files fs"
      using f guideSettled_failure_files by (simp add: g_def)
    ultimately show ?thesis
      using error_excludes_step [of "''guide-generation''" e rt session fs options sch]
      by (simp add: r_def)
  qed
  have ok: "guide r = Some made
            \<and> GuideGenerationStep (outputPath made) (utf16_length (content made)) \<in> set (steps r)
            \<and> ''guide-generation'' \<notin> set (map fst (errors r))"
    if s: "fst (fst g) = Inr made"
    using run_cases(2) [of rt session fs options sch made] s
      collected_no_guide_error [of rt session options sch]
    by (simp add: g_def r_def)
  have "fst (fst g) = Inl e \<and> snd g = fs"
    if "session (synthesisPrompt_of rt session options sch) = Inl e"
  proof -
    have "guideSettled rt session fs options sch
            = ((Inl e, [synthesisPrompt_of rt session options sch]), fs)"
      using that by (rule guideSettled_session_throws)
    then show ?thesis by (simp add: g_def)
  qed
  with fail ok show ?thesis by blast
qed

text \<open>
  Claim C9. In the result of every run, the guide is present exactly when \<open>steps\<close>
  has an entry of step \<open>guide-generation\<close> and status \<open>success\<close>, and absent exactly when
  \<open>errors\<close> has an entry of \<open>guide-generation\<close>; the output path of a guide that is
  present is the one every \<open>guide-generation\<close> step outcome records.
\<close>

theorem guide_field_iff:
  fixes rt session fs options sch
  defines "r \<equiv> runOnboardBot rt session fs options sch"
  shows "(guide r \<noteq> None \<longleftrightarrow>
            (\<exists>s. s \<in> set (steps r) \<and> step s = ''guide-generation'' \<and> status s = ''success''))
       \<and> (guide r = None \<longleftrightarrow> ''guide-generation'' \<in> set (map fst (errors r)))
       \<and> (guide r = Some made \<longrightarrow>
            (\<exists>n. GuideGenerationStep (outputPath made) n \<in> set (steps r))
            \<and> (\<forall>p n. GuideGenerationStep p n \<in> set (steps r) \<longrightarrow> p = outputPath made))"
proof (cases "fst (fst (guideSettled rt session fs options sch))")
  case (Inl e)
  have r: "r = (collected (parallel_phase rt session options sch))
                 \<lparr>errors := errors (collected (parallel_phase rt session options sch))
                            @ [(''guide-generation'', e)]\<rparr>"
    using run_cases(1) [OF Inl] by (simp add: r_def)
  have "step s \<noteq> ''guide-generation''" if "s \<in> set (steps r)" for s
  proof
    assume n: "step s = ''guide-generation''"
    from that have "s \<in> set (steps (collected (parallel_phase rt session options sch)))"
      by (simp add: r)
    then have "step s \<in> set (map step (steps (collected (parallel_phase rt session options sch))))"
      by (simp only: set_map image_eqI)
    with n show False
      using collected_no_guide_step [of rt session options sch] by simp
  qed
  moreover have none: "guide r = None" "''guide-generation'' \<in> set (map fst (errors r))"
    using parallel_guide [of rt session options sch] by (simp_all add: r)
  ultimately have "guide r \<noteq> None \<longleftrightarrow>
            (\<exists>s. s \<in> set (steps r) \<and> step s = ''guide-generation'' \<and> status s = ''success'')"
    and "guide r = None \<longleftrightarrow> ''guide-generation'' \<in> set (map fst (errors r))"
    and "guide r \<noteq> Some made"
    by (blast, blast, simp)
  then show ?thesis by blast
next
  case (Inr g)
  have r: "r = (collected (parallel_phase rt session options sch))
                 \<lparr>steps := steps (collected (parallel_phase rt session options sch))
                            @ [GuideGenerationStep (outputPath g) (utf16_length (content g))],
                  guide := Some g\<rparr>"
    using run_cases(2) [OF Inr] by (simp add: r_def)
  have old: "GuideGenerationStep p n \<notin> set (steps (collected (parallel_phase rt session options sch)))"
    for p n
  proof
    assume "GuideGenerationStep p n \<in> set (steps (collected (parallel_phase rt session options sch)))"
    then have "step (GuideGenerationStep p n)
                 \<in> set (map step (steps (collected (parallel_phase rt session options sch))))"
      by (simp only: set_map image_eqI)
    then show False
      using collected_no_guide_step [of rt session options sch] by simp
  qed
  have noerr: "''guide-generation'' \<notin> set (map fst (errors r))"
    using collected_no_guide_error [of rt session options sch] by (simp add: r)
  have made_step: "GuideGenerationStep (outputPath g) (utf16_length (content g)) \<in> set (steps r)"
    by (simp add: r)
  have some: "guide r = Some g" by (simp add: r)
  have only: "p = outputPath g" if "GuideGenerationStep p n \<in> set (steps r)" for p n
    using that old [of p n] by (simp add: r)
  have names: "step (GuideGenerationStep (outputPath g) (utf16_length (content g))) = ''guide-generation''"
    "status (GuideGenerationStep (outputPath g) (utf16_length (content g))) = ''success''"
    by (simp_all add: status_def)
  have 1: "guide r \<noteq> None \<longleftrightarrow>
            (\<exists>s. s \<in> set (steps r) \<and> step s = ''guide-generation'' \<and> status s = ''success'')"
    using some made_step names by blast
  have 2: "guide r = None \<longleftrightarrow> ''guide-generation'' \<in> set (map fst (errors r))"
    using some noerr by simp
  have 3: "guide r = Some made \<longrightarrow>
            (\<exists>n. GuideGenerationStep (outputPath made) n \<in> set (steps r))
            \<and> (\<forall>p n. GuideGenerationStep p n \<in> set (steps r) \<longrightarrow> p = outputPath made)"
  proof
    assume "guide r = Some made"
    with some have "made = g" by simp
    with made_step only show "(\<exists>n. GuideGenerationStep (outputPath made) n \<in> set (steps r))
            \<and> (\<forall>p n. GuideGenerationStep p n \<in> set (steps r) \<longrightarrow> p = outputPath made)"
      by blast
  qed
  from 1 2 3 show ?thesis by blast
qed

lemma ex_names:
  "map step (steps (runOnboardBot example_runtime norms_timeout empty_filesystem example_options TeamSecond))
     = [''repo-analysis'', ''docs-fetch'', ''guide-generation'']"
  by code_simp

lemma ex_errors:
  "errors (runOnboardBot example_runtime norms_timeout empty_filesystem example_options TeamSecond)
     = [(''team-context'', ''timeout'')]"
  by code_simp

lemma ex_sent:
  "snd (teamSettled norms_timeout example_options)
     = [getRecentTeamsActivity_prompt ''vscode'', getKeyPeople_prompt ''vscode'' ''microsoft/vscode'',
        getUpcomingEvents_prompt ''vscode'', getTeamNorms_prompt ''vscode'']"
  by code_simp

lemma ex_path:
  "map_option outputPath (guide (runOnboardBot example_runtime norms_timeout empty_filesystem example_options TeamSecond))
     = Some ''onboarding-guides/onboarding-microsoft-vscode-2026-02-14.md''"
  by code_simp

lemma ex_repo_sent:
  "snd (repoSettled example_runtime unavailable example_options)
     = [getRepoStructure_prompt ''microsoft'' ''vscode'']"
  by (simp add: repoSettled_def analyzeRepository_def getRepoStructure_def await_def
      sendAndWait_def unavailable_def example_options_def)

lemma ex_docs_sent:
  "snd (docsSettled example_runtime unavailable example_options)
     = [searchArchitectureDocs_prompt []]"
  by (simp add: docsSettled_def repoSettled_def analyzeRepository_def getRepoStructure_def
      await_def sendAndWait_def unavailable_def example_options_def default_analysis_def
      fetchLearningResources_def searchArchitectureDocs_def resolved_def)

lemma ex_unavailable:
  "errors (runOnboardBot example_runtime unavailable empty_filesystem example_options TeamFirst)
     = [(''team-context'', ''service unavailable''), (''repo-analysis'', ''service unavailable''),
        (''docs-fetch'', ''service unavailable''), (''guide-generation'', ''service unavailable'')]"
  by code_simp

text \<open>
  A run in which the fourth call of the team-context collector throws: three step
  outcomes and one error.
\<close>

theorem stage_accounting_witness:
  "count_list (map step (steps (runOnboardBot example_runtime norms_timeout empty_filesystem example_options TeamSecond))) ''team-context''
     + count_list (map fst (errors (runOnboardBot example_runtime norms_timeout empty_filesystem example_options TeamSecond))) ''team-context'' = 1
   \<and> map step (steps (runOnboardBot example_runtime norms_timeout empty_filesystem example_options TeamSecond)) = [''repo-analysis'', ''docs-fetch'', ''guide-generation'']
   \<and> map fst (errors (runOnboardBot example_runtime norms_timeout empty_filesystem example_options TeamSecond)) = [''team-context'']"
proof -
  have "count_list (map step (steps (runOnboardBot example_runtime norms_timeout empty_filesystem example_options TeamSecond))) ''team-context''
          + count_list (map fst (errors (runOnboardBot example_runtime norms_timeout empty_filesystem example_options TeamSecond))) ''team-context'' = 1"
    using stage_accounting [of example_runtime norms_timeout empty_filesystem example_options
        TeamSecond "''team-context''"]
    by (simp add: stage_names_def)
  then show ?thesis
    using ex_names ex_errors by simp
qed

text \<open>
  The team-context collector with its fourth call, for the team norms, throwing.
\<close>

theorem collector_failure_contained_witness:
  "throws_on norms_timeout
     (team_sent (parallel_phase example_runtime norms_timeout example_options TeamSecond))
   \<and> (''team-context'', ''timeout'')
       \<in> set (errors (runOnboardBot example_runtime norms_timeout empty_filesystem example_options TeamSecond))
   \<and> ''team-context''
       \<notin> set (map step (steps (runOnboardBot example_runtime norms_timeout empty_filesystem example_options TeamSecond)))
   \<and> teamContext_of (parallel_phase example_runtime norms_timeout example_options TeamSecond)
       = default_context
   \<and> ''guide-generation''
       \<in> set (map step (steps (runOnboardBot example_runtime norms_timeout empty_filesystem example_options TeamSecond)))
   \<and> throws_on unavailable
       (repo_sent (parallel_phase example_runtime unavailable example_options TeamFirst))
   \<and> throws_on unavailable
       (docs_sent (parallel_phase example_runtime unavailable example_options TeamFirst))
   \<and> ''repo-analysis''
       \<notin> set (map step (steps (runOnboardBot example_runtime unavailable empty_filesystem example_options TeamFirst)))
   \<and> ''docs-fetch''
       \<notin> set (map step (steps (runOnboardBot example_runtime unavailable empty_filesystem example_options TeamFirst)))
   \<and> repoAnalysis_of (parallel_phase example_runtime unavailable example_options TeamFirst)
       = default_analysis example_options
   \<and> learningResources_of (parallel_phase example_runtime unavailable example_options TeamFirst) = []
   \<and> ''guide-generation''
       \<in> set (map fst (errors (runOnboardBot example_runtime unavailable empty_filesystem example_options TeamFirst)))"
proof -
  have "isl (norms_timeout (getTeamNorms_prompt ''vscode''))"
    by (simp add: norms_timeout_def)
  moreover have "getTeamNorms_prompt ''vscode''
      \<in> set (team_sent (parallel_phase example_runtime norms_timeout example_options TeamSecond))"
    by (simp add: parallel_values(5) ex_sent)
  ultimately have t: "throws_on norms_timeout
      (team_sent (parallel_phase example_runtime norms_timeout example_options TeamSecond))"
    unfolding throws_on_def by blast
  have u: "isl (unavailable p)" for p
    by (simp add: unavailable_def)
  have r: "throws_on unavailable
      (repo_sent (parallel_phase example_runtime unavailable example_options TeamFirst))"
    unfolding throws_on_def parallel_values(4) ex_repo_sent using u by auto
  have d: "throws_on unavailable
      (docs_sent (parallel_phase example_runtime unavailable example_options TeamFirst))"
    unfolding throws_on_def parallel_values(6) ex_docs_sent using u by auto
  note team = collector_failure_contained [of norms_timeout example_runtime example_options
      TeamSecond empty_filesystem]
  note both = collector_failure_contained [of unavailable example_runtime example_options
      TeamFirst empty_filesystem]
  from t team have 1: "''team-context''
       \<notin> set (map step (steps (runOnboardBot example_runtime norms_timeout empty_filesystem example_options TeamSecond)))"
    "teamContext_of (parallel_phase example_runtime norms_timeout example_options TeamSecond)
       = default_context"
    by blast+
  from r both have 2: "''repo-analysis''
       \<notin> set (map step (steps (runOnboardBot example_runtime unavailable empty_filesystem example_options TeamFirst)))"
    "repoAnalysis_of (parallel_phase example_runtime unavailable example_options TeamFirst)
       = default_analysis example_options"
    by blast+
  from d both have 3: "''docs-fetch''
       \<notin> set (map step (steps (runOnboardBot example_runtime unavailable empty_filesystem example_options TeamFirst)))"
    "learningResources_of (parallel_phase example_runtime unavailable example_options TeamFirst) = []"
    by blast+
  have 4: "(''team-context'', ''timeout'')
       \<in> set (errors (runOnboardBot example_runtime norms_timeout empty_filesystem example_options TeamSecond))"
    "''guide-generation''
       \<in> set (map step (steps (runOnboardBot example_runtime norms_timeout empty_filesystem example_options TeamSecond)))"
    "''guide-generation''
       \<in> set (map fst (errors (runOnboardBot example_runtime unavailable empty_filesystem example_options TeamFirst)))"
    by (simp_all add: ex_names ex_errors ex_unavailable)
  from t r d 1 2 3 4 show ?thesis by blast
qed

text \<open>
  A session that always throws, and one on which the synthesis succeeds.
\<close>

theorem synthesis_failure_contained_witness:
  "unavailable (synthesisPrompt_of example_runtime unavailable example_options TeamFirst)
     = Inl ''service unavailable''
   \<and> (''guide-generation'', ''service unavailable'') \<in> set (errors (runOnboardBot example_runtime unavailable empty_filesystem example_options TeamFirst))
   \<and> guide (runOnboardBot example_runtime unavailable empty_filesystem example_options TeamFirst) = None
   \<and> ''guide-generation'' \<notin> set (map step (steps (runOnboardBot example_runtime unavailable empty_filesystem example_options TeamFirst)))
   \<and> guide (runOnboardBot example_runtime norms_timeout empty_filesystem example_options TeamSecond) \<noteq> None
   \<and> ''guide-generation'' \<notin> set (map fst (errors (runOnboardBot example_runtime norms_timeout empty_filesystem example_options TeamSecond)))"
proof -
  have u: "unavailable (synthesisPrompt_of example_runtime unavailable example_options TeamFirst)
             = Inl ''service unavailable''"
    by (simp add: unavailable_def)
  have "fst (fst (guideSettled example_runtime unavailable empty_filesystem example_options TeamFirst))
          = Inl ''service unavailable''"
    using u synthesis_failure_contained [of example_runtime unavailable empty_filesystem
        example_options TeamFirst "''service unavailable''"]
    by blast
  then have a: "(''guide-generation'', ''service unavailable'') \<in> set (errors (runOnboardBot example_runtime unavailable empty_filesystem example_options TeamFirst))
      \<and> guide (runOnboardBot example_runtime unavailable empty_filesystem example_options TeamFirst) = None \<and> ''guide-generation'' \<notin> set (map step (steps (runOnboardBot example_runtime unavailable empty_filesystem example_options TeamFirst)))"
    using synthesis_failure_contained [of example_runtime unavailable empty_filesystem
        example_options TeamFirst "''service unavailable''"]
    by blast
  have "guide (runOnboardBot example_runtime norms_timeout empty_filesystem example_options TeamSecond) \<noteq> None \<and> ''guide-generation'' \<notin> set (map fst (errors (runOnboardBot example_runtime norms_timeout empty_filesystem example_options TeamSecond)))"
  proof (cases "fst (fst (guideSettled example_runtime norms_timeout empty_filesystem example_options TeamSecond))")
    case (Inl e)
    then have "(''guide-generation'', e) \<in> set (errors (runOnboardBot example_runtime norms_timeout empty_filesystem example_options TeamSecond))"
      using synthesis_failure_contained [of example_runtime norms_timeout empty_filesystem
          example_options TeamSecond e]
      by blast
    then show ?thesis by (simp add: ex_errors)
  next
    case (Inr made)
    then have "guide (runOnboardBot example_runtime norms_timeout empty_filesystem example_options TeamSecond) = Some made \<and> ''guide-generation'' \<notin> set (map fst (errors (runOnboardBot example_runtime norms_timeout empty_filesystem example_options TeamSecond)))"
      using synthesis_failure_contained [of example_runtime norms_timeout empty_filesystem
          example_options TeamSecond _ made]
      by blast
    then show ?thesis by simp
  qed
  with u a show ?thesis by blast
qed

text \<open>
  A run with a guide and a run without one.
\<close>

theorem guide_field_iff_witness:
  "guide (runOnboardBot example_runtime norms_timeout empty_filesystem example_options TeamSecond) \<noteq> None
   \<and> (\<exists>s. s \<in> set (steps (runOnboardBot example_runtime norms_timeout empty_filesystem example_options TeamSecond))
          \<and> step s = ''guide-generation'' \<and> status s = ''success'')
   \<and> ''guide-generation''
       \<notin> set (map fst (errors (runOnboardBot example_runtime norms_timeout empty_filesystem example_options TeamSecond)))
   \<and> (\<exists>made n. guide (runOnboardBot example_runtime norms_timeout empty_filesystem example_options TeamSecond) = Some made
          \<and> outputPath made = ''onboarding-guides/onboarding-microsoft-vscode-2026-02-14.md''
          \<and> GuideGenerationStep (outputPath made) n
              \<in> set (steps (runOnboardBot example_runtime norms_timeout empty_filesystem example_options TeamSecond)))
   \<and> guide (runOnboardBot example_runtime unavailable empty_filesystem example_options TeamFirst) = None
   \<and> ''guide-generation''
       \<in> set (map fst (errors (runOnboardBot example_runtime unavailable empty_filesystem example_options TeamFirst)))"
proof -
  let ?r0 = "runOnboardBot example_runtime norms_timeout empty_filesystem example_options TeamSecond"
  let ?ru = "runOnboardBot example_runtime unavailable empty_filesystem example_options TeamFirst"
  note a = guide_field_iff [of example_runtime norms_timeout empty_filesystem example_options
      TeamSecond]
  note b = guide_field_iff [of example_runtime unavailable empty_filesystem example_options
      TeamFirst]
  have n0: "''guide-generation'' \<notin> set (map fst (errors ?r0))"
    by (simp add: ex_errors)
  have nU: "''guide-generation'' \<in> set (map fst (errors ?ru))"
    by (simp add: ex_unavailable)
  from n0 a have g: "guide ?r0 \<noteq> None" by blast
  then obtain made where made: "guide ?r0 = Some made" by auto
  with ex_path have p: "outputPath made = ''onboarding-guides/onboarding-microsoft-vscode-2026-02-14.md''"
    by simp
  from made a [of made] obtain n where "GuideGenerationStep (outputPath made) n \<in> set (steps ?r0)"
    by blast
  with made p have 1: "\<exists>made n. guide ?r0 = Some made
          \<and> outputPath made = ''onboarding-guides/onboarding-microsoft-vscode-2026-02-14.md''
          \<and> GuideGenerationStep (outputPath made) n \<in> set (steps ?r0)"
    by blast
  from g a have 2: "\<exists>s. s \<in> set (steps ?r0) \<and> step s = ''guide-generation'' \<and> status s = ''success''"
    by blast
  from nU b have 3: "guide ?ru = None" by blast
  from g 2 n0 1 3 nU show ?thesis by blast
qed

section \<open>Parsed bracket matches are arrays\<close>

lemma array_bottomI:
  "st \<noteq> [] \<Longrightarrow> last st = FArr xs \<Longrightarrow> \<forall>v. m \<noteq> MDone v \<Longrightarrow> array_bottom (m, st)"
  by (cases m) (auto simp: array_bottom_def)

lemma array_bottomD:
  "array_bottom (m, st) \<Longrightarrow> \<forall>v. m \<noteq> MDone v \<Longrightarrow> st \<noteq> [] \<and> (\<exists>xs. last st = FArr xs)"
  by (cases m) (auto simp: array_bottom_def)

lemma push_value_bottom:
  assumes "st \<noteq> []" "last st = FArr xs" "push_value v st = Some ps"
  shows "array_bottom ps"
proof (cases st)
  case Nil
  with assms(1) show ?thesis by simp
next
  case (Cons f st')
  show ?thesis
  proof (cases f)
    case (FArr ys)
    with assms Cons have "ps = (MAfter, FArr (v # ys) # st')" by simp
    moreover have "last (FArr (v # ys) # st') = FArr (if st' = [] then v # ys else xs)"
      using assms(2) Cons FArr by (auto split: if_splits)
    ultimately show ?thesis by (simp add: array_bottomI)
  next
    case (FObj ms)
    with assms Cons show ?thesis by simp
  next
    case (FKey ms k)
    with assms Cons have ps: "ps = (MAfter, FObj ((k, v) # ms) # st')" by simp
    from assms(2) Cons FKey have "st' \<noteq> []" by auto
    with assms(2) Cons have "last (FObj ((k, v) # ms) # st') = FArr xs" by simp
    with ps show ?thesis by (simp add: array_bottomI)
  qed
qed

lemma close_array_bottom:
  assumes "st \<noteq> []" "last st = FArr xs" "close_array st = Some ps"
  shows "array_bottom ps"
proof -
  from assms(3) obtain ys st' where st: "st = FArr ys # st'"
    and p: "push_value (JArray (rev ys)) st' = Some ps"
    by (auto simp: close_array_def split: list.splits frame.splits)
  show ?thesis
  proof (cases "st' = []")
    case True
    with p show ?thesis by (auto simp: array_bottom_def)
  next
    case False
    with assms(2) st have "last st' = FArr xs" by simp
    then show ?thesis using push_value_bottom [OF False _ p] by blast
  qed
qed

lemma close_object_bottom:
  assumes "st \<noteq> []" "last st = FArr xs" "close_object st = Some ps"
  shows "array_bottom ps"
proof -
  from assms(3) obtain ms st' where st: "st = FObj ms # st'"
    and p: "push_value (JObject (rev ms)) st' = Some ps"
    by (auto simp: close_object_def split: list.splits frame.splits)
  from assms(2) st have ne: "st' \<noteq> []" by auto
  with assms(2) st have "last st' = FArr xs" by simp
  then show ?thesis using push_value_bottom [OF ne _ p] by blast
qed

lemma start_value_bottom:
  assumes "st \<noteq> []" "last st = FArr xs" "start_value t st = Some ps"
  shows "array_bottom ps"
proof (cases t)
  case (TValue v)
  with assms(3) have "push_value v st = Some ps" by (simp add: start_value_def)
  with assms(1,2) show ?thesis by (rule push_value_bottom)
next
  case TLBracket
  with assms(3) have "ps = (MValueOrEnd, FArr [] # st)" by (simp add: start_value_def)
  with assms(1,2) show ?thesis by (simp add: array_bottomI)
next
  case TLBrace
  with assms(3) have "ps = (MKeyOrEnd, FObj [] # st)" by (simp add: start_value_def)
  with assms(1,2) show ?thesis by (simp add: array_bottomI)
qed (use assms(3) in \<open>simp_all add: start_value_def\<close>)

lemma read_key_bottom:
  assumes "st \<noteq> []" "last st = FArr xs" "read_key t st = Some ps"
  shows "array_bottom ps"
proof -
  from assms(3) obtain k ms st' where st: "st = FObj ms # st'" and ps: "ps = (MColon, FKey ms k # st')"
    by (auto simp: read_key_def split: token.splits json.splits list.splits frame.splits)
  from assms(2) st have ne: "st' \<noteq> []" by auto
  with assms(2) st have "last (FKey ms k # st') = FArr xs" by simp
  with ps show ?thesis by (simp add: array_bottomI)
qed

lemma parse_step_bottom:
  assumes "array_bottom ps" "parse_step ps t = Some ps'"
  shows "array_bottom ps'"
proof -
  obtain m st where ps: "ps = (m, st)" by (cases ps)
  show ?thesis
  proof (cases "\<exists>v. m = MDone v")
    case True
    with assms(2) ps show ?thesis by auto
  next
    case False
    with assms(1) ps obtain xs where st: "st \<noteq> []" "last st = FArr xs"
      using array_bottomD [of m st] by auto
    note rules = start_value_bottom [OF st] close_array_bottom [OF st]
      close_object_bottom [OF st] read_key_bottom [OF st]
    show ?thesis
    proof (cases m)
      case (MDone v)
      with False show ?thesis by simp
    next
      case MValue
      with assms(2) ps show ?thesis by (simp add: rules)
    next
      case MValueOrEnd
      with assms(2) ps show ?thesis by (simp add: rules split: if_splits)
    next
      case MKeyOrEnd
      with assms(2) ps show ?thesis by (simp add: rules split: if_splits)
    next
      case MKey
      with assms(2) ps show ?thesis by (simp add: rules)
    next
      case MColon
      with assms(2) ps st show ?thesis by (auto simp: array_bottomI split: if_splits)
    next
      case MAfter
      with assms(2) ps st show ?thesis
        by (auto simp: array_bottomI rules split: if_splits list.splits frame.splits)
    qed
  qed
qed

lemma parse_tokens_bottom:
  "array_bottom ps \<Longrightarrow> parse_tokens ps ts = Some v \<Longrightarrow> \<exists>xs. v = JArray xs"
proof (induction ts arbitrary: ps)
  case Nil
  obtain m st where ps: "ps = (m, st)" by (cases ps)
  with Nil show ?case
    by (cases m) (auto simp: array_bottom_def)
next
  case (Cons t ts)
  then show ?case
    by (auto split: option.splits dest: parse_step_bottom)
qed

lemma JSON_parse_bracket:
  assumes "JSON_parse (CHR ''['' # s) = Some v"
  shows "\<exists>xs. v = JArray xs"
proof -
  have "tokenize (CHR ''['' # s) = map_option ((#) TLBracket) (tokenize s)"
    by (simp add: is_ws_def)
  with assms obtain ts where "parse_tokens (MValue, []) (TLBracket # ts) = Some v"
    by (auto simp: JSON_parse_def split: option.splits)
  then have "parse_tokens (MValueOrEnd, [FArr []]) ts = Some v"
    by (simp add: start_value_def)
  moreover have "array_bottom (MValueOrEnd, [FArr []])"
    by (simp add: array_bottom_def)
  ultimately show ?thesis
    by (rule parse_tokens_bottom [rotated])
qed

lemma match_array_bracket:
  assumes "match_array s = Some m"
  shows "\<exists>r. m = CHR ''['' # r"
proof -
  from assms obtain b r where d: "dropWhile (\<lambda>c. c \<noteq> CHR ''['') s = b # r"
    and m: "m = b # takeWhile (\<lambda>c. c \<noteq> CHR '']'') r @ '']''"
    by (auto simp: match_array_def split: list.splits if_splits)
  from d have "\<not> (b \<noteq> CHR ''['')"
    using hd_dropWhile [of "\<lambda>c. c \<noteq> CHR ''[''" s] by simp
  with m show ?thesis by simp
qed

lemma array_response_is_array: "\<exists>xs. array_response message = JArray xs"
  by (auto simp: array_response_def split: option.splits
      dest!: match_array_bracket dest: JSON_parse_bracket)

lemma docs_response_is_array: "\<exists>xs. docs_response message = JArray xs"
  by (auto simp: docs_response_def docs_placeholder_def split: option.splits
      dest!: match_array_bracket dest: JSON_parse_bracket)

section \<open>Properties of the demo session\<close>

lemma rule_matches_code:
  "rule_matches prompt (subs, reply) \<longleftrightarrow> list_ex (str_includes prompt) subs"
  by (auto simp: rule_matches_def list_ex_iff str_includes_occurs)

lemma demo_message_first_match: "demo_message prompt = first_match demo_rules prompt"
  unfolding demo_rules_def demo_message_def
  by (simp add: rule_matches_code)

lemma first_match_none:
  "list_all (\<lambda>rule. \<not> rule_matches prompt rule) rules \<Longrightarrow> first_match rules prompt = ''[]''"
  by (induction rules) simp_all

lemma first_match_first:
  "list_all (\<lambda>rule. \<not> rule_matches prompt rule) before \<Longrightarrow> rule_matches prompt rule \<Longrightarrow>
   first_match (before @ rule # after) prompt = snd rule prompt"
  by (induction before) simp_all

text \<open>
  Claim C10. The demo session answers every prompt and never throws; its message is
  the reply of the first rule, in the fixed order, of which a substring occurs in the
  prompt, and \<open>[]\<close> when no rule matches. The message is a function of the prompt.
\<close>

theorem demo_session_total:
  "createDemoSession prompt = Inr (first_match demo_rules prompt)
   \<and> (list_all (\<lambda>rule. \<not> rule_matches prompt rule) demo_rules
        \<longrightarrow> createDemoSession prompt = Inr ''[]'')
   \<and> (demo_rules = before @ rule # after
        \<and> list_all (\<lambda>rule. \<not> rule_matches prompt rule) before \<and> rule_matches prompt rule
        \<longrightarrow> createDemoSession prompt = Inr (snd rule prompt))"
  using first_match_none [of prompt demo_rules] first_match_first [of prompt before rule after]
  by (auto simp: createDemoSession_def demo_message_first_match)

lemma demo_rules_split:
  "demo_rules = take 2 demo_rules @ (demo_rules ! 2) # drop 3 demo_rules"
  by (simp add: demo_rules_def)

text \<open>
  A prompt that no rule matches, and a prompt that the third and the fourth rule match:
  the third answers.
\<close>

theorem demo_session_total_witness:
  "list_all (\<lambda>rule. \<not> rule_matches ''Say hello.'' rule) demo_rules
   \<and> createDemoSession ''Say hello.'' = Inr ''[]''
   \<and> list_all (\<lambda>rule. \<not> rule_matches ''List the open issues and pull requests.'' rule)
         (take 2 demo_rules)
   \<and> rule_matches ''List the open issues and pull requests.'' (demo_rules ! 2)
   \<and> createDemoSession ''List the open issues and pull requests.'' = Inr demo_pullRequests"
proof -
  have none: "list_all (\<lambda>rule. \<not> rule_matches ''Say hello.'' rule) demo_rules"
    unfolding demo_rules_def by (simp add: rule_matches_code)
  have before: "list_all (\<lambda>rule. \<not> rule_matches ''List the open issues and pull requests.'' rule)
         (take 2 demo_rules)"
    unfolding demo_rules_def by (simp add: rule_matches_code)
  have third: "demo_rules ! 2 = ([''pull requests''], \<lambda>prompt. demo_pullRequests)"
    by (simp add: demo_rules_def)
  have hit: "rule_matches ''List the open issues and pull requests.'' (demo_rules ! 2)"
    unfolding third by (simp add: rule_matches_code)
  have "createDemoSession ''Say hello.'' = Inr ''[]''"
    using demo_session_total [of "''Say hello.''"] none by blast
  moreover have "createDemoSession ''List the open issues and pull requests.''
                   = Inr (snd (demo_rules ! 2) ''List the open issues and pull requests.'')"
    using demo_session_total [of "''List the open issues and pull requests.''"
        "take 2 demo_rules" "demo_rules ! 2" "drop 3 demo_rules"]
      demo_rules_split before hit
    by blast
  ultimately show ?thesis
    using none before hit third by simp
qed

section \<open>Properties of the persisted guide\<close>

lemma segments_no_slash: "CHR ''/'' \<notin> set s \<Longrightarrow> segments cur s = [cur @ s]"
  by (induction s arbitrary: cur) auto

lemma segments_slash:
  "CHR ''/'' \<notin> set a \<Longrightarrow> segments cur (a @ CHR ''/'' # rest) = (cur @ a) # segments [] rest"
  by (induction a arbitrary: cur) auto

lemma segments_join:
  "segs \<noteq> [] \<Longrightarrow> list_all plain_segment segs \<Longrightarrow> segments [] (join_with ''/'' segs) = segs"
proof (induction "''/''" segs rule: join_with.induct)
  case 1
  then show ?case by simp
next
  case (2 x)
  then show ?case by (simp add: segments_no_slash plain_segment_def)
next
  case (3 x y ys)
  then have "CHR ''/'' \<notin> set x" by (simp add: plain_segment_def)
  then have "segments [] (x @ CHR ''/'' # join_with ''/'' (y # ys))
               = x # segments [] (join_with ''/'' (y # ys))"
    using segments_slash [of x "[]"] by simp
  with 3 show ?case by simp
qed

lemma fold_normalize_plain:
  "list_all plain_segment segs \<Longrightarrow> fold (normalize_step b) segs acc = rev segs @ acc"
  by (induction segs arbitrary: acc) (auto simp: normalize_step_def plain_segment_def)

lemma join_with_nonempty:
  "segs \<noteq> [] \<Longrightarrow> list_all plain_segment segs \<Longrightarrow> join_with ''/'' segs \<noteq> []"
  by (induction "''/''" segs rule: join_with.induct) (auto simp: plain_segment_def)

lemma join_with_hd:
  "segs \<noteq> [] \<Longrightarrow> list_all plain_segment segs \<Longrightarrow> hd (join_with ''/'' segs) \<noteq> CHR ''/''"
  by (induction "''/''" segs rule: join_with.induct)
     (auto simp: plain_segment_def hd_append neq_Nil_conv)

lemma join_with_last:
  "segs \<noteq> [] \<Longrightarrow> list_all plain_segment segs \<Longrightarrow> last (join_with ''/'' segs) \<noteq> CHR ''/''"
proof (induction "''/''" segs rule: join_with.induct)
  case 1
  then show ?case by simp
next
  case (2 x)
  then show ?case by (auto simp: plain_segment_def) (metis last_in_set)
next
  case (3 x y ys)
  then have "join_with ''/'' (y # ys) \<noteq> []" by (simp add: join_with_nonempty)
  with 3 show ?case by simp
qed

lemma join_with_snoc:
  "segs \<noteq> [] \<Longrightarrow> join_with sep (segs @ [x]) = join_with sep segs @ sep @ x"
  by (induction sep segs rule: join_with.induct) auto

lemma normalize_relative:
  assumes "segs \<noteq> []" "list_all plain_segment segs"
  shows "path_normalize (join_with ''/'' segs) = join_with ''/'' segs"
proof -
  let ?p = "join_with ''/'' segs"
  have n: "normalizeString b ?p = ?p" for b
    by (simp add: normalizeString_def segments_join [OF assms] fold_normalize_plain [OF assms(2)])
  show ?thesis
    using join_with_nonempty [OF assms] join_with_hd [OF assms] join_with_last [OF assms]
    by (simp add: path_normalize_def Let_def n)
qed

lemma normalize_absolute:
  assumes "segs \<noteq> []" "list_all plain_segment segs"
  shows "path_normalize (CHR ''/'' # join_with ''/'' segs) = CHR ''/'' # join_with ''/'' segs"
proof -
  let ?p = "join_with ''/'' segs"
  have "segments [] (CHR ''/'' # ?p) = [] # segs"
    by (simp add: segments_join [OF assms])
  then have n: "normalizeString b (CHR ''/'' # ?p) = ?p" for b
    by (simp add: normalizeString_def fold_normalize_plain [OF assms(2)] normalize_step_def)
  show ?thesis
    using join_with_nonempty [OF assms] join_with_last [OF assms]
    by (simp add: path_normalize_def Let_def n)
qed

lemma path_join_plain:
  assumes "plain_directory d" "plain_segment f"
  shows "path_join d f = d @ ''/'' @ f"
proof -
  from assms(1) obtain segs where segs: "segs \<noteq> []" "list_all plain_segment segs"
    and d: "d = join_with ''/'' segs \<or> d = CHR ''/'' # join_with ''/'' segs"
    unfolding plain_directory_def by blast
  have all: "segs @ [f] \<noteq> []" "list_all plain_segment (segs @ [f])"
    using segs assms(2) by simp_all
  have f: "f \<noteq> []" using assms(2) by (simp add: plain_segment_def)
  from d show ?thesis
  proof
    assume rel: "d = join_with ''/'' segs"
    then have "d \<noteq> []" using join_with_nonempty [OF segs] by simp
    then have "path_join d f = path_normalize (d @ ''/'' @ f)"
      using f by (simp add: path_join_def)
    also have "d @ ''/'' @ f = join_with ''/'' (segs @ [f])"
      by (simp add: rel join_with_snoc [OF segs(1)])
    finally show ?thesis
      using normalize_relative [OF all] by (simp add: rel join_with_snoc [OF segs(1)])
  next
    assume ab: "d = CHR ''/'' # join_with ''/'' segs"
    then have "path_join d f = path_normalize (d @ ''/'' @ f)"
      using f by (simp add: path_join_def)
    also have "d @ ''/'' @ f = CHR ''/'' # join_with ''/'' (segs @ [f])"
      by (simp add: ab join_with_snoc [OF segs(1)])
    finally show ?thesis
      using normalize_absolute [OF all] by (simp add: ab join_with_snoc [OF segs(1)])
  qed
qed

lemma guide_filename_plain:
  assumes "CHR ''/'' \<notin> set owner" "CHR ''/'' \<notin> set repo" "CHR ''/'' \<notin> set (take 10 (save_time rt))"
  shows "plain_segment (guide_filename rt owner repo)"
  using assms by (auto simp: plain_segment_def guide_filename_def)

lemma saveGuide_success:
  assumes "saveGuide rt fs text owner repo = (Inr path, fs')"
  shows "path = path_join (OUTPUT_DIR rt) (guide_filename rt owner repo)"
    and "fs' = fs\<lparr>directories := insert (OUTPUT_DIR rt) (directories fs),
                  files := (files fs)(path \<mapsto> text)\<rparr>"
    and "OUTPUT_DIR rt \<notin> refused fs" and "files fs (OUTPUT_DIR rt) = None"
    and "path \<notin> refused fs" and "path \<notin> directories fs" and "path \<noteq> OUTPUT_DIR rt"
  using assms
  by (auto simp: saveGuide_def Let_def mkdir_recursive_def writeFile_def
      split: sum.splits if_splits)

lemma saveGuide_again:
  assumes first: "saveGuide rt fs text owner repo = (Inr path, fs')"
    and same_dir: "env_OUTPUT_DIR rt' = env_OUTPUT_DIR rt"
    and same_day: "take 10 (save_time rt') = take 10 (save_time rt)"
  shows "saveGuide rt' fs' text' owner repo = (Inr path, fs'\<lparr>files := (files fs')(path \<mapsto> text')\<rparr>)"
proof -
  have d: "OUTPUT_DIR rt' = OUTPUT_DIR rt"
    using same_dir by (simp add: OUTPUT_DIR_def)
  have n: "guide_filename rt' owner repo = guide_filename rt owner repo"
    using same_day by (simp add: guide_filename_def)
  note s = saveGuide_success [OF first]
  have fs': "directories fs' = insert (OUTPUT_DIR rt) (directories fs)"
    "files fs' = (files fs)(path \<mapsto> text)" "refused fs' = refused fs"
    by (simp_all add: s(2))
  have "mkdir_recursive fs' (OUTPUT_DIR rt) = Inr fs'"
    using s(3,4,7) by (simp add: mkdir_recursive_def fs' insert_absorb)
  moreover have "writeFile fs' path text' = Inr (fs'\<lparr>files := (files fs')(path \<mapsto> text')\<rparr>)"
    using s(5,6,7) by (simp add: writeFile_def fs')
  ultimately show ?thesis
    using s(1) by (simp add: saveGuide_def Let_def d n)
qed

text \<open>
  Claim C8, as amended. When \<open>saveGuide\<close> succeeds, the path it returns is
  \<open>path.join\<close> of the output directory and \<open>onboarding-{owner}-{repo}-{date}.md\<close>, the
  date being the first ten characters of the clock's ISO string; this is the directory,
  a slash and the file name when the directory is a path of plain names and owner, repo
  and date have no slash. The directory is among the directories afterwards and the file
  holds the text. A second run with the same output directory, owner, repo and date
  returns the same path and leaves the file with the second text alone.
\<close>

theorem saveGuide_path:
  assumes "saveGuide rt fs text owner repo = (Inr path, fs')"
  shows "path = path_join (OUTPUT_DIR rt) (guide_filename rt owner repo)
       \<and> guide_filename rt owner repo
           = ''onboarding-'' @ owner @ ''-'' @ repo @ ''-'' @ take 10 (save_time rt) @ ''.md''
       \<and> (plain_directory (OUTPUT_DIR rt) \<and> CHR ''/'' \<notin> set owner \<and> CHR ''/'' \<notin> set repo
            \<and> CHR ''/'' \<notin> set (take 10 (save_time rt))
            \<longrightarrow> path = OUTPUT_DIR rt @ ''/'' @ guide_filename rt owner repo)
       \<and> OUTPUT_DIR rt \<in> directories fs'
       \<and> files fs' path = Some text
       \<and> (env_OUTPUT_DIR rt' = env_OUTPUT_DIR rt \<and> take 10 (save_time rt') = take 10 (save_time rt)
            \<longrightarrow> fst (saveGuide rt' fs' text' owner repo) = Inr path
                \<and> files (snd (saveGuide rt' fs' text' owner repo)) = (files fs')(path \<mapsto> text')
                \<and> files (snd (saveGuide rt' fs' text' owner repo)) path = Some text')"
proof -
  note s = saveGuide_success [OF assms]
  have lit: "path = OUTPUT_DIR rt @ ''/'' @ guide_filename rt owner repo"
    if "plain_directory (OUTPUT_DIR rt)" "CHR ''/'' \<notin> set owner" "CHR ''/'' \<notin> set repo"
      "CHR ''/'' \<notin> set (take 10 (save_time rt))"
    using path_join_plain [OF that(1) guide_filename_plain [OF that(2,3,4)]] s(1) by simp
  have again: "fst (saveGuide rt' fs' text' owner repo) = Inr path
                \<and> files (snd (saveGuide rt' fs' text' owner repo)) = (files fs')(path \<mapsto> text')
                \<and> files (snd (saveGuide rt' fs' text' owner repo)) path = Some text'"
    if "env_OUTPUT_DIR rt' = env_OUTPUT_DIR rt" "take 10 (save_time rt') = take 10 (save_time rt)"
    using saveGuide_again [OF assms that, of text'] by simp
  have "OUTPUT_DIR rt \<in> directories fs'" "files fs' path = Some text"
    by (simp_all add: s(2))
  with s(1) lit again show ?thesis
    by (simp add: guide_filename_def)
qed

lemma plain_guides: "plain_directory (OUTPUT_DIR guides_runtime)"
proof -
  have "OUTPUT_DIR guides_runtime = join_with ''/'' [''guides'']"
    by (simp add: OUTPUT_DIR_def guides_runtime_def example_runtime_def or_else_def)
  moreover have "list_all plain_segment [''guides'']"
    by (simp add: plain_segment_def)
  ultimately show ?thesis
    unfolding plain_directory_def by blast
qed

text \<open>
  The amended claim at the output directory \<open>guides\<close>, with a second run on the same day.
\<close>

theorem saveGuide_path_witness:
  "saveGuide guides_runtime empty_filesystem ''# Welcome'' ''microsoft'' ''vscode''
     = (Inr ''guides/onboarding-microsoft-vscode-2026-02-14.md'',
        empty_filesystem\<lparr>directories := {''guides''},
          files := [''guides/onboarding-microsoft-vscode-2026-02-14.md'' \<mapsto> ''# Welcome'']\<rparr>)
   \<and> plain_directory (OUTPUT_DIR guides_runtime)
   \<and> CHR ''/'' \<notin> set ''microsoft'' \<and> CHR ''/'' \<notin> set ''vscode''
   \<and> CHR ''/'' \<notin> set (take 10 (save_time guides_runtime))
   \<and> ''guides/onboarding-microsoft-vscode-2026-02-14.md''
       = OUTPUT_DIR guides_runtime @ ''/'' @ guide_filename guides_runtime ''microsoft'' ''vscode''
   \<and> fst (saveGuide guides_runtime
            (empty_filesystem\<lparr>directories := {''guides''},
               files := [''guides/onboarding-microsoft-vscode-2026-02-14.md'' \<mapsto> ''# Welcome'']\<rparr>)
            ''# Welcome back'' ''microsoft'' ''vscode'')
       = Inr ''guides/onboarding-microsoft-vscode-2026-02-14.md''
   \<and> files (snd (saveGuide guides_runtime
            (empty_filesystem\<lparr>directories := {''guides''},
               files := [''guides/onboarding-microsoft-vscode-2026-02-14.md'' \<mapsto> ''# Welcome'']\<rparr>)
            ''# Welcome back'' ''microsoft'' ''vscode''))
         ''guides/onboarding-microsoft-vscode-2026-02-14.md''
       = Some ''# Welcome back''"
proof -
  have j: "path_join ''guides'' ''onboarding-microsoft-vscode-2026-02-14.md''
             = ''guides/onboarding-microsoft-vscode-2026-02-14.md''"
    by code_simp
  have run: "saveGuide guides_runtime empty_filesystem ''# Welcome'' ''microsoft'' ''vscode''
     = (Inr ''guides/onboarding-microsoft-vscode-2026-02-14.md'',
        empty_filesystem\<lparr>directories := {''guides''},
          files := [''guides/onboarding-microsoft-vscode-2026-02-14.md'' \<mapsto> ''# Welcome'']\<rparr>)"
    by (simp add: saveGuide_def Let_def OUTPUT_DIR_def guides_runtime_def example_runtime_def
        or_else_def guide_filename_def mkdir_recursive_def writeFile_def empty_filesystem_def j)
  have t: "CHR ''/'' \<notin> set (take 10 (save_time guides_runtime))"
    by (simp add: guides_runtime_def example_runtime_def)
  have o: "CHR ''/'' \<notin> set ''microsoft''" "CHR ''/'' \<notin> set ''vscode''" by simp_all
  note inst = saveGuide_path [OF run, of guides_runtime "''# Welcome back''"]
  have lit: "''guides/onboarding-microsoft-vscode-2026-02-14.md''
       = OUTPUT_DIR guides_runtime @ ''/'' @ guide_filename guides_runtime ''microsoft'' ''vscode''"
    using inst plain_guides t o by blast
  have again: "fst (saveGuide guides_runtime
            (empty_filesystem\<lparr>directories := {''guides''},
               files := [''guides/onboarding-microsoft-vscode-2026-02-14.md'' \<mapsto> ''# Welcome'']\<rparr>)
            ''# Welcome back'' ''microsoft'' ''vscode'')
       = Inr ''guides/onboarding-microsoft-vscode-2026-02-14.md''
   \<and> files (snd (saveGuide guides_runtime
            (empty_filesystem\<lparr>directories := {''guides''},
               files := [''guides/onboarding-microsoft-vscode-2026-02-14.md'' \<mapsto> ''# Welcome'']\<rparr>)
            ''# Welcome back'' ''microsoft'' ''vscode''))
         ''guides/onboarding-microsoft-vscode-2026-02-14.md''
       = Some ''# Welcome back''"
    using inst by blast
  from run plain_guides o t lit again show ?thesis
    by blast
qed

text \<open>
  Claim C8 as stated fails at the default output directory \<open>./onboarding-guides\<close>:
  \<open>path.join\<close> normalises the path, and the leading \<open>./\<close> is gone.
\<close>

theorem saveGuide_path_counterexample:
  "OUTPUT_DIR example_runtime = ''./onboarding-guides''
   \<and> guide_filename example_runtime ''microsoft'' ''vscode''
       = ''onboarding-microsoft-vscode-2026-02-14.md''
   \<and> fst (saveGuide example_runtime empty_filesystem ''# Welcome'' ''microsoft'' ''vscode'')
       = Inr ''onboarding-guides/onboarding-microsoft-vscode-2026-02-14.md''
   \<and> ''onboarding-guides/onboarding-microsoft-vscode-2026-02-14.md''
       \<noteq> ''./onboarding-guides'' @ ''/'' @ ''onboarding-microsoft-vscode-2026-02-14.md''"
proof -
  have j: "path_join ''./onboarding-guides'' ''onboarding-microsoft-vscode-2026-02-14.md''
             = ''onboarding-guides/onboarding-microsoft-vscode-2026-02-14.md''"
    by code_simp
  show ?thesis
    by (simp add: saveGuide_def Let_def OUTPUT_DIR_def example_runtime_def
        guide_filename_def mkdir_recursive_def writeFile_def empty_filesystem_def j)
qed

end
